theory Spec2Isabelle
  imports Complex_Main
begin

section \<open>JavaScript values\<close>

text \<open>
  The handlers work on dynamically typed JSON-like data.  A value is one of the
  JavaScript primitives, an array or a plain object.  A finite number is represented by
  its rational value (so \<open>39.99\<close> is \<open>3999/100\<close> and both zeros are \<open>0\<close>); \<open>NaN\<close> is a
  value of its own.  An object is its list of own properties in insertion order.
\<close>

datatype jsval =
    JUndefined
  | JNull
  | JBool bool
  | JNum rat
  | JNaN
  | JStr string
  | JArr "jsval list"
  | JObj "(string \<times> jsval) list"

type_synonym jsobj = "(string \<times> jsval) list"

datatype js_error = TypeError | Error string

text \<open>\<open>ToBoolean\<close>: what \<open>!v\<close>, \<open>v || w\<close> and \<open>if (v)\<close> test.\<close>

fun truthy :: "jsval \<Rightarrow> bool" where
  "truthy JUndefined = False"
| "truthy JNull = False"
| "truthy (JBool b) = b"
| "truthy (JNum x) = (x \<noteq> 0)"
| "truthy JNaN = False"
| "truthy (JStr s) = (s \<noteq> [])"
| "truthy (JArr xs) = True"
| "truthy (JObj ps) = True"

text \<open>\<open>a || b\<close> on values.\<close>

definition js_or :: "jsval \<Rightarrow> jsval \<Rightarrow> jsval" where
  "js_or a b = (if truthy a then a else b)"

text \<open>Reading an own property of an object: \<open>undefined\<close> when the key is absent.\<close>

definition get :: "jsobj \<Rightarrow> string \<Rightarrow> jsval" where
  "get ps k = (case map_of ps k of None \<Rightarrow> JUndefined | Some v \<Rightarrow> v)"

text \<open>
  \<open>v.k\<close> for one of the data keys used by the handlers: a \<open>TypeError\<close> on \<open>null\<close> and
  \<open>undefined\<close>, the own property on an object, \<open>undefined\<close> on any other value (none of
  the keys read in this development is a built-in property of a primitive or an array).
\<close>

fun nullish :: "jsval \<Rightarrow> bool" where
  "nullish JUndefined = True"
| "nullish JNull = True"
| "nullish v = False"

fun field :: "jsval \<Rightarrow> string \<Rightarrow> jsval" where
  "field (JObj ps) k = get ps k"
| "field v k = JUndefined"

fun isArray :: "jsval \<Rightarrow> bool" where
  "isArray (JArr xs) = True"
| "isArray v = False"

fun isString :: "jsval \<Rightarrow> bool" where
  "isString (JStr s) = True"
| "isString v = False"

section \<open>Access policy: the lead projection\<close>

text \<open>
  \<open>sanitizeLead(lead, user)\<close> of the demo-data variant of \<open>secure-leads-api.js\<close>.
  The clock \<open>now\<close> (milliseconds since the epoch, \<open>new Date()\<close>) is an input.

  \<open>new Date(v)\<close> first converts \<open>v\<close> to a primitive value.  On a primitive that is
  immediate.  A plain object answers with the inherited \<open>toString\<close> unless it has an own
  \<open>toString\<close> entry, which (being data) cannot be called: then the conversion throws a
  \<open>TypeError\<close>.  An array joins the string forms of its elements, and throws when the
  conversion of one of them does.  When the conversion succeeds, \<open>dateOf v\<close> is the time
  value of \<open>new Date(v)\<close> in milliseconds, \<open>None\<close> for an invalid date; \<open>dateOf\<close> is an
  input.  Arithmetic with an invalid date gives \<open>NaN\<close>, and \<open>NaN < 24\<close> is false.
\<close>

fun toPrimitive_throws :: "jsval \<Rightarrow> bool" where
  "toPrimitive_throws (JObj ps) = (''toString'' \<in> fst ` set ps)"
| "toPrimitive_throws (JArr xs) = (\<exists>x \<in> set xs. toPrimitive_throws x)"
| "toPrimitive_throws v = False"

definition hoursSinceSubmission :: "(jsval \<Rightarrow> int option) \<Rightarrow> int \<Rightarrow> jsval \<Rightarrow> rat option" where
  "hoursSinceSubmission dateOf now created =
     (case dateOf created of
        None \<Rightarrow> None
      | Some submissionTime \<Rightarrow> Some (of_int (now - submissionTime) / (1000 * 60 * 60)))"

definition isInExclusiveWindow :: "(jsval \<Rightarrow> int option) \<Rightarrow> int \<Rightarrow> jsval \<Rightarrow> jsval \<Rightarrow> bool" where
  "isInExclusiveWindow dateOf now created buyer =
     ((case hoursSinceSubmission dateOf now created of None \<Rightarrow> False | Some h \<Rightarrow> h < 24)
      \<and> \<not> truthy buyer)"

definition hasContactAccess :: "jsval \<Rightarrow> jsval \<Rightarrow> bool" where
  "hasContactAccess status buyer = (status = JStr ''active'' \<and> \<not> truthy buyer)"

definition placeholders :: jsobj where
  "placeholders =
     [(''firstName'', JStr ''Subscribe''),
      (''lastName'', JStr ''to view''),
      (''email'', JStr ''subscription@required.com''),
      (''phone'', JStr ''***-***-****''),
      (''address'', JStr ''Subscription required to view address'')]"

definition sanitizeLead ::
  "(jsval \<Rightarrow> int option) \<Rightarrow> int \<Rightarrow> jsval \<Rightarrow> jsval \<Rightarrow> js_error + jsobj" where
  "sanitizeLead dateOf now lead user =
     (if nullish lead then Inl TypeError
      else if toPrimitive_throws (field lead ''created_at'') then Inl TypeError
      else if nullish user then Inl TypeError
      else
        let buyer = field lead ''exclusivePurchasedBy'';
            sanitizedLead =
              [(''id'', field lead ''id''),
               (''propertyType'', field lead ''propertyType''),
               (''timeline'', field lead ''timeline''),
               (''details'', js_or (field lead ''details'') (JStr [])),
               (''photos'', if isArray (field lead ''photos'') then field lead ''photos'' else JArr []),
               (''zipCode'', field lead ''zipCode''),
               (''dateSubmitted'', field lead ''dateSubmitted''),
               (''price'', js_or (field lead ''price'') (JNum (3999 / 100))),
               (''isInExclusiveWindow'',
                  JBool (isInExclusiveWindow dateOf now (field lead ''created_at'') buyer)),
               (''exclusivePurchasedBy'', buyer),
               (''exclusivePurchaseDate'', field lead ''exclusivePurchaseDate'')]
        in if hasContactAccess (field user ''subscriptionStatus'') buyer
           then Inr (sanitizedLead @
                  [(''firstName'', field lead ''firstName''),
                   (''lastName'', field lead ''lastName''),
                   (''email'', field lead ''email''),
                   (''phone'', field lead ''phone''),
                   (''address'', field lead ''address'')])
           else Inr (sanitizedLead @ placeholders))"

text \<open>
  The datastore variant of \<open>sanitizeLead\<close> in the same file reads the snake-case columns
  of a \<open>Leads\<close> row.  It calls \<open>.split\<close> on \<open>photo_urls\<close> and on \<open>created_at\<close> whenever
  they are truthy, which throws a \<open>TypeError\<close> unless the value is a string.

  Strings are lists of 8-bit characters (code units above 255 are outside the model);
  \<open>isSpace\<close> is the white space that \<open>trim\<close> removes within that range.
\<close>

definition isSpace :: "char \<Rightarrow> bool" where
  "isSpace c = (of_char c \<in> {9, 10, 11, 12, 13, 32, 160 :: nat})"

definition trim :: "string \<Rightarrow> string" where
  "trim s = rev (dropWhile isSpace (rev (dropWhile isSpace s)))"

text \<open>\<open>s.split(c)\<close> for a one-character separator: never empty, one empty piece on the
  empty string.\<close>

fun split_on :: "char \<Rightarrow> string \<Rightarrow> string list" where
  "split_on c [] = [[]]"
| "split_on c (x # xs) =
     (if x = c then [] # split_on c xs
      else (case split_on c xs of [] \<Rightarrow> [[x]] | y # ys \<Rightarrow> (x # y) # ys))"

definition photos_of :: "jsval \<Rightarrow> js_error + jsval" where
  "photos_of photo_urls =
     (if \<not> truthy photo_urls then Inr (JArr [])
      else (case photo_urls of
              JStr s \<Rightarrow> Inr (JArr (map JStr (filter (\<lambda>url. trim url \<noteq> []) (split_on CHR '' '' s))))
            | _ \<Rightarrow> Inl TypeError))"

definition dateSubmitted_of :: "jsval \<Rightarrow> js_error + jsval" where
  "dateSubmitted_of created_at =
     (if \<not> truthy created_at then Inr JNull
      else (case created_at of
              JStr s \<Rightarrow> Inr (case split_on CHR ''T'' s of [] \<Rightarrow> JUndefined | d # _ \<Rightarrow> JStr d)
            | _ \<Rightarrow> Inl TypeError))"

definition sanitizeLead_db ::
  "(jsval \<Rightarrow> int option) \<Rightarrow> int \<Rightarrow> jsval \<Rightarrow> jsval \<Rightarrow> js_error + jsobj" where
  "sanitizeLead_db dateOf now lead user =
     (if nullish lead then Inl TypeError
      else if toPrimitive_throws (field lead ''created_at'') then Inl TypeError
      else if nullish user then Inl TypeError
      else
        let buyer = field lead ''exclusive_purchased_by'' in
        case photos_of (field lead ''photo_urls'') of
          Inl e \<Rightarrow> Inl e
        | Inr photos \<Rightarrow>
           (case dateSubmitted_of (field lead ''created_at'') of
              Inl e \<Rightarrow> Inl e
            | Inr dateSubmitted \<Rightarrow>
               (let sanitizedLead =
                      [(''id'', field lead ''id''),
                       (''propertyType'', field lead ''property_type''),
                       (''timeline'', field lead ''timeline''),
                       (''details'', js_or (field lead ''details'') (JStr [])),
                       (''photos'', photos),
                       (''zipCode'', field lead ''zip_code''),
                       (''dateSubmitted'', dateSubmitted),
                       (''price'', js_or (field lead ''price'') (JNum (3999 / 100))),
                       (''isInExclusiveWindow'',
                          JBool (isInExclusiveWindow dateOf now (field lead ''created_at'') buyer)),
                       (''exclusivePurchasedBy'', buyer),
                       (''exclusivePurchaseDate'', field lead ''exclusive_purchase_date'')]
                in if hasContactAccess (field user ''subscriptionStatus'') buyer
                   then Inr (sanitizedLead @
                          [(''firstName'', field lead ''first_name''),
                           (''lastName'', field lead ''last_name''),
                           (''email'', field lead ''email''),
                           (''phone'', field lead ''phone''),
                           (''address'', field lead ''address'')])
                   else Inr (sanitizedLead @ placeholders))))"

text \<open>The five contact fields of a projected lead, in the order the code writes them.\<close>

definition contact_keys :: "string list" where
  "contact_keys = [''firstName'', ''lastName'', ''email'', ''phone'', ''address'']"

definition contact_of :: "jsobj \<Rightarrow> jsval list" where
  "contact_of out = map (get out) contact_keys"

text \<open>The first demo lead of \<open>DEMO_LEADS\<close> and a clock that reads the demo timestamps.\<close>

definition demo_lead1 :: jsobj where
  "demo_lead1 =
     [(''id'', JNum 1),
      (''firstName'', JStr ''John''),
      (''lastName'', JStr ''Smith''),
      (''email'', JStr ''john.smith@email.com''),
      (''phone'', JStr ''(555) 123-4567''),
      (''address'', JStr ''123 Main Street, Charlotte, NC 28202''),
      (''zipCode'', JStr ''28202''),
      (''propertyType'', JStr ''house''),
      (''timeline'', JStr ''asap''),
      (''details'', JStr ''Large estate sale with antique furniture, jewelry collection, and household items. Family moving out of state.''),
      (''photos'', JArr [JStr ''https://res.cloudinary.com/demo/image/upload/v1234567890/sample.jpg'',
                        JStr ''https://res.cloudinary.com/demo/image/upload/v1234567891/sample2.jpg'']),
      (''dateSubmitted'', JStr ''2024-01-15''),
      (''price'', JNum (3999 / 100)),
      (''isInExclusiveWindow'', JBool True),
      (''exclusivePurchasedBy'', JNull),
      (''exclusivePurchaseDate'', JNull),
      (''created_at'', JStr ''2024-01-15T10:00:00Z'')]"

definition demo_dateOf :: "jsval \<Rightarrow> int option" where
  "demo_dateOf v =
     (if v = JStr ''2024-01-15T10:00:00Z'' then Some 1705312800000
      else if v = JStr ''2024-01-14T15:30:00Z'' then Some 1705246200000
      else if v = JStr ''2024-01-13T09:15:00Z'' then Some 1705137300000
      else None)"

definition active_user :: jsobj where
  "active_user =
     [(''userId'', JNum 1), (''email'', JStr ''demo@estatesales.com''),
      (''companyName'', JStr ''Demo Estate Sales''), (''subscriptionStatus'', JStr ''active'')]"

text \<open>A value on which the datastore variant may call \<open>.split\<close>: falsy (the call is
  skipped) or a string.\<close>

definition splittable :: "jsval \<Rightarrow> bool" where
  "splittable v = (if truthy v then isString v else True)"

definition demo_row :: jsobj where
  "demo_row =
     [(''id'', JNum 7),
      (''first_name'', JStr ''Mary''),
      (''last_name'', JStr ''Johnson''),
      (''email'', JStr ''mary.johnson@email.com''),
      (''phone'', JStr ''(555) 987-6543''),
      (''address'', JStr ''456 Oak Avenue, Huntersville, NC 28078''),
      (''zip_code'', JStr ''28078''),
      (''property_type'', JStr ''condo''),
      (''timeline'', JStr ''month''),
      (''details'', JStr ''Downsizing sale with furniture, electronics, and collectibles.''),
      (''photo_urls'', JStr ''https://res.cloudinary.com/demo/image/upload/v1234567892/sample3.jpg''),
      (''price'', JNum (3999 / 100)),
      (''created_at'', JStr ''2024-01-14T15:30:00Z''),
      (''purchased_by'', JNull),
      (''exclusive_purchased_by'', JNull),
      (''exclusive_purchase_date'', JNull)]"

definition inactive_user :: jsobj where
  "inactive_user =
     [(''userId'', JNum 2), (''email'', JStr ''premium@estatesales.com''),
      (''companyName'', JStr ''Premium Estate Sales''), (''subscriptionStatus'', JStr ''past_due'')]"



section \<open>Rate limiter: fixed window\<close>

text \<open>
  \<open>checkRateLimit\<close> (\<open>secure-leads-api.js\<close>) and \<open>isRateLimited\<close> (\<open>get-config.js\<close>) have the
  same body up to the constants \<open>windowMs\<close> and \<open>maxRequests\<close> and the shape of the result.
  \<open>rateLimitWindow\<close> is that body with the two constants as parameters; it takes the
  clock \<open>now = Date.now()\<close> and the process-wide \<open>Map\<close>, and returns
  \<open>(allowed, remaining)\<close> with the updated map.
\<close>

record limit_entry =
  count :: int
  resetTime :: int

type_synonym rate_storage = "string \<rightharpoonup> limit_entry"

definition rateLimitWindow ::
  "int \<Rightarrow> int \<Rightarrow> int \<Rightarrow> string \<Rightarrow> rate_storage \<Rightarrow> (bool \<times> int) \<times> rate_storage" where
  "rateLimitWindow windowMs maxRequests now key storage =
     (case storage key of
        None \<Rightarrow>
          ((True, maxRequests - 1),
           storage(key \<mapsto> \<lparr>count = 1, resetTime = now + windowMs\<rparr>))
      | Some userLimit \<Rightarrow>
          if now > resetTime userLimit then
            ((True, maxRequests - 1),
             storage(key \<mapsto> \<lparr>count = 1, resetTime = now + windowMs\<rparr>))
          else if count userLimit \<ge> maxRequests then ((False, 0), storage)
          else
            ((True, maxRequests - (count userLimit + 1)),
             storage(key \<mapsto> userLimit\<lparr>count := count userLimit + 1\<rparr>)))"

text \<open>\<open>checkRateLimit(userId, clientIP)\<close>: one hour, 1000 requests, key
  \<open>`${userId}-${clientIP}`\<close> (\<open>userId\<close> is taken in its string form).\<close>

definition checkRateLimit ::
  "string \<Rightarrow> string \<Rightarrow> int \<Rightarrow> rate_storage \<Rightarrow> (bool \<times> int) \<times> rate_storage" where
  "checkRateLimit userId clientIP now storage =
     rateLimitWindow (60 * 60 * 1000) 1000 now (userId @ ''-'' @ clientIP) storage"

text \<open>\<open>isRateLimited(clientIP)\<close>: one hour, 60 requests; it returns \<open>true\<close> when the
  request is allowed.\<close>

definition isRateLimited :: "string \<Rightarrow> int \<Rightarrow> rate_storage \<Rightarrow> bool \<times> rate_storage" where
  "isRateLimited clientIP now storage =
     (case rateLimitWindow (60 * 60 * 1000) 60 now clientIP storage of
        ((allowed, remaining), storage') \<Rightarrow> (allowed, storage'))"

text \<open>A run of calls with the same key at the given clock readings: the verdicts in
  order and the final map.\<close>

fun run_calls ::
  "int \<Rightarrow> int \<Rightarrow> string \<Rightarrow> int list \<Rightarrow> rate_storage \<Rightarrow> bool list \<times> rate_storage" where
  "run_calls windowMs maxRequests key [] storage = ([], storage)"
| "run_calls windowMs maxRequests key (now # ts) storage =
     (case rateLimitWindow windowMs maxRequests now key storage of
        ((allowed, remaining), storage') \<Rightarrow>
          (case run_calls windowMs maxRequests key ts storage' of
             (rs, storage'') \<Rightarrow> (allowed # rs, storage'')))"

section \<open>Requests, responses and the Companies table\<close>

text \<open>
  A request is its HTTP method and the result of \<open>JSON.parse(event.body)\<close> (\<open>None\<close> when
  parsing throws).  A response is its status code and its body before
  \<open>JSON.stringify\<close>; CORS headers are left out.
\<close>

record event =
  httpMethod :: string
  requestBody :: "jsval option"

record response =
  statusCode :: int
  body :: jsval

text \<open>
  A row of the external \<open>Companies\<close> table, with the columns the handlers read or write;
  \<open>created_at\<close> is in milliseconds since the epoch.  The table is the list of its rows in
  the order the datastore returns them.
\<close>

record company =
  cid :: int
  cemail :: string
  company_name :: string
  first_name :: string
  email_verified :: bool
  account_status :: string
  verification_token :: "string option"
  created_at :: int

definition lower_char :: "char \<Rightarrow> char" where
  "lower_char c =
     (let n = (of_char c :: nat)
      in if (65 \<le> n \<and> n \<le> 90) \<or> (192 \<le> n \<and> n \<le> 222 \<and> n \<noteq> 215)
         then char_of (n + 32) else c)"

definition toLowerCase :: "string \<Rightarrow> string" where
  "toLowerCase s = map lower_char s"

text \<open>\<open>/^[^\s@]+@[^\s@]+\.[^\s@]+$/.test(s)\<close>: no white space, exactly one \<open>@\<close> with a
  non-empty local part, and a dot strictly inside the part after the \<open>@\<close>.\<close>

definition emailRegex_test :: "string \<Rightarrow> bool" where
  "emailRegex_test s =
     (case split_on CHR ''@'' s of
        [local, domain] \<Rightarrow>
          local \<noteq> [] \<and> \<not> list_ex isSpace local \<and> \<not> list_ex isSpace domain \<and>
          CHR ''.'' \<in> set (butlast (tl domain))
      | _ \<Rightarrow> False)"

text \<open>The body of the \<open>500\<close> answer of the outer \<open>catch\<close>: the error message is shown only
  when \<open>NODE_ENV\<close> is \<open>development\<close>.\<close>

definition details_of :: "bool \<Rightarrow> string \<Rightarrow> jsval" where
  "details_of development message = (if development then JStr message else JUndefined)"

section \<open>Resend verification\<close>

text \<open>
  The in-memory \<open>rateLimitStore\<close> of \<open>resend-verification.js\<close> maps a key to the list of
  the times of the recorded attempts.
\<close>

type_synonym attempt_store = "string \<rightharpoonup> int list"

definition resend_windowMs :: int where
  "resend_windowMs = 15 * 60 * 1000"

definition attempts_of :: "attempt_store \<Rightarrow> string \<Rightarrow> int list" where
  "attempts_of store key = (case store key of None \<Rightarrow> [] | Some attempts \<Rightarrow> attempts)"

text \<open>\<open>checkRateLimit(email)\<close> of \<open>resend-verification.js\<close>: \<open>(allowed, retryAfter)\<close>.  The
  oldest attempt is read only when there are at least three recent ones.\<close>

definition checkRateLimit_resend :: "int \<Rightarrow> string \<Rightarrow> attempt_store \<Rightarrow> bool \<times> int option" where
  "checkRateLimit_resend now email store =
     (let windowMs = resend_windowMs;
          maxAttempts = 3;
          key = ''resend_'' @ email;
          attempts = attempts_of store key;
          recentAttempts = filter (\<lambda>timestamp. now - timestamp < windowMs) attempts
      in if length recentAttempts \<ge> maxAttempts then
           (let oldestAttempt = Min (set recentAttempts);
                retryAfter = \<lceil>(of_int (windowMs - (now - oldestAttempt)) :: rat) / 1000\<rceil>
            in (False, Some retryAfter))
         else (True, None))"

definition cleanupRateLimit :: "int \<Rightarrow> attempt_store \<Rightarrow> attempt_store" where
  "cleanupRateLimit now store =
     (\<lambda>key. case store key of
               None \<Rightarrow> None
             | Some attempts \<Rightarrow>
                 (let recentAttempts = filter (\<lambda>timestamp. now - timestamp < resend_windowMs) attempts
                  in if recentAttempts = [] then None else Some recentAttempts))"

text \<open>\<open>recordRateLimitAttempt(email)\<close>; \<open>doCleanup\<close> is the outcome of
  \<open>Math.random() < 0.1\<close> and \<open>nowCleanup\<close> the clock read by \<open>cleanupRateLimit\<close>.\<close>

definition recordRateLimitAttempt ::
  "int \<Rightarrow> bool \<Rightarrow> int \<Rightarrow> string \<Rightarrow> attempt_store \<Rightarrow> attempt_store" where
  "recordRateLimitAttempt now doCleanup nowCleanup email store =
     (let key = ''resend_'' @ email;
          store' = store(key \<mapsto> attempts_of store key @ [now])
      in if doCleanup then cleanupRateLimit nowCleanup store' else store')"

text \<open>
  \<open>findCompanyByEmail\<close> splices the email, unencoded, into the query URL
  \<open>`${SUPABASE_URL}/rest/v1/Companies?email=eq.${email}&select=*`\<close>.  What the
  datastore then filters on is the spliced text only when the text is transparent in a
  URL.  A \<open>#\<close> starts the fragment, which is never sent, so the filter value ends there.
  Text made of letters, digits and \<open>- . _ ~ @\<close> is sent and read as it stands.  How the
  datastore reads any other text (with \<open>&\<close>, \<open>+\<close>, \<open>%\<close> and the like) is the input
  \<open>other\<close>: \<open>Inr v\<close> when it filters on \<open>v\<close>, \<open>Inl message\<close> when the request fails.
\<close>

definition url_plain :: "char \<Rightarrow> bool" where
  "url_plain c =
     (let n = (of_char c :: nat)
      in (48 \<le> n \<and> n \<le> 57) \<or> (65 \<le> n \<and> n \<le> 90) \<or> (97 \<le> n \<and> n \<le> 122) \<or>
         c \<in> set ''-._~@'')"

definition url_filter_value :: "(string \<Rightarrow> string + string) \<Rightarrow> string \<Rightarrow> string + string" where
  "url_filter_value other text =
     (let sent = takeWhile (\<lambda>c. c \<noteq> CHR ''#'') text
      in if list_all url_plain sent then Inr sent else other sent)"

text \<open>
  What a request to the resend handler meets outside the process: the clock readings, the
  outcome of the two datastore calls (\<open>Some message\<close> when the call fails), how the
  datastore reads a filter value that is not plain text, the token that
  \<open>generateVerificationToken\<close> draws, and the configuration.
\<close>

record resend_env =
  nowCheck :: int
  nowRecord :: int
  nowCleanup :: int
  doCleanup :: bool
  queryError :: "string option"
  otherFilter :: "string \<Rightarrow> string + string"
  updateError :: "string option"
  generatedToken :: string
  siteUrl :: string
  development :: bool

record resend_state =
  companies :: "company list"
  rateLimitStore :: attempt_store

text \<open>The first row whose \<open>email\<close> column equals the value.\<close>

definition account_with :: "string \<Rightarrow> company list \<Rightarrow> company option" where
  "account_with v table = find (\<lambda>c. cemail c = v) table"

definition findCompanyByEmail ::
  "(string \<Rightarrow> string + string) \<Rightarrow> string \<Rightarrow> company list \<Rightarrow> string + company option" where
  "findCompanyByEmail other email table =
     (case url_filter_value other email of
        Inl message \<Rightarrow> Inl message
      | Inr v \<Rightarrow> Inr (account_with v table))"

definition updateVerificationToken :: "int \<Rightarrow> string \<Rightarrow> company list \<Rightarrow> company list" where
  "updateVerificationToken companyId newToken table =
     map (\<lambda>c. if cid c = companyId then c\<lparr>verification_token := Some newToken\<rparr> else c) table"

text \<open>\<open>sendVerificationEmail\<close> only prepares and logs the message: \<open>(success, verificationUrl)\<close>.\<close>

definition sendVerificationEmail :: "string \<Rightarrow> string \<Rightarrow> bool \<times> string" where
  "sendVerificationEmail url verificationToken =
     (True, url @ ''/company-verify-email.html?token='' @ verificationToken)"

definition resend_handler :: "resend_env \<Rightarrow> event \<Rightarrow> resend_state \<Rightarrow> response \<times> resend_state" where
  "resend_handler env ev st =
     (if httpMethod ev = ''OPTIONS'' then (\<lparr>statusCode = 200, body = JStr []\<rparr>, st)
      else if httpMethod ev \<noteq> ''POST'' then
        (\<lparr>statusCode = 405, body = JObj [(''error'', JStr ''Method not allowed'')]\<rparr>, st)
      else
        case requestBody ev of
          None \<Rightarrow>
            (\<lparr>statusCode = 400, body = JObj [(''error'', JStr ''Invalid JSON in request body'')]\<rparr>, st)
        | Some requestData \<Rightarrow>
            if nullish requestData then
              (\<lparr>statusCode = 400, body = JObj [(''error'', JStr ''Invalid JSON in request body'')]\<rparr>, st)
            else if \<not> truthy (field requestData ''email'') \<or> \<not> isString (field requestData ''email'') then
              (\<lparr>statusCode = 400, body = JObj [(''error'', JStr ''Email address is required'')]\<rparr>, st)
            else
              let cleanEmail =
                    toLowerCase (trim (case field requestData ''email'' of JStr e \<Rightarrow> e | _ \<Rightarrow> []))
              in if \<not> emailRegex_test cleanEmail \<or> length cleanEmail > 254 then
                   (\<lparr>statusCode = 400,
                     body = JObj [(''error'', JStr ''Invalid email address format'')]\<rparr>, st)
                 else
                   case queryError env of
                     Some message \<Rightarrow>
                       (\<lparr>statusCode = 500,
                         body = JObj [(''error'', JStr ''Internal server error. Please try again later.''),
                                      (''details'', details_of (development env) message)]\<rparr>, st)
                   | None \<Rightarrow>
                      (case findCompanyByEmail (otherFilter env) cleanEmail (companies st) of
                         Inl message \<Rightarrow>
                           (\<lparr>statusCode = 500,
                             body = JObj [(''error'', JStr ''Internal server error. Please try again later.''),
                                          (''details'', details_of (development env) message)]\<rparr>, st)
                       | Inr None \<Rightarrow>
                           (\<lparr>statusCode = 200,
                             body = JObj [(''success'', JBool True),
                                          (''message'', JStr ''If an account with this email exists, a verification email has been sent.'')]\<rparr>,
                            st)
                       | Inr (Some company) \<Rightarrow>
                           if email_verified company then
                             (\<lparr>statusCode = 200,
                               body = JObj [(''success'', JBool True),
                                            (''message'', JStr ''Your email is already verified. You can sign in to your account.''),
                                            (''alreadyVerified'', JBool True)]\<rparr>,
                              st)
                           else
                             (case checkRateLimit_resend (nowCheck env) cleanEmail (rateLimitStore st) of
                                (False, retryAfter) \<Rightarrow>
                                  (\<lparr>statusCode = 429,
                                    body = JObj [(''error'', JStr ''Too many verification emails sent. Please wait before requesting another.''),
                                                 (''retryAfter'',
                                                    case retryAfter of None \<Rightarrow> JUndefined
                                                    | Some r \<Rightarrow> JNum (of_int r))]\<rparr>,
                                   st)
                              | (True, retryAfter) \<Rightarrow>
                                  (case updateError env of
                                     Some message \<Rightarrow>
                                       (\<lparr>statusCode = 500,
                                         body = JObj [(''error'', JStr ''Internal server error. Please try again later.''),
                                                      (''details'',
                                                         details_of (development env)
                                                           (''Failed to update verification token: '' @ message))]\<rparr>,
                                        st)
                                   | None \<Rightarrow>
                                       (let st' = st\<lparr>companies :=
                                                   updateVerificationToken (cid company) (generatedToken env) (companies st)\<rparr>
                                        in case sendVerificationEmail (siteUrl env) (generatedToken env) of
                                             (False, verificationUrl) \<Rightarrow>
                                               (\<lparr>statusCode = 500,
                                                 body = JObj [(''error'', JStr ''Failed to send verification email. Please try again later.'')]\<rparr>,
                                                st')
                                           | (True, verificationUrl) \<Rightarrow>
                                               (\<lparr>statusCode = 200,
                                                 body = JObj [(''success'', JBool True),
                                                              (''message'', JStr ''Verification email sent successfully! Please check your inbox and spam folder.''),
                                                              (''verificationUrl'', JStr verificationUrl)]\<rparr>,
                                                st'\<lparr>rateLimitStore :=
                                                      recordRateLimitAttempt (nowRecord env) (doCleanup env)
                                                        (nowCleanup env) cleanEmail (rateLimitStore st')\<rparr>))))))"

text \<open>A request body \<open>{email: e}\<close>, an unverified account, an unverified account whose
  email has a \<open>#\<close>, and an environment in which both datastore calls succeed and the
  datastore rejects a filter value that is not plain text.\<close>

definition resend_request :: "string \<Rightarrow> event" where
  "resend_request e = \<lparr>httpMethod = ''POST'', requestBody = Some (JObj [(''email'', JStr e)])\<rparr>"

definition pending_company :: company where
  "pending_company =
     \<lparr>cid = 42, cemail = ''owner@acme-estates.com'', company_name = ''Acme Estates'',
      first_name = ''Ann'', email_verified = False, account_status = ''pending_verification'',
      verification_token = Some ''AbCdEfGhIjKlMnOpQrStUvWxYz012345'', created_at = 1705312800000\<rparr>"

definition hash_company :: company where
  "hash_company =
     \<lparr>cid = 43, cemail = ''owner#1@acme-estates.com'', company_name = ''Acme Estates'',
      first_name = ''Ann'', email_verified = False, account_status = ''pending_verification'',
      verification_token = Some ''QrStUvWxYz012345AbCdEfGhIjKlMnOp'', created_at = 1705312800000\<rparr>"

definition resend_env_at :: "int \<Rightarrow> resend_env" where
  "resend_env_at t =
     \<lparr>nowCheck = t, nowRecord = t, nowCleanup = t, doCleanup = False, queryError = None,
      otherFilter = (\<lambda>sent. Inl ''Database query failed: 400''), updateError = None,
      generatedToken = ''Zz00Yy11Xx22Ww33Vv44Uu55Tt66Ss77'',
      siteUrl = ''https://estatesaleconnect.com'', development = False\<rparr>"

text \<open>All clock readings of a request lie between \<open>t1\<close> and \<open>T\<close>.\<close>

definition readings_within :: "int \<Rightarrow> int \<Rightarrow> resend_env \<Rightarrow> bool" where
  "readings_within t1 T env =
     (t1 \<le> nowCheck env \<and> nowCheck env \<le> T \<and> t1 \<le> nowRecord env \<and> nowRecord env \<le> T \<and>
      t1 \<le> nowCleanup env \<and> nowCleanup env \<le> T)"

text \<open>Consecutive requests with the same body, each in its own environment: the
  responses in order and the final state.\<close>

fun resend_run :: "resend_env list \<Rightarrow> event \<Rightarrow> resend_state \<Rightarrow> response list \<times> resend_state" where
  "resend_run [] ev st = ([], st)"
| "resend_run (env # envs) ev st =
     (case resend_handler env ev st of
        (r, st') \<Rightarrow> (case resend_run envs ev st' of (rs, st'') \<Rightarrow> (r # rs, st'')))"

section \<open>Email verification\<close>

text \<open>
  What a request to \<open>verify-email.js\<close> meets outside the process: the clock, the outcome of
  the lookup and of the update (\<open>Some message\<close> when the call fails), and whether
  \<open>NODE_ENV\<close> is \<open>development\<close>.
\<close>

record verify_env =
  v_now :: int
  v_queryError :: "string option"
  v_updateError :: "string option"
  v_development :: bool

text \<open>\<open>token.replace(/[^a-zA-Z0-9]/g, '')\<close>.\<close>

definition isAlnum :: "char \<Rightarrow> bool" where
  "isAlnum c =
     (let n = (of_char c :: nat)
      in (48 \<le> n \<and> n \<le> 57) \<or> (65 \<le> n \<and> n \<le> 90) \<or> (97 \<le> n \<and> n \<le> 122))"

definition sanitizeToken :: "string \<Rightarrow> string" where
  "sanitizeToken token = filter isAlnum token"

text \<open>\<open>findCompanyByToken\<close>: the first row whose \<open>verification_token\<close> equals the token (a
  \<open>null\<close> column matches no token).\<close>

definition findCompanyByToken :: "string \<Rightarrow> company list \<Rightarrow> company option" where
  "findCompanyByToken token table = find (\<lambda>c. verification_token c = Some token) table"

text \<open>The \<open>PATCH\<close> of \<open>updateCompanyVerification\<close> on the rows with the given id.\<close>

definition updateCompanyVerification :: "int \<Rightarrow> company list \<Rightarrow> company list" where
  "updateCompanyVerification companyId table =
     map (\<lambda>c. if cid c = companyId
               then c\<lparr>email_verified := True, account_status := ''email_verified'',
                      verification_token := None\<rparr>
               else c) table"

definition verify_handler :: "verify_env \<Rightarrow> event \<Rightarrow> company list \<Rightarrow> response \<times> company list" where
  "verify_handler env ev table =
     (if httpMethod ev = ''OPTIONS'' then (\<lparr>statusCode = 200, body = JStr []\<rparr>, table)
      else if httpMethod ev \<noteq> ''POST'' then
        (\<lparr>statusCode = 405, body = JObj [(''error'', JStr ''Method not allowed'')]\<rparr>, table)
      else
        case requestBody ev of
          None \<Rightarrow>
            (\<lparr>statusCode = 400, body = JObj [(''error'', JStr ''Invalid JSON in request body'')]\<rparr>, table)
        | Some requestData \<Rightarrow>
            if nullish requestData then
              (\<lparr>statusCode = 400, body = JObj [(''error'', JStr ''Invalid JSON in request body'')]\<rparr>, table)
            else if \<not> truthy (field requestData ''token'') \<or> \<not> isString (field requestData ''token'') then
              (\<lparr>statusCode = 400, body = JObj [(''error'', JStr ''Verification token is required'')]\<rparr>, table)
            else
              let token = (case field requestData ''token'' of JStr t \<Rightarrow> t | _ \<Rightarrow> []);
                  sanitizedToken = sanitizeToken token
              in if length sanitizedToken \<noteq> length token \<or> length sanitizedToken < 16 then
                   (\<lparr>statusCode = 400,
                     body = JObj [(''error'', JStr ''Invalid verification token format'')]\<rparr>, table)
                 else
                   case v_queryError env of
                     Some message \<Rightarrow>
                       (\<lparr>statusCode = 500,
                         body = JObj [(''error'', JStr ''Internal server error during verification. Please try again later.''),
                                      (''details'', details_of (v_development env) message)]\<rparr>, table)
                   | None \<Rightarrow>
                      (case findCompanyByToken sanitizedToken table of
                         None \<Rightarrow>
                           (\<lparr>statusCode = 404,
                             body = JObj [(''error'', JStr ''Invalid or expired verification token. The link may have already been used or expired.'')]\<rparr>,
                            table)
                       | Some company \<Rightarrow>
                           if email_verified company then
                             (\<lparr>statusCode = 200,
                               body = JObj [(''success'', JBool True),
                                            (''message'', JStr ''Email is already verified''),
                                            (''company'', JObj [(''company_name'', JStr (company_name company)),
                                                                (''email'', JStr (cemail company)),
                                                                (''account_status'', JStr (account_status company))]),
                                            (''alreadyVerified'', JBool True)]\<rparr>,
                              table)
                           else
                             let tokenAge = v_now env - created_at company;
                                 maxAge = 24 * 60 * 60 * 1000
                             in if tokenAge > maxAge then
                                  (\<lparr>statusCode = 400,
                                    body = JObj [(''error'', JStr ''Verification token has expired. Please request a new verification email.'')]\<rparr>,
                                   table)
                                else
                                  (case v_updateError env of
                                     Some message \<Rightarrow>
                                       (\<lparr>statusCode = 500,
                                         body = JObj [(''error'', JStr ''Internal server error during verification. Please try again later.''),
                                                      (''details'',
                                                         details_of (v_development env)
                                                           (''Failed to update verification status: '' @ message))]\<rparr>,
                                        table)
                                   | None \<Rightarrow>
                                       (\<lparr>statusCode = 200,
                                         body = JObj [(''success'', JBool True),
                                                      (''message'', JStr ''Email verified successfully! Your account is now active.''),
                                                      (''company'', JObj [(''company_name'', JStr (company_name company)),
                                                                          (''email'', JStr (cemail company)),
                                                                          (''account_status'', JStr ''email_verified''),
                                                                          (''first_name'', JStr (first_name company))])]\<rparr>,
                                        updateCompanyVerification (cid company) table))))"

text \<open>A request body \<open>{token: t}\<close> and an environment in which both datastore calls
  succeed.\<close>

definition verify_request :: "string \<Rightarrow> event" where
  "verify_request t = \<lparr>httpMethod = ''POST'', requestBody = Some (JObj [(''token'', JStr t)])\<rparr>"

definition verify_env_at :: "int \<Rightarrow> verify_env" where
  "verify_env_at t =
     \<lparr>v_now = t, v_queryError = None, v_updateError = None, v_development = False\<rparr>"

section \<open>Token verification on the leads endpoint\<close>

text \<open>
  A request to the leads endpoint: method, headers and query string parameters (both
  string-valued maps; \<open>queryStringParameters\<close> may be missing).
\<close>

record api_event =
  api_method :: string
  headers :: "string \<rightharpoonup> string"
  queryStringParameters :: "(string \<rightharpoonup> string) option"

text \<open>
  \<open>ToNumber\<close> on the values whose conversion does not parse text; the conversion of
  strings, arrays and objects is the parameter \<open>conv\<close> (\<open>None\<close> is \<open>NaN\<close>).
\<close>

fun toNumber :: "(jsval \<Rightarrow> rat option) \<Rightarrow> jsval \<Rightarrow> rat option" where
  "toNumber conv JUndefined = None"
| "toNumber conv JNull = Some 0"
| "toNumber conv (JBool b) = Some (if b then 1 else 0)"
| "toNumber conv (JNum x) = Some x"
| "toNumber conv JNaN = None"
| "toNumber conv v = conv v"

text \<open>\<open>v < n\<close> for a number \<open>n\<close>: numeric comparison, false when \<open>v\<close> converts to \<open>NaN\<close>.\<close>

definition js_less_num :: "(jsval \<Rightarrow> rat option) \<Rightarrow> jsval \<Rightarrow> rat \<Rightarrow> bool" where
  "js_less_num conv v n = (case toNumber conv v of None \<Rightarrow> False | Some x \<Rightarrow> x < n)"

text \<open>
  \<open>authenticateRequest(event)\<close>.  \<open>verify token secret\<close> stands for the call
  \<open>jwt.verify(token, secret)\<close>: the decoded payload, or \<open>None\<close> when it throws.  \<open>JWT_SECRET\<close> is the environment variable.  The result is the error
  message of \<open>{success: false, error}\<close> or the \<open>user\<close> of \<open>{success: true, user}\<close>.
\<close>

definition authenticateRequest ::
  "(string \<Rightarrow> string \<Rightarrow> jsval option) \<Rightarrow> (jsval \<Rightarrow> rat option) \<Rightarrow> string option \<Rightarrow> int \<Rightarrow>
   api_event \<Rightarrow> string + jsobj" where
  "authenticateRequest verify conv JWT_SECRET now ev =
     (let authHeader =
            (case headers ev ''authorization'' of
               None \<Rightarrow> headers ev ''Authorization''
             | Some h \<Rightarrow> if h \<noteq> [] then Some h else headers ev ''Authorization'')
      in case authHeader of
           None \<Rightarrow> Inl ''No valid authorization token provided''
         | Some h \<Rightarrow>
             if h = [] \<or> take 7 h \<noteq> ''Bearer '' then Inl ''No valid authorization token provided''
             else
               let token = drop 7 h;
                   jwtSecret = (case JWT_SECRET of
                                  None \<Rightarrow> ''demo-secret-key-12345''
                                | Some s \<Rightarrow> if s \<noteq> [] then s else ''demo-secret-key-12345'')
               in case verify token jwtSecret of
                    None \<Rightarrow> Inl ''Invalid token''
                  | Some decoded \<Rightarrow>
                      if nullish decoded then Inl ''Invalid token''
                      else if js_less_num conv (field decoded ''exp'') (of_int (now div 1000)) then
                        Inl ''Token expired''
                      else if field decoded ''subscriptionStatus'' \<noteq> JStr ''active'' then
                        Inl ''Active subscription required''
                      else
                        Inr [(''userId'', field decoded ''userId''),
                             (''email'', field decoded ''email''),
                             (''companyName'', field decoded ''companyName''),
                             (''subscriptionStatus'', field decoded ''subscriptionStatus'')])"

text \<open>
  \<open>jwt.verify\<close> of the \<open>jsonwebtoken\<close> library with default options, as the handlers call
  it.  It checks the signature and decodes the payload (\<open>decode token secret\<close>, \<open>None\<close>
  when either fails) and then validates the registered claims against its own reading of
  the clock, \<open>Math.floor(Date.now() / 1000)\<close>: it throws \<open>NotBeforeError\<close> when \<open>nbf\<close> is
  after the clock, \<open>TokenExpiredError\<close> when the clock has reached \<open>exp\<close>, and
  \<open>JsonWebTokenError\<close> when either claim is present and not a number.
\<close>

definition jwt_verify ::
  "(string \<Rightarrow> string \<Rightarrow> jsval option) \<Rightarrow> int \<Rightarrow> string \<Rightarrow> string \<Rightarrow> jsval option" where
  "jwt_verify decode clock token secret =
     (case decode token secret of
        None \<Rightarrow> None
      | Some payload \<Rightarrow>
          let clockTimestamp = (of_int (clock div 1000) :: rat);
              nbf_ok = (case field payload ''nbf'' of
                          JUndefined \<Rightarrow> True
                        | JNum n \<Rightarrow> \<not> n > clockTimestamp
                        | JNaN \<Rightarrow> True
                        | _ \<Rightarrow> False);
              exp_ok = (case field payload ''exp'' of
                          JUndefined \<Rightarrow> True
                        | JNum e \<Rightarrow> \<not> clockTimestamp \<ge> e
                        | JNaN \<Rightarrow> True
                        | _ \<Rightarrow> False)
          in if nbf_ok \<and> exp_ok then Some payload else None)"

text \<open>The secret the handler passes: \<open>process.env.JWT_SECRET || 'demo-secret-key-12345'\<close>.\<close>

definition jwtSecret_of :: "string option \<Rightarrow> string" where
  "jwtSecret_of JWT_SECRET =
     (case JWT_SECRET of
        None \<Rightarrow> ''demo-secret-key-12345''
      | Some s \<Rightarrow> if s \<noteq> [] then s else ''demo-secret-key-12345'')"

text \<open>
  A stand-in for signature checking and decoding: three tokens signed with the demo
  secret, issued for 24 hours as \<open>auth-login.js\<close> does, and a request presenting a bearer
  token.
\<close>

definition demo_claims :: "rat \<Rightarrow> string \<Rightarrow> jsobj" where
  "demo_claims expiry status =
     [(''userId'', JNum 1), (''email'', JStr ''demo@estatesales.com''),
      (''companyName'', JStr ''Demo Estate Sales''), (''subscriptionStatus'', JStr status),
      (''iat'', JNum (expiry - 86400)), (''exp'', JNum expiry)]"

definition demo_decode :: "string \<Rightarrow> string \<Rightarrow> jsval option" where
  "demo_decode token secret =
     (if secret \<noteq> ''demo-secret-key-12345'' then None
      else if token = ''valid.demo.token'' then Some (JObj (demo_claims 1705399200 ''active''))
      else if token = ''old.demo.token'' then Some (JObj (demo_claims 1705000000 ''active''))
      else if token = ''lapsed.demo.token'' then Some (JObj (demo_claims 1705399200 ''past_due''))
      else None)"

definition bearer_request :: "string \<Rightarrow> (string \<rightharpoonup> string) \<Rightarrow> api_event" where
  "bearer_request token query =
     \<lparr>api_method = ''GET'', headers = [''authorization'' \<mapsto> ''Bearer '' @ token],
      queryStringParameters = Some query\<rparr>"


section \<open>The leads listing\<close>

text \<open>
  \<open>parseInt(s)\<close> without a radix: leading white space and a sign are skipped, a \<open>0x\<close> prefix
  selects base 16, and the longest prefix of digits is read; \<open>None\<close> is \<open>NaN\<close>.  The value is
  the exact integer (the rounding of integers beyond \<open>2^53\<close> is not modelled).
\<close>

definition digit_of :: "nat \<Rightarrow> char \<Rightarrow> nat option" where
  "digit_of radix c =
     (let n = (of_char c :: nat);
          d = (if 48 \<le> n \<and> n \<le> 57 then Some (n - 48)
               else if 97 \<le> n \<and> n \<le> 102 then Some (n - 87)
               else if 65 \<le> n \<and> n \<le> 70 then Some (n - 55)
               else None)
      in case d of None \<Rightarrow> None | Some v \<Rightarrow> if v < radix then Some v else None)"

fun read_digits :: "nat \<Rightarrow> string \<Rightarrow> nat list" where
  "read_digits radix [] = []"
| "read_digits radix (c # cs) =
     (case digit_of radix c of None \<Rightarrow> [] | Some v \<Rightarrow> v # read_digits radix cs)"

definition parseInt :: "string \<Rightarrow> int option" where
  "parseInt inputString =
     (let s = dropWhile isSpace inputString;
          negative = (take 1 s = ''-'');
          s1 = (if take 1 s = ''-'' \<or> take 1 s = ''+'' then drop 1 s else s);
          hex = (take 2 s1 = ''0x'' \<or> take 2 s1 = ''0X'');
          radix = (if hex then 16 else 10);
          s2 = (if hex then drop 2 s1 else s1);
          digits = read_digits radix s2
      in if digits = [] then None
         else let magnitude = int (foldl (\<lambda>acc d. acc * radix + d) 0 digits)
              in Some (if negative then - magnitude else magnitude))"

text \<open>\<open>parseInt(s) || fallback\<close>.\<close>

definition parseInt_or :: "string \<Rightarrow> int \<Rightarrow> int" where
  "parseInt_or s fallback =
     (case parseInt s of None \<Rightarrow> fallback | Some n \<Rightarrow> if n = 0 then fallback else n)"

text \<open>\<open>xs.slice(start, end)\<close> with integer arguments.\<close>

definition js_slice :: "'a list \<Rightarrow> int \<Rightarrow> int \<Rightarrow> 'a list" where
  "js_slice xs start end =
     (let len = int (length xs);
          k = (if start < 0 then max (len + start) 0 else min start len);
          final = (if end < 0 then max (len + end) 0 else min end len)
      in take (nat (final - k)) (drop (nat k) xs))"

definition demo_lead2 :: jsobj where
  "demo_lead2 =
     [(''id'', JNum 2),
      (''firstName'', JStr ''Mary''),
      (''lastName'', JStr ''Johnson''),
      (''email'', JStr ''mary.johnson@email.com''),
      (''phone'', JStr ''(555) 987-6543''),
      (''address'', JStr ''456 Oak Avenue, Huntersville, NC 28078''),
      (''zipCode'', JStr ''28078''),
      (''propertyType'', JStr ''condo''),
      (''timeline'', JStr ''month''),
      (''details'', JStr ''Downsizing sale with furniture, electronics, and collectibles. Need professional estate sale company.''),
      (''photos'', JArr [JStr ''https://res.cloudinary.com/demo/image/upload/v1234567892/sample3.jpg'']),
      (''dateSubmitted'', JStr ''2024-01-14''),
      (''price'', JNum (3999 / 100)),
      (''isInExclusiveWindow'', JBool False),
      (''exclusivePurchasedBy'', JNull),
      (''exclusivePurchaseDate'', JNull),
      (''created_at'', JStr ''2024-01-14T15:30:00Z'')]"

definition demo_lead3 :: jsobj where
  "demo_lead3 =
     [(''id'', JNum 3),
      (''firstName'', JStr ''Robert''),
      (''lastName'', JStr ''Williams''),
      (''email'', JStr ''bob.williams@email.com''),
      (''phone'', JStr ''(555) 456-7890''),
      (''address'', JStr ''789 Pine Street, Matthews, NC 28105''),
      (''zipCode'', JStr ''28105''),
      (''propertyType'', JStr ''house''),
      (''timeline'', JStr ''flexible''),
      (''details'', JStr ''Complete household contents including tools, furniture, and vintage items. Timeline is flexible.''),
      (''photos'', JArr []),
      (''dateSubmitted'', JStr ''2024-01-13''),
      (''price'', JNum (3999 / 100)),
      (''isInExclusiveWindow'', JBool False),
      (''exclusivePurchasedBy'', JNull),
      (''exclusivePurchaseDate'', JNull),
      (''created_at'', JStr ''2024-01-13T09:15:00Z'')]"

definition DEMO_LEADS :: "jsval list" where
  "DEMO_LEADS = [JObj demo_lead1, JObj demo_lead2, JObj demo_lead3]"

text \<open>A filter of the listing is applied when its query parameter is a non-empty string.\<close>

definition filter_by :: "string \<Rightarrow> string option \<Rightarrow> jsval list \<Rightarrow> jsval list" where
  "filter_by key param leads =
     (case param of
        None \<Rightarrow> leads
      | Some v \<Rightarrow> if v = [] then leads else filter (\<lambda>lead. field lead key = JStr v) leads)"

definition filteredLeads :: "(string \<rightharpoonup> string) \<Rightarrow> jsval list" where
  "filteredLeads queryParams =
     filter_by ''zipCode'' (queryParams ''zipCode'')
       (filter_by ''propertyType'' (queryParams ''propertyType'')
          (filter_by ''timeline'' (queryParams ''timeline'') DEMO_LEADS))"

definition limitNum :: "(string \<rightharpoonup> string) \<Rightarrow> int" where
  "limitNum queryParams =
     parseInt_or (case queryParams ''limit'' of None \<Rightarrow> ''20'' | Some s \<Rightarrow> s) 20"

definition offsetNum :: "(string \<rightharpoonup> string) \<Rightarrow> int" where
  "offsetNum queryParams =
     parseInt_or (case queryParams ''offset'' of None \<Rightarrow> ''0'' | Some s \<Rightarrow> s) 0"

text \<open>\<open>xs.map(f)\<close> for an \<open>f\<close> that may throw: the first exception ends the map.\<close>

fun map_throwing :: "('a \<Rightarrow> js_error + 'b) \<Rightarrow> 'a list \<Rightarrow> js_error + 'b list" where
  "map_throwing f [] = Inr []"
| "map_throwing f (x # xs) =
     (case f x of
        Inl e \<Rightarrow> Inl e
      | Inr y \<Rightarrow> (case map_throwing f xs of Inl e \<Rightarrow> Inl e | Inr ys \<Rightarrow> Inr (y # ys)))"

text \<open>\<open>error.message\<close>; the text of a \<open>TypeError\<close> is chosen by the engine.\<close>

fun error_message :: "js_error \<Rightarrow> string" where
  "error_message TypeError = ''TypeError''"
| "error_message (Error m) = m"

text \<open>The handler of the demo-data variant of \<open>secure-leads-api.js\<close>.\<close>

definition leads_handler ::
  "(string \<Rightarrow> string \<Rightarrow> jsval option) \<Rightarrow> (jsval \<Rightarrow> rat option) \<Rightarrow> (jsval \<Rightarrow> int option) \<Rightarrow>
   string option \<Rightarrow> int \<Rightarrow> api_event \<Rightarrow> response" where
  "leads_handler verify conv dateOf JWT_SECRET now ev =
     (if api_method ev = ''OPTIONS'' then \<lparr>statusCode = 200, body = JStr []\<rparr>
      else if api_method ev \<noteq> ''GET'' then
        \<lparr>statusCode = 405, body = JObj [(''error'', JStr ''Method not allowed'')]\<rparr>
      else
        case authenticateRequest verify conv JWT_SECRET now ev of
          Inl err \<Rightarrow> \<lparr>statusCode = 401, body = JObj [(''error'', JStr err)]\<rparr>
        | Inr user \<Rightarrow>
            let queryParams = (case queryStringParameters ev of None \<Rightarrow> Map.empty | Some q \<Rightarrow> q);
                filtered = filteredLeads queryParams;
                paginatedLeads =
                  js_slice filtered (offsetNum queryParams) (offsetNum queryParams + limitNum queryParams)
            in case map_throwing (\<lambda>lead. sanitizeLead dateOf now lead (JObj user)) paginatedLeads of
                 Inl e \<Rightarrow>
                   \<lparr>statusCode = 500,
                    body = JObj [(''error'', JStr ''Internal server error''),
                                 (''details'', JStr (error_message e))]\<rparr>
               | Inr sanitizedLeads \<Rightarrow>
                   \<lparr>statusCode = 200,
                    body = JObj
                      [(''success'', JBool True),
                       (''data'', JArr (map JObj sanitizedLeads)),
                       (''meta'', JObj
                          [(''count'', JNum (of_nat (length sanitizedLeads))),
                           (''offset'', JNum (of_int (offsetNum queryParams))),
                           (''limit'', JNum (of_int (limitNum queryParams))),
                           (''hasMore'',
                              JBool (offsetNum queryParams + limitNum queryParams < int (length filtered))),
                           (''total'', JNum (of_nat (length filtered)))])]\<rparr>)"

section \<open>Lead submission: validation\<close>

text \<open>
  \<open>validateLeadData\<close> of \<open>validate-lead-data.js\<close>.  Its helper \<open>sanitizeText\<close> removes
  markup with five calls of \<open>String.prototype.replace\<close>, each with a regular expression
  and the empty replacement.  The built-in is the input \<open>replace\<close>: for each of the five
  patterns a function from strings to strings (on a string, \<open>replace\<close> always returns a
  string).
\<close>

datatype pattern = ScriptTags | IframeTags | JavascriptProtocol | EventHandlers | HtmlTags

definition sanitizeText :: "(pattern \<Rightarrow> string \<Rightarrow> string) \<Rightarrow> jsval \<Rightarrow> nat \<Rightarrow> string" where
  "sanitizeText replace input maxLength =
     (case input of
        JStr s \<Rightarrow>
          let cleaned = trim (replace HtmlTags (replace EventHandlers (replace JavascriptProtocol
                          (replace IframeTags (replace ScriptTags s)))))
          in if length cleaned > maxLength then take maxLength cleaned else cleaned
      | _ \<Rightarrow> [])"

definition isValidEmail :: "string \<Rightarrow> bool" where
  "isValidEmail email = (emailRegex_test email \<and> length email \<le> 254)"

text \<open>\<open>sanitizePhone\<close>: \<open>/[^0-9+\-() ]/g\<close> keeps the digits and \<open>+ - ( )\<close> and the space.\<close>

definition sanitizePhone :: "jsval \<Rightarrow> string" where
  "sanitizePhone phone =
     (case phone of
        JStr s \<Rightarrow>
          let cleaned = trim (filter (\<lambda>c. c \<in> set ''0123456789+-() '') s)
          in if length cleaned \<ge> 10 \<and> length cleaned \<le> 20 then cleaned else []
      | _ \<Rightarrow> [])"

text \<open>\<open>obj.k = v\<close>: the property is replaced where it stands, or added at the end.\<close>

fun assign :: "string \<Rightarrow> jsval \<Rightarrow> jsobj \<Rightarrow> jsobj" where
  "assign k v [] = [(k, v)]"
| "assign k v ((k', v') # ps) = (if k' = k then (k, v) # ps else (k', v') # assign k v ps)"

text \<open>\<open>xs.join(' ')\<close> and \<open>s.startsWith(p)\<close>.\<close>

fun join :: "string list \<Rightarrow> string" where
  "join [] = []"
| "join [x] = x"
| "join (x # y # ys) = x @ '' '' @ join (y # ys)"

definition startsWith :: "string \<Rightarrow> string \<Rightarrow> bool" where
  "startsWith s p = (take (length p) s = p)"

text \<open>
  The two local variables of \<open>validateLeadData\<close>, which it returns as
  \<open>{data: sanitized, errors: errors}\<close>.
\<close>

record validation =
  sanitized :: jsobj
  errors :: "string list"

definition validPropertyTypes :: "string list" where
  "validPropertyTypes = [''house'', ''condo'', ''apartment'', ''storage'', ''other'']"

definition validTimelines :: "string list" where
  "validTimelines = [''asap'', ''month'', ''1-3months'', ''flexible'', ''planning'']"

text \<open>\<open>list.includes(v)\<close> for a list of strings.\<close>

fun js_includes :: "string list \<Rightarrow> jsval \<Rightarrow> bool" where
  "js_includes xs (JStr s) = (s \<in> set xs)"
| "js_includes xs v = False"

text \<open>
  The body of \<open>validateLeadData\<close> is a sequence of blocks, one for each field, each
  reading \<open>data\<close> and updating the two variables.  Each block is a function on their
  state, named after the comment that heads it.
\<close>

definition validate_firstName :: "(pattern \<Rightarrow> string \<Rightarrow> string) \<Rightarrow> jsval \<Rightarrow> validation \<Rightarrow> validation" where
  "validate_firstName replace data st =
     (if \<not> truthy (field data ''firstName'') \<or> \<not> isString (field data ''firstName'') then
        st\<lparr>errors := errors st @ [''First name is required'']\<rparr>
      else
        let firstName = sanitizeText replace (field data ''firstName'') 50;
            st' = st\<lparr>sanitized := assign ''firstName'' (JStr firstName) (sanitized st)\<rparr>
        in if length firstName < 1 then st'\<lparr>errors := errors st' @ [''First name cannot be empty'']\<rparr>
           else st')"

definition validate_lastName :: "(pattern \<Rightarrow> string \<Rightarrow> string) \<Rightarrow> jsval \<Rightarrow> validation \<Rightarrow> validation" where
  "validate_lastName replace data st =
     (if \<not> truthy (field data ''lastName'') \<or> \<not> isString (field data ''lastName'') then
        st\<lparr>errors := errors st @ [''Last name is required'']\<rparr>
      else
        let lastName = sanitizeText replace (field data ''lastName'') 50;
            st' = st\<lparr>sanitized := assign ''lastName'' (JStr lastName) (sanitized st)\<rparr>
        in if length lastName < 1 then st'\<lparr>errors := errors st' @ [''Last name cannot be empty'']\<rparr>
           else st')"

text \<open>In the block for \<open>email\<close> the first test, \<open>!data.email || typeof data.email !== 'string'\<close>,
  holds of every value but a non-empty string.\<close>

definition validate_email :: "jsval \<Rightarrow> validation \<Rightarrow> validation" where
  "validate_email data st =
     (case field data ''email'' of
        JStr email \<Rightarrow>
          if email = [] then st\<lparr>errors := errors st @ [''Email is required'']\<rparr>
          else
            let cleanEmail = toLowerCase (trim email)
            in if \<not> isValidEmail cleanEmail then st\<lparr>errors := errors st @ [''Invalid email format'']\<rparr>
               else st\<lparr>sanitized := assign ''email'' (JStr cleanEmail) (sanitized st)\<rparr>
      | _ \<Rightarrow> st\<lparr>errors := errors st @ [''Email is required'']\<rparr>)"

definition validate_phone :: "jsval \<Rightarrow> validation \<Rightarrow> validation" where
  "validate_phone data st =
     (if \<not> truthy (field data ''phone'') \<or> \<not> isString (field data ''phone'') then
        st\<lparr>errors := errors st @ [''Phone number is required'']\<rparr>
      else
        let phone = sanitizePhone (field data ''phone'');
            st' = st\<lparr>sanitized := assign ''phone'' (JStr phone) (sanitized st)\<rparr>
        in if phone = [] then st'\<lparr>errors := errors st' @ [''Invalid phone number format'']\<rparr>
           else st')"

definition validate_address :: "(pattern \<Rightarrow> string \<Rightarrow> string) \<Rightarrow> jsval \<Rightarrow> validation \<Rightarrow> validation" where
  "validate_address replace data st =
     (if \<not> truthy (field data ''address'') \<or> \<not> isString (field data ''address'') then
        st\<lparr>errors := errors st @ [''Address is required'']\<rparr>
      else
        let address = sanitizeText replace (field data ''address'') 200;
            st' = st\<lparr>sanitized := assign ''address'' (JStr address) (sanitized st)\<rparr>
        in if length address < 10 then
             st'\<lparr>errors := errors st' @ [''Address must be at least 10 characters'']\<rparr>
           else st')"

definition validate_propertyType :: "jsval \<Rightarrow> validation \<Rightarrow> validation" where
  "validate_propertyType data st =
     (if \<not> truthy (field data ''propertyType'') \<or>
         \<not> js_includes validPropertyTypes (field data ''propertyType'') then
        st\<lparr>errors := errors st @ [''Invalid property type'']\<rparr>
      else st\<lparr>sanitized := assign ''propertyType'' (field data ''propertyType'') (sanitized st)\<rparr>)"

definition validate_timeline :: "jsval \<Rightarrow> validation \<Rightarrow> validation" where
  "validate_timeline data st =
     (if \<not> truthy (field data ''timeline'') \<or>
         \<not> js_includes validTimelines (field data ''timeline'') then
        st\<lparr>errors := errors st @ [''Invalid timeline'']\<rparr>
      else st\<lparr>sanitized := assign ''timeline'' (field data ''timeline'') (sanitized st)\<rparr>)"

definition validate_details :: "(pattern \<Rightarrow> string \<Rightarrow> string) \<Rightarrow> jsval \<Rightarrow> validation \<Rightarrow> validation" where
  "validate_details replace data st =
     (if \<not> truthy (field data ''details'') \<or> \<not> isString (field data ''details'') then
        st\<lparr>errors := errors st @ [''Details are required'']\<rparr>
      else
        let details = sanitizeText replace (field data ''details'') 2000;
            st' = st\<lparr>sanitized := assign ''details'' (JStr details) (sanitized st)\<rparr>
        in if length details < 10 then
             st'\<lparr>errors := errors st' @ [''Details must be at least 10 characters'']\<rparr>
           else st')"

definition validate_photoUrls :: "jsval \<Rightarrow> validation \<Rightarrow> validation" where
  "validate_photoUrls data st =
     (let st' = st\<lparr>sanitized := assign ''photoUrls'' (JStr []) (sanitized st)\<rparr>
      in case field data ''photo-urls'' of
           JStr s \<Rightarrow>
             if s = [] then st'
             else
               let urls = filter (\<lambda>url. trim url \<noteq> []) (split_on CHR '' '' s);
                   validUrls = filter (\<lambda>url. startsWith url ''https://res.cloudinary.com/'' \<or>
                                              startsWith url ''data:image/'') urls;
                   validUrls = (if length validUrls > 12 then take 12 validUrls else validUrls)
               in st'\<lparr>sanitized := assign ''photoUrls'' (JStr (join validUrls)) (sanitized st')\<rparr>
         | _ \<Rightarrow> st')"

text \<open>Reading a property of \<open>null\<close> or \<open>undefined\<close> throws.\<close>

definition validateLeadData :: "(pattern \<Rightarrow> string \<Rightarrow> string) \<Rightarrow> jsval \<Rightarrow> js_error + validation" where
  "validateLeadData replace data =
     (if nullish data then Inl TypeError
      else Inr (validate_photoUrls data
                 (validate_details replace data
                   (validate_timeline data
                     (validate_propertyType data
                       (validate_address replace data
                         (validate_phone data
                           (validate_email data
                             (validate_lastName replace data
                               (validate_firstName replace data
                                  \<lparr>sanitized = [], errors = []\<rparr>))))))))))"

text \<open>The required fields of the lead schema, and a submission in which seven of them are
  present and wrong.\<close>

definition lead_fields :: "string list" where
  "lead_fields = [''firstName'', ''lastName'', ''email'', ''phone'', ''address'',
                  ''propertyType'', ''timeline'', ''details'']"

definition bad_submission :: jsobj where
  "bad_submission =
     [(''firstName'', JNum 5), (''lastName'', JBool True), (''email'', JStr ''not-an-email''),
      (''phone'', JStr ''12345''), (''address'', JNull), (''propertyType'', JStr ''castle''),
      (''timeline'', JStr ''asap''), (''details'', JArr [])]"

section \<open>Verified properties\<close>

subsection \<open>Helper facts on objects and the exclusive window\<close>

lemma get_Nil [simp]: "get [] k = JUndefined"
  by (simp add: get_def)

lemma get_Cons [simp]: "get ((k', v) # ps) k = (if k' = k then v else get ps k)"
  by (simp add: get_def)

lemma hours_lt_24:
  "(case hoursSinceSubmission dateOf now c of None \<Rightarrow> False | Some h \<Rightarrow> h < 24)
     = (\<exists>t. dateOf c = Some t \<and> now - t < 24 * 60 * 60 * 1000)"
  by (auto simp: hoursSinceSubmission_def split: option.splits)

lemma isInExclusiveWindow_iff:
  "isInExclusiveWindow dateOf now c b
     = ((\<exists>t. dateOf c = Some t \<and> now - t < 24 * 60 * 60 * 1000) \<and> \<not> truthy b)"
  unfolding isInExclusiveWindow_def hours_lt_24 ..

lemma isInExclusiveWindow_mono:
  assumes "now \<le> now'" and "truthy b \<Longrightarrow> truthy b'"
    and "\<not> isInExclusiveWindow dateOf now c b"
  shows "\<not> isInExclusiveWindow dateOf now' c b'"
  using assms unfolding isInExclusiveWindow_iff by fastforce

lemma sanitizeLead_window:
  "sanitizeLead dateOf now (JObj l) (JObj u) = Inr out \<Longrightarrow>
   get out ''isInExclusiveWindow'' =
     JBool (isInExclusiveWindow dateOf now (get l ''created_at'') (get l ''exclusivePurchasedBy''))"
  by (auto simp: sanitizeLead_def placeholders_def Let_def split: if_splits)

lemma sanitizeLead_total:
  "\<not> toPrimitive_throws (get l ''created_at'') \<Longrightarrow>
   \<exists>out. sanitizeLead dateOf now (JObj l) (JObj u) = Inr out"
  by (simp add: sanitizeLead_def Let_def)

lemma sanitizeLead_throws:
  "toPrimitive_throws (get l ''created_at'') \<Longrightarrow> sanitizeLead dateOf now (JObj l) u = Inl TypeError"
  by (simp add: sanitizeLead_def)

lemma sanitizeLead_contact:
  "sanitizeLead dateOf now (JObj l) (JObj u) = Inr out \<Longrightarrow>
   contact_of out =
     (if get u ''subscriptionStatus'' = JStr ''active'' \<and> \<not> truthy (get l ''exclusivePurchasedBy'')
      then map (get l) contact_keys
      else [JStr ''Subscribe'', JStr ''to view'', JStr ''subscription@required.com'',
            JStr ''***-***-****'', JStr ''Subscription required to view address''])"
  by (auto simp: sanitizeLead_def hasContactAccess_def contact_of_def contact_keys_def
        placeholders_def Let_def split: if_splits)

lemma splittable_converts: "splittable v \<Longrightarrow> \<not> toPrimitive_throws v"
  by (cases v) (auto simp: splittable_def split: if_splits)

lemma photos_of_splittable: "splittable v \<Longrightarrow> \<exists>p. photos_of v = Inr p"
  by (cases v) (auto simp: splittable_def photos_of_def split: if_splits)

lemma dateSubmitted_of_splittable: "splittable v \<Longrightarrow> \<exists>d. dateSubmitted_of v = Inr d"
  by (cases v) (auto simp: splittable_def dateSubmitted_of_def split: if_splits)

lemma sanitizeLead_db_total:
  assumes "splittable (get l ''photo_urls'')" and "splittable (get l ''created_at'')"
  shows "\<exists>out. sanitizeLead_db dateOf now (JObj l) (JObj u) = Inr out"
proof -
  from assms(1) obtain p where p: "photos_of (get l ''photo_urls'') = Inr p"
    using photos_of_splittable by blast
  from assms(2) obtain d where d: "dateSubmitted_of (get l ''created_at'') = Inr d"
    using dateSubmitted_of_splittable by blast
  show ?thesis
    by (simp add: sanitizeLead_db_def Let_def p d splittable_converts [OF assms(2)])
qed

lemma sanitizeLead_db_contact:
  "sanitizeLead_db dateOf now (JObj l) (JObj u) = Inr out \<Longrightarrow>
   contact_of out =
     (if get u ''subscriptionStatus'' = JStr ''active'' \<and> \<not> truthy (get l ''exclusive_purchased_by'')
      then map (get l) [''first_name'', ''last_name'', ''email'', ''phone'', ''address'']
      else [JStr ''Subscribe'', JStr ''to view'', JStr ''subscription@required.com'',
            JStr ''***-***-****'', JStr ''Subscription required to view address''])"
  by (auto simp: sanitizeLead_db_def hasContactAccess_def contact_of_def contact_keys_def
        placeholders_def Let_def split: if_splits sum.splits)

subsection \<open>The lead projection\<close>

text \<open>
  Claim C1.  For every lead object on whose \<open>created_at\<close> the conversion of \<open>new Date\<close>
  does not throw, and every caller object, the demo-data projection \<open>sanitizeLead\<close>
  returns a record whose five contact fields are the lead's raw \<open>firstName\<close>, \<open>lastName\<close>,
  \<open>email\<close>, \<open>phone\<close> and \<open>address\<close> exactly when the caller's \<open>subscriptionStatus\<close> is
  \<open>'active'\<close> and the lead's exclusive buyer is falsy, and are the five fixed placeholders
  otherwise; no record it returns mixes the two.  The datastore variant does the same on
  the snake-case columns for every row whose \<open>photo_urls\<close> and \<open>created_at\<close> are each falsy
  or a string, which is what the lead submission stores.
\<close>

theorem sanitizeLead_contact_fields:
  "(\<not> toPrimitive_throws (get l ''created_at'') \<longrightarrow>
      (\<exists>out. sanitizeLead dateOf now (JObj l) (JObj u) = Inr out))
   \<and> (\<forall>out. sanitizeLead dateOf now (JObj l) (JObj u) = Inr out \<longrightarrow>
      contact_of out =
        (if get u ''subscriptionStatus'' = JStr ''active'' \<and> \<not> truthy (get l ''exclusivePurchasedBy'')
         then [get l ''firstName'', get l ''lastName'', get l ''email'', get l ''phone'', get l ''address'']
         else [JStr ''Subscribe'', JStr ''to view'', JStr ''subscription@required.com'',
               JStr ''***-***-****'', JStr ''Subscription required to view address'']))
   \<and> (splittable (get l ''photo_urls'') \<and> splittable (get l ''created_at'') \<longrightarrow>
       (\<exists>out. sanitizeLead_db dateOf now (JObj l) (JObj u) = Inr out \<and>
          contact_of out =
            (if get u ''subscriptionStatus'' = JStr ''active'' \<and> \<not> truthy (get l ''exclusive_purchased_by'')
             then [get l ''first_name'', get l ''last_name'', get l ''email'', get l ''phone'', get l ''address'']
             else [JStr ''Subscribe'', JStr ''to view'', JStr ''subscription@required.com'',
                   JStr ''***-***-****'', JStr ''Subscription required to view address''])))"
proof (intro conjI impI allI)
  assume "\<not> toPrimitive_throws (get l ''created_at'')"
  then show "\<exists>out. sanitizeLead dateOf now (JObj l) (JObj u) = Inr out"
    by (rule sanitizeLead_total)
next
  fix out
  assume out: "sanitizeLead dateOf now (JObj l) (JObj u) = Inr out"
  from sanitizeLead_contact [OF out]
  show "contact_of out =
        (if get u ''subscriptionStatus'' = JStr ''active'' \<and> \<not> truthy (get l ''exclusivePurchasedBy'')
         then [get l ''firstName'', get l ''lastName'', get l ''email'', get l ''phone'', get l ''address'']
         else [JStr ''Subscribe'', JStr ''to view'', JStr ''subscription@required.com'',
               JStr ''***-***-****'', JStr ''Subscription required to view address''])"
    by (simp add: contact_keys_def)
next
  assume "splittable (get l ''photo_urls'') \<and> splittable (get l ''created_at'')"
  then obtain out where out: "sanitizeLead_db dateOf now (JObj l) (JObj u) = Inr out"
    using sanitizeLead_db_total by blast
  from sanitizeLead_db_contact [OF out] out
  show "\<exists>out. sanitizeLead_db dateOf now (JObj l) (JObj u) = Inr out \<and>
      contact_of out =
        (if get u ''subscriptionStatus'' = JStr ''active'' \<and> \<not> truthy (get l ''exclusive_purchased_by'')
         then [get l ''first_name'', get l ''last_name'', get l ''email'', get l ''phone'', get l ''address'']
         else [JStr ''Subscribe'', JStr ''to view'', JStr ''subscription@required.com'',
               JStr ''***-***-****'', JStr ''Subscription required to view address''])"
    by simp
qed

text \<open>
  The theorem at the first demo lead read by an active subscriber (scenario E: the raw
  contact fields), and at the demo row read by a caller whose subscription is \<open>past_due\<close>
  (the placeholders).
\<close>

theorem sanitizeLead_contact_fields_witness:
  "\<not> toPrimitive_throws (get demo_lead1 ''created_at'') \<and>
   (\<exists>out. sanitizeLead demo_dateOf 1705312800000 (JObj demo_lead1) (JObj active_user) = Inr out \<and>
      contact_of out =
        [JStr ''John'', JStr ''Smith'', JStr ''john.smith@email.com'', JStr ''(555) 123-4567'',
         JStr ''123 Main Street, Charlotte, NC 28202'']) \<and>
   splittable (get demo_row ''photo_urls'') \<and> splittable (get demo_row ''created_at'') \<and>
   (\<exists>out. sanitizeLead_db demo_dateOf 1705312800000 (JObj demo_row) (JObj inactive_user) = Inr out \<and>
      contact_of out =
        [JStr ''Subscribe'', JStr ''to view'', JStr ''subscription@required.com'',
         JStr ''***-***-****'', JStr ''Subscription required to view address''])"
proof -
  have c: "\<not> toPrimitive_throws (get demo_lead1 ''created_at'')"
    by (simp add: demo_lead1_def)
  note th1 = sanitizeLead_contact_fields [of demo_lead1 demo_dateOf 1705312800000 active_user]
  from th1 c obtain out where out:
    "sanitizeLead demo_dateOf 1705312800000 (JObj demo_lead1) (JObj active_user) = Inr out"
    by blast
  with th1 have "contact_of out =
        [JStr ''John'', JStr ''Smith'', JStr ''john.smith@email.com'', JStr ''(555) 123-4567'',
         JStr ''123 Main Street, Charlotte, NC 28202'']"
    by (simp add: demo_lead1_def active_user_def)
  with out have one: "\<exists>out. sanitizeLead demo_dateOf 1705312800000 (JObj demo_lead1) (JObj active_user) = Inr out \<and>
      contact_of out =
        [JStr ''John'', JStr ''Smith'', JStr ''john.smith@email.com'', JStr ''(555) 123-4567'',
         JStr ''123 Main Street, Charlotte, NC 28202'']"
    by blast
  have s: "splittable (get demo_row ''photo_urls'') \<and> splittable (get demo_row ''created_at'')"
    by (simp add: demo_row_def splittable_def)
  have two: "\<exists>out. sanitizeLead_db demo_dateOf 1705312800000 (JObj demo_row) (JObj inactive_user) = Inr out \<and>
      contact_of out =
        [JStr ''Subscribe'', JStr ''to view'', JStr ''subscription@required.com'',
         JStr ''***-***-****'', JStr ''Subscription required to view address'']"
    using sanitizeLead_contact_fields [of demo_row demo_dateOf 1705312800000 inactive_user] s
    by (simp add: demo_row_def inactive_user_def)
  from c one s two show ?thesis by blast
qed

text \<open>
  Claim C2.  The \<open>isInExclusiveWindow\<close> field of the projection is true exactly when the
  lead's creation time is a valid date less than 24 hours before \<open>now\<close> and the exclusive
  buyer is falsy: a record with that field is returned whenever the conversion of
  \<open>new Date\<close> does not throw on \<open>created_at\<close>, and every record returned has it.  It is
  computed from the clock and the lead alone, so once it is false it stays false at any
  later clock, for the same creation time and a buyer that, once recorded, stays recorded.
\<close>

theorem sanitizeLead_isInExclusiveWindow:
  "(\<not> toPrimitive_throws (get l ''created_at'') \<longrightarrow>
     (\<exists>out. sanitizeLead dateOf now (JObj l) (JObj u) = Inr out \<and>
        get out ''isInExclusiveWindow'' =
          JBool ((\<exists>t. dateOf (get l ''created_at'') = Some t \<and> now - t < 24 * 60 * 60 * 1000)
                 \<and> \<not> truthy (get l ''exclusivePurchasedBy''))))
   \<and> (\<forall>out. sanitizeLead dateOf now (JObj l) (JObj u) = Inr out \<longrightarrow>
        get out ''isInExclusiveWindow'' =
          JBool ((\<exists>t. dateOf (get l ''created_at'') = Some t \<and> now - t < 24 * 60 * 60 * 1000)
                 \<and> \<not> truthy (get l ''exclusivePurchasedBy'')))
   \<and> (\<forall>out out'.
        sanitizeLead dateOf now (JObj l) (JObj u) = Inr out \<and>
        sanitizeLead dateOf now' (JObj l') (JObj u') = Inr out' \<and>
        now \<le> now' \<and> get l' ''created_at'' = get l ''created_at'' \<and>
        (truthy (get l ''exclusivePurchasedBy'') \<longrightarrow> truthy (get l' ''exclusivePurchasedBy'')) \<and>
        get out ''isInExclusiveWindow'' = JBool False
        \<longrightarrow> get out' ''isInExclusiveWindow'' = JBool False)"
proof (intro conjI allI impI)
  assume "\<not> toPrimitive_throws (get l ''created_at'')"
  then obtain out where out: "sanitizeLead dateOf now (JObj l) (JObj u) = Inr out"
    using sanitizeLead_total by blast
  from sanitizeLead_window [OF out] out
  show "\<exists>out. sanitizeLead dateOf now (JObj l) (JObj u) = Inr out \<and>
      get out ''isInExclusiveWindow'' =
        JBool ((\<exists>t. dateOf (get l ''created_at'') = Some t \<and> now - t < 24 * 60 * 60 * 1000)
               \<and> \<not> truthy (get l ''exclusivePurchasedBy''))"
    by (simp add: isInExclusiveWindow_iff)
next
  fix out
  assume out: "sanitizeLead dateOf now (JObj l) (JObj u) = Inr out"
  from sanitizeLead_window [OF out]
  show "get out ''isInExclusiveWindow'' =
        JBool ((\<exists>t. dateOf (get l ''created_at'') = Some t \<and> now - t < 24 * 60 * 60 * 1000)
               \<and> \<not> truthy (get l ''exclusivePurchasedBy''))"
    by (simp add: isInExclusiveWindow_iff)
next
  fix out out'
  assume a: "sanitizeLead dateOf now (JObj l) (JObj u) = Inr out \<and>
        sanitizeLead dateOf now' (JObj l') (JObj u') = Inr out' \<and>
        now \<le> now' \<and> get l' ''created_at'' = get l ''created_at'' \<and>
        (truthy (get l ''exclusivePurchasedBy'') \<longrightarrow> truthy (get l' ''exclusivePurchasedBy'')) \<and>
        get out ''isInExclusiveWindow'' = JBool False"
  then have w: "\<not> isInExclusiveWindow dateOf now (get l ''created_at'') (get l ''exclusivePurchasedBy'')"
    using sanitizeLead_window [of dateOf now l u out] by simp
  have "\<not> isInExclusiveWindow dateOf now' (get l ''created_at'') (get l' ''exclusivePurchasedBy'')"
    by (rule isInExclusiveWindow_mono [OF _ _ w]) (use a in auto)
  then show "get out' ''isInExclusiveWindow'' = JBool False"
    using a sanitizeLead_window [of dateOf now' l' u' out'] by simp
qed

text \<open>
  The theorem at the first demo lead: one hour after submission it is in the window; 30
  hours after submission it is not (scenario D), and so it is not 40 hours after
  submission either.
\<close>

theorem sanitizeLead_isInExclusiveWindow_witness:
  "(\<exists>out. sanitizeLead demo_dateOf (1705312800000 + 3600000) (JObj demo_lead1) (JObj active_user) = Inr out \<and>
      get out ''isInExclusiveWindow'' = JBool True) \<and>
   (\<exists>out. sanitizeLead demo_dateOf (1705312800000 + 30 * 3600000) (JObj demo_lead1) (JObj inactive_user) = Inr out \<and>
      get out ''isInExclusiveWindow'' = JBool False) \<and>
   (\<exists>out. sanitizeLead demo_dateOf (1705312800000 + 40 * 3600000) (JObj demo_lead1) (JObj inactive_user) = Inr out \<and>
      get out ''isInExclusiveWindow'' = JBool False)"
proof -
  have c: "\<not> toPrimitive_throws (get demo_lead1 ''created_at'')"
    by (simp add: demo_lead1_def)
  have d: "demo_dateOf (get demo_lead1 ''created_at'') = Some 1705312800000"
    by (simp add: demo_lead1_def demo_dateOf_def)
  have b: "\<not> truthy (get demo_lead1 ''exclusivePurchasedBy'')"
    by (simp add: demo_lead1_def)
  have one: "\<exists>out. sanitizeLead demo_dateOf (1705312800000 + 3600000) (JObj demo_lead1) (JObj active_user) = Inr out \<and>
      get out ''isInExclusiveWindow'' = JBool True"
    using sanitizeLead_isInExclusiveWindow
      [where dateOf = demo_dateOf and now = "1705312800000 + 3600000" and l = demo_lead1
         and u = active_user and now' = 0 and l' = "[]" and u' = "[]", THEN conjunct1] c
    by (simp add: d b)
  have two: "\<exists>out. sanitizeLead demo_dateOf (1705312800000 + 30 * 3600000) (JObj demo_lead1) (JObj inactive_user) = Inr out \<and>
      get out ''isInExclusiveWindow'' = JBool False"
    using sanitizeLead_isInExclusiveWindow
      [where dateOf = demo_dateOf and now = "1705312800000 + 30 * 3600000" and l = demo_lead1
         and u = inactive_user and now' = 0 and l' = "[]" and u' = "[]", THEN conjunct1] c
    by (simp add: d b)
  then obtain out where out:
    "sanitizeLead demo_dateOf (1705312800000 + 30 * 3600000) (JObj demo_lead1) (JObj inactive_user) = Inr out"
    "get out ''isInExclusiveWindow'' = JBool False"
    by blast
  obtain out' where out':
    "sanitizeLead demo_dateOf (1705312800000 + 40 * 3600000) (JObj demo_lead1) (JObj inactive_user) = Inr out'"
    using sanitizeLead_total [OF c] by blast
  have "get out' ''isInExclusiveWindow'' = JBool False"
    using sanitizeLead_isInExclusiveWindow
      [where dateOf = demo_dateOf and now = "1705312800000 + 30 * 3600000" and l = demo_lead1
         and u = inactive_user and now' = "1705312800000 + 40 * 3600000" and l' = demo_lead1
         and u' = inactive_user, THEN conjunct2, THEN conjunct2, rule_format, of out out']
      out out'
    by simp
  with out' have three: "\<exists>out. sanitizeLead demo_dateOf (1705312800000 + 40 * 3600000) (JObj demo_lead1) (JObj inactive_user) = Inr out \<and>
      get out ''isInExclusiveWindow'' = JBool False"
    by blast
  from one two three show ?thesis by blast
qed




subsection \<open>The fixed-window rate limiter\<close>

lemma rateLimitWindow_first:
  "storage key = None \<Longrightarrow>
   rateLimitWindow W N now key storage =
     ((True, N - 1), storage(key \<mapsto> \<lparr>count = 1, resetTime = now + W\<rparr>))"
  by (simp add: rateLimitWindow_def)

lemma rateLimitWindow_expired:
  "storage key = Some e \<Longrightarrow> resetTime e < now \<Longrightarrow>
   rateLimitWindow W N now key storage =
     ((True, N - 1), storage(key \<mapsto> \<lparr>count = 1, resetTime = now + W\<rparr>))"
  by (simp add: rateLimitWindow_def)

lemma rateLimitWindow_within:
  "storage key = Some e \<Longrightarrow> now \<le> resetTime e \<Longrightarrow>
   rateLimitWindow W N now key storage =
     (if count e < N
      then ((True, N - (count e + 1)), storage(key \<mapsto> e\<lparr>count := count e + 1\<rparr>))
      else ((False, 0), storage))"
  by (simp add: rateLimitWindow_def)

lemma run_calls_Cons_fst:
  "rateLimitWindow W N t key storage = ((a, r), storage') \<Longrightarrow>
   fst (run_calls W N key (t # ts) storage) = a # fst (run_calls W N key ts storage')"
  by (simp split: prod.splits)

lemma run_calls_within:
  "storage key = Some e \<Longrightarrow> \<forall>t \<in> set ts. t \<le> resetTime e \<Longrightarrow>
   fst (run_calls W N key ts storage) = map (\<lambda>i. count e + int i < N) [0..<length ts]"
proof (induction ts arbitrary: storage e)
  case Nil
  then show ?case by simp
next
  case (Cons t ts)
  have t: "t \<le> resetTime e" using Cons.prems(2) by simp
  have shift: "map (\<lambda>i. count e + int i < N) [0..<length (t # ts)]
      = (count e < N) # map (\<lambda>i. count e + 1 + int i < N) [0..<length ts]"
    by (simp add: upt_conv_Cons map_Suc_upt [symmetric] del: upt_Suc) (auto simp: algebra_simps)
  note w = rateLimitWindow_within [of storage key e t W N, OF Cons.prems(1) t]
  show ?case
  proof (cases "count e < N")
    case True
    let ?e' = "e\<lparr>count := count e + 1\<rparr>"
    let ?s' = "storage(key \<mapsto> ?e')"
    have step: "rateLimitWindow W N t key storage = ((True, N - (count e + 1)), ?s')"
      using w True by simp
    have "fst (run_calls W N key ts ?s') = map (\<lambda>i. count ?e' + int i < N) [0..<length ts]"
      by (rule Cons.IH) (use Cons.prems(2) in simp_all)
    then show ?thesis
      unfolding shift run_calls_Cons_fst [OF step] using True by simp
  next
    case False
    have step: "rateLimitWindow W N t key storage = ((False, 0), storage)"
      using w False by simp
    have ih: "fst (run_calls W N key ts storage) = map (\<lambda>i. count e + int i < N) [0..<length ts]"
      by (rule Cons.IH) (use Cons.prems in simp_all)
    have "map (\<lambda>i. count e + int i < N) [0..<length ts] = map (\<lambda>i. count e + 1 + int i < N) [0..<length ts]"
      using False by auto
    then show ?thesis
      unfolding shift run_calls_Cons_fst [OF step] using False ih by simp
  qed
qed

lemma map_lt_Suc:
  "map (\<lambda>i. 1 + int i < int m + 1) [0..<Suc m] = replicate m True @ [False]"
proof -
  have "map (\<lambda>i. 1 + int i < int m + 1) [0..<m] = replicate m True"
    by (rule nth_equalityI) auto
  then show ?thesis by simp
qed

lemma map_lt_replicate:
  assumes "0 < N"
  shows "map (\<lambda>i. 1 + int i < N) [0..<nat N] = replicate (nat N - 1) True @ [False]"
proof -
  obtain m where m: "nat N = Suc m" using assms by (cases "nat N") auto
  then have Nm: "N = int m + 1" using assms by linarith
  show ?thesis
    unfolding m unfolding Nm using map_lt_Suc [of m] by simp
qed

lemma run_calls_fresh:
  assumes "0 < N" and "storage key = None" and "length ts = nat N"
    and "\<forall>t \<in> set ts. t \<le> t0 + W"
  shows "fst (run_calls W N key (t0 # ts) storage) = replicate (nat N) True @ [False]"
proof -
  let ?e = "\<lparr>count = 1, resetTime = t0 + W\<rparr>"
  let ?s = "storage(key \<mapsto> ?e)"
  have step: "rateLimitWindow W N t0 key storage = ((True, N - 1), ?s)"
    using rateLimitWindow_first [of storage key W N t0] assms(2) by simp
  have "fst (run_calls W N key ts ?s) = map (\<lambda>i. count ?e + int i < N) [0..<length ts]"
    by (rule run_calls_within) (use assms(4) in simp_all)
  then have rest: "fst (run_calls W N key ts ?s) = replicate (nat N - 1) True @ [False]"
    using map_lt_replicate [OF assms(1)] assms(3) by simp
  have "True # replicate (nat N - 1) True = replicate (nat N) True"
    using assms(1) by (cases "nat N") auto
  then have "True # (replicate (nat N - 1) True @ [False]) = replicate (nat N) True @ [False]"
    by (simp only: append_Cons [symmetric])
  then show ?thesis
    unfolding run_calls_Cons_fst [OF step] rest .
qed

text \<open>
  Claim C6.  For every key, window length \<open>W\<close> and maximum \<open>N\<close>: the first use of a key
  stores count 1 with reset time \<open>now + W\<close> and is allowed; a later use before the reset
  time is allowed exactly when the stored count is below \<open>N\<close>, and then the count is
  incremented (a rejected call leaves the map unchanged); a use after the reset time is
  allowed and starts a new window with count 1.  Hence, for a positive \<open>N\<close>, of \<open>N + 1\<close>
  calls with a fresh key that all fall within the first call's window, the first \<open>N\<close> are
  allowed and the last is rejected.  \<open>checkRateLimit\<close> and \<open>isRateLimited\<close> are this limiter
  for one hour with 1000 and 60 requests.
\<close>

theorem rateLimitWindow_fixed_window:
  "(storage key = None \<longrightarrow>
      rateLimitWindow W N now key storage =
        ((True, N - 1), storage(key \<mapsto> \<lparr>count = 1, resetTime = now + W\<rparr>)))
   \<and> (storage key = Some e \<and> now < resetTime e \<longrightarrow>
        fst (fst (rateLimitWindow W N now key storage)) = (count e < N) \<and>
        snd (rateLimitWindow W N now key storage) =
          (if count e < N then storage(key \<mapsto> e\<lparr>count := count e + 1\<rparr>) else storage))
   \<and> (storage key = Some e \<and> resetTime e < now \<longrightarrow>
        fst (fst (rateLimitWindow W N now key storage)) = True \<and>
        snd (rateLimitWindow W N now key storage) =
          storage(key \<mapsto> \<lparr>count = 1, resetTime = now + W\<rparr>))
   \<and> (0 < N \<and> storage key = None \<and> length ts = nat N \<and> (\<forall>t \<in> set ts. t \<le> start + W) \<longrightarrow>
        fst (run_calls W N key (start # ts) storage) = replicate (nat N) True @ [False])
   \<and> checkRateLimit userId clientIP now storage =
        rateLimitWindow 3600000 1000 now (userId @ ''-'' @ clientIP) storage
   \<and> isRateLimited clientIP now storage =
        (fst (fst (rateLimitWindow 3600000 60 now clientIP storage)),
         snd (rateLimitWindow 3600000 60 now clientIP storage))"
proof (intro conjI impI)
  show "checkRateLimit userId clientIP now storage =
        rateLimitWindow 3600000 1000 now (userId @ ''-'' @ clientIP) storage"
    by (simp add: checkRateLimit_def)
  show "isRateLimited clientIP now storage =
        (fst (fst (rateLimitWindow 3600000 60 now clientIP storage)),
         snd (rateLimitWindow 3600000 60 now clientIP storage))"
    by (simp add: isRateLimited_def split: prod.splits)
next
  assume "storage key = None"
  then show "rateLimitWindow W N now key storage =
        ((True, N - 1), storage(key \<mapsto> \<lparr>count = 1, resetTime = now + W\<rparr>))"
    by (rule rateLimitWindow_first)
next
  assume a: "storage key = Some e \<and> now < resetTime e"
  then have "rateLimitWindow W N now key storage =
     (if count e < N
      then ((True, N - (count e + 1)), storage(key \<mapsto> e\<lparr>count := count e + 1\<rparr>))
      else ((False, 0), storage))"
    using rateLimitWindow_within [of storage key e now W N] by simp
  then show "fst (fst (rateLimitWindow W N now key storage)) = (count e < N)"
    and "snd (rateLimitWindow W N now key storage) =
          (if count e < N then storage(key \<mapsto> e\<lparr>count := count e + 1\<rparr>) else storage)"
    by simp_all
next
  assume a: "storage key = Some e \<and> resetTime e < now"
  then have "rateLimitWindow W N now key storage =
     ((True, N - 1), storage(key \<mapsto> \<lparr>count = 1, resetTime = now + W\<rparr>))"
    using rateLimitWindow_expired [of storage key e now W N] by simp
  then show "fst (fst (rateLimitWindow W N now key storage)) = True"
    and "snd (rateLimitWindow W N now key storage) =
          storage(key \<mapsto> \<lparr>count = 1, resetTime = now + W\<rparr>)"
    by simp_all
next
  assume "0 < N \<and> storage key = None \<and> length ts = nat N \<and> (\<forall>t \<in> set ts. t \<le> start + W)"
  then show "fst (run_calls W N key (start # ts) storage) = replicate (nat N) True @ [False]"
    using run_calls_fresh [of N storage key ts start W] by simp
qed

text \<open>
  The theorem at the configuration endpoint's limiter: of 61 requests from one address
  within the hour, the first 60 pass and the 61st is rejected; with the counter at 60, a
  request one millisecond before the reset time is rejected and a request one millisecond
  after it is allowed and restarts the window.
\<close>

theorem rateLimitWindow_fixed_window_witness:
  "fst (run_calls 3600000 60 ''203.0.113.7'' (0 # replicate 60 1000) Map.empty)
     = replicate 60 True @ [False]
   \<and> fst (fst (rateLimitWindow 3600000 60 3599999 ''203.0.113.7''
        [''203.0.113.7'' \<mapsto> \<lparr>count = 60, resetTime = 3600000\<rparr>])) = False
   \<and> rateLimitWindow 3600000 60 3600001 ''203.0.113.7''
        [''203.0.113.7'' \<mapsto> \<lparr>count = 60, resetTime = 3600000\<rparr>]
      = ((True, 59), [''203.0.113.7'' \<mapsto> \<lparr>count = 1, resetTime = 7200001\<rparr>])"
proof -
  note th = rateLimitWindow_fixed_window
    [where W = 3600000 and N = 60 and key = "''203.0.113.7''"]
  have hyp: "(0::int) < 60 \<and> Map.empty ''203.0.113.7'' = (None :: limit_entry option) \<and>
      length (replicate 60 (1000::int)) = nat 60 \<and>
      (\<forall>t \<in> set (replicate 60 (1000::int)). t \<le> 0 + 3600000)"
    by simp
  have "fst (run_calls 3600000 60 ''203.0.113.7'' (0 # replicate 60 1000) Map.empty)
     = replicate (nat 60) True @ [False]"
    using th [where storage = Map.empty and ts = "replicate 60 1000" and start = 0
        and e = "\<lparr>count = 60, resetTime = 3600000\<rparr>" and now = 0
        and userId = "[]" and clientIP = "[]",
        THEN conjunct2, THEN conjunct2, THEN conjunct2, THEN conjunct1, THEN mp, OF hyp] .
  then have "fst (run_calls 3600000 60 ''203.0.113.7'' (0 # replicate 60 1000) Map.empty)
     = replicate 60 True @ [False]"
    by (simp del: run_calls.simps)
  moreover have "fst (fst (rateLimitWindow 3600000 60 3599999 ''203.0.113.7''
        [''203.0.113.7'' \<mapsto> \<lparr>count = 60, resetTime = 3600000\<rparr>])) = False"
    using th [where storage = "[''203.0.113.7'' \<mapsto> \<lparr>count = 60, resetTime = 3600000\<rparr>]"
        and ts = "[]" and start = 0 and e = "\<lparr>count = 60, resetTime = 3600000\<rparr>"
        and now = 3599999 and userId = "[]" and clientIP = "[]"]
    by simp
  moreover have "rateLimitWindow 3600000 60 3600001 ''203.0.113.7''
        [''203.0.113.7'' \<mapsto> \<lparr>count = 60, resetTime = 3600000\<rparr>]
      = ((True, 59), [''203.0.113.7'' \<mapsto> \<lparr>count = 1, resetTime = 7200001\<rparr>])"
    by (simp add: rateLimitWindow_def)
  ultimately show ?thesis by (simp del: run_calls.simps)
qed

subsection \<open>Resend verification: the attempt window\<close>

lemma resend_windowMs_pos: "0 < resend_windowMs"
  by (simp add: resend_windowMs_def)

text \<open>
  The invariant of a run that starts at clock \<open>t1\<close> and ends at clock \<open>T\<close>, less than a
  window later: the stored attempts that were not already expired at \<open>t1\<close> are exactly
  the attempts \<open>R\<close> recorded during the run.  Then the recent attempts seen at any clock
  of the run are exactly \<open>R\<close>.
\<close>

lemma recent_attempts_eq:
  assumes inv: "filter (\<lambda>a. \<not> resend_windowMs \<le> t1 - a) L = R"
    and R: "\<forall>r \<in> set R. t1 \<le> r \<and> r \<le> T"
    and t: "t1 \<le> t" "t \<le> T" and T: "T - t1 < resend_windowMs"
  shows "filter (\<lambda>a. t - a < resend_windowMs) L = R"
proof -
  have "filter (\<lambda>a. t - a < resend_windowMs) L = filter (\<lambda>a. \<not> resend_windowMs \<le> t1 - a) L"
  proof (rule filter_cong [OF refl])
    fix a assume a: "a \<in> set L"
    show "(t - a < resend_windowMs) = (\<not> resend_windowMs \<le> t1 - a)"
    proof
      assume "t - a < resend_windowMs"
      then show "\<not> resend_windowMs \<le> t1 - a" using t by linarith
    next
      assume n: "\<not> resend_windowMs \<le> t1 - a"
      then have "a \<in> set (filter (\<lambda>a. \<not> resend_windowMs \<le> t1 - a) L)" using a by simp
      then have "a \<in> set R" using inv by simp
      then have "t1 \<le> a" using R by blast
      then show "t - a < resend_windowMs" using t T by linarith
    qed
  qed
  then show ?thesis using inv by simp
qed

lemma checkRateLimit_resend_accept:
  assumes "filter (\<lambda>a. now - a < resend_windowMs) (attempts_of store (''resend_'' @ email)) = R"
    and "length R < 3"
  shows "checkRateLimit_resend now email store = (True, None)"
  using assms by (simp add: checkRateLimit_resend_def Let_def)

lemma checkRateLimit_resend_reject:
  assumes R: "filter (\<lambda>a. now - a < resend_windowMs) (attempts_of store (''resend_'' @ email)) = R"
    and len: "3 \<le> length R"
  shows "checkRateLimit_resend now email store =
           (False, Some \<lceil>(of_int (resend_windowMs - (now - Min (set R))) :: rat) / 1000\<rceil>)
         \<and> 0 < \<lceil>(of_int (resend_windowMs - (now - Min (set R))) :: rat) / 1000\<rceil>"
proof -
  have ne: "set R \<noteq> {}" using len by auto
  then have "Min (set R) \<in> set R" by (intro Min_in) simp_all
  then have "now - Min (set R) < resend_windowMs" using R [symmetric] by simp
  then have "0 < (of_int (resend_windowMs - (now - Min (set R))) :: rat) / 1000" by simp
  then have "0 < \<lceil>(of_int (resend_windowMs - (now - Min (set R))) :: rat) / 1000\<rceil>"
    by (simp only: zero_less_ceiling)
  then show ?thesis
    using R len by (simp add: checkRateLimit_resend_def Let_def)
qed

lemma recordRateLimitAttempt_inv:
  assumes inv: "filter (\<lambda>a. \<not> resend_windowMs \<le> t1 - a) (attempts_of store (''resend_'' @ email)) = R"
    and R: "\<forall>r \<in> set R. t1 \<le> r \<and> r \<le> T"
    and r: "t1 \<le> r" "r \<le> T" and c: "t1 \<le> c" "c \<le> T" and T: "T - t1 < resend_windowMs"
  shows "filter (\<lambda>a. \<not> resend_windowMs \<le> t1 - a)
           (attempts_of (recordRateLimitAttempt r cl c email store) (''resend_'' @ email)) = R @ [r]"
proof -
  let ?key = "''resend_'' @ email"
  let ?L = "attempts_of store ?key"
  have nexp: "\<not> resend_windowMs \<le> t1 - r" using r resend_windowMs_pos by linarith
  have inv': "filter (\<lambda>a. \<not> resend_windowMs \<le> t1 - a) (?L @ [r]) = R @ [r]"
    using inv nexp by simp
  have R': "\<forall>x \<in> set (R @ [r]). t1 \<le> x \<and> x \<le> T" using R r by auto
  show ?thesis
  proof (cases cl)
    case False
    then show ?thesis
      using inv' by (simp add: recordRateLimitAttempt_def Let_def attempts_of_def)
  next
    case True
    have rec: "filter (\<lambda>a. c - a < resend_windowMs) (?L @ [r]) = R @ [r]"
      by (rule recent_attempts_eq [OF inv' R' c T])
    have "attempts_of (recordRateLimitAttempt r cl c email store) ?key = R @ [r]"
      using True rec
      by (simp add: recordRateLimitAttempt_def cleanupRateLimit_def Let_def attempts_of_def)
    moreover have "filter (\<lambda>a. \<not> resend_windowMs \<le> t1 - a) (R @ [r]) = R @ [r]"
      using R' resend_windowMs_pos by (intro filter_True) (auto simp: not_le)
    ultimately show ?thesis by simp
  qed
qed

lemma find_map_same:
  assumes "\<And>x. P (f x) = P x"
  shows "find P (map f xs) = map_option f (find P xs)"
  using assms by (induction xs) auto

lemma account_with_update:
  assumes "account_with email table = Some c" and "\<not> email_verified c"
  shows "\<exists>c'. account_with email (updateVerificationToken i tok table) = Some c'
           \<and> \<not> email_verified c'"
proof -
  let ?f = "\<lambda>c. if cid c = i then c\<lparr>verification_token := Some tok\<rparr> else c"
  have "find (\<lambda>c. cemail c = email) (map ?f table) = map_option ?f (find (\<lambda>c. cemail c = email) table)"
    by (rule find_map_same) simp
  then show ?thesis
    using assms by (auto simp: account_with_def updateVerificationToken_def)
qed

text \<open>Plain text is sent as it stands; text with a \<open>#\<close> is cut there.\<close>

lemma url_plain_hash: "\<not> url_plain CHR ''#''"
  by code_simp

lemma url_filter_value_plain:
  assumes "list_all url_plain s"
  shows "url_filter_value other s = Inr s"
proof -
  have "\<forall>c \<in> set s. c \<noteq> CHR ''#''"
    using assms url_plain_hash by (auto simp: list_all_iff)
  then have cut: "takeWhile (\<lambda>c. c \<noteq> CHR ''#'') s = s"
    by (simp add: takeWhile_eq_all_conv)
  show ?thesis
    unfolding url_filter_value_def Let_def cut using assms by simp
qed

lemma findCompanyByEmail_plain:
  assumes "list_all url_plain s"
  shows "findCompanyByEmail other s table = Inr (account_with s table)"
  by (simp add: findCompanyByEmail_def url_filter_value_plain [OF assms])

lemma findCompanyByEmail_cut:
  assumes "list_all url_plain (takeWhile (\<lambda>c. c \<noteq> CHR ''#'') s)"
  shows "findCompanyByEmail other s table
           = Inr (account_with (takeWhile (\<lambda>c. c \<noteq> CHR ''#'') s) table)"
  using assms by (simp add: findCompanyByEmail_def url_filter_value_def Let_def)

lemma emailRegex_test_nonempty: "emailRegex_test s \<Longrightarrow> s \<noteq> []"
  by (auto simp: emailRegex_test_def)

lemma clean_nonempty: "toLowerCase (trim e) \<noteq> [] \<Longrightarrow> e \<noteq> []"
  by (auto simp: toLowerCase_def trim_def)

text \<open>One request for a known, unverified account whose datastore calls succeed.\<close>

lemma resend_handler_known:
  assumes clean: "toLowerCase (trim e) = ce" and ok: "emailRegex_test ce" "length ce \<le> 254"
    and plain: "list_all url_plain ce"
    and found: "account_with ce (companies st) = Some c" "\<not> email_verified c"
    and q: "queryError env = None"
  shows "resend_handler env (resend_request e) st =
     (case checkRateLimit_resend (nowCheck env) ce (rateLimitStore st) of
        (False, retryAfter) \<Rightarrow>
          (\<lparr>statusCode = 429,
            body = JObj [(''error'', JStr ''Too many verification emails sent. Please wait before requesting another.''),
                         (''retryAfter'', case retryAfter of None \<Rightarrow> JUndefined | Some r \<Rightarrow> JNum (of_int r))]\<rparr>,
           st)
      | (True, retryAfter) \<Rightarrow>
          (case updateError env of
             Some message \<Rightarrow>
               (\<lparr>statusCode = 500,
                 body = JObj [(''error'', JStr ''Internal server error. Please try again later.''),
                              (''details'', details_of (development env)
                                   (''Failed to update verification token: '' @ message))]\<rparr>,
                st)
           | None \<Rightarrow>
               (\<lparr>statusCode = 200,
                 body = JObj [(''success'', JBool True),
                              (''message'', JStr ''Verification email sent successfully! Please check your inbox and spam folder.''),
                              (''verificationUrl'', JStr (siteUrl env @ ''/company-verify-email.html?token='' @ generatedToken env))]\<rparr>,
                \<lparr>companies = updateVerificationToken (cid c) (generatedToken env) (companies st),
                 rateLimitStore = recordRateLimitAttempt (nowRecord env) (doCleanup env)
                                    (nowCleanup env) ce (rateLimitStore st)\<rparr>)))"
proof -
  have e: "e \<noteq> []" using clean ok(1) emailRegex_test_nonempty clean_nonempty by blast
  have look: "findCompanyByEmail (otherFilter env) ce (companies st) = Inr (Some c)"
    using found(1) by (simp add: findCompanyByEmail_plain [OF plain])
  show ?thesis
    using e clean ok look found(2) q
    by (simp add: resend_handler_def resend_request_def sendVerificationEmail_def Let_def
          split: prod.splits option.splits bool.splits)
qed

text \<open>When the lookup succeeds and finds no row, the answer is the generic 200 and
  nothing changes.\<close>

lemma resend_handler_no_account:
  assumes "toLowerCase (trim e) = ce" and "emailRegex_test ce" and "length ce \<le> 254"
    and "findCompanyByEmail (otherFilter env) ce (companies st) = Inr None"
    and "queryError env = None"
  shows "resend_handler env (resend_request e) st =
     (\<lparr>statusCode = 200,
       body = JObj [(''success'', JBool True),
                    (''message'', JStr ''If an account with this email exists, a verification email has been sent.'')]\<rparr>,
      st)"
proof -
  have "e \<noteq> []" using assms(1,2) emailRegex_test_nonempty clean_nonempty by blast
  then show ?thesis
    using assms by (simp add: resend_handler_def resend_request_def Let_def)
qed

lemma resend_step_accepted:
  assumes clean: "toLowerCase (trim e) = ce" and ok: "emailRegex_test ce" "length ce \<le> 254"
    and plain: "list_all url_plain ce"
    and found: "account_with ce (companies st) = Some c" "\<not> email_verified c"
    and q: "queryError env = None" and u: "updateError env = None"
    and inv: "filter (\<lambda>a. \<not> resend_windowMs \<le> t1 - a)
                (attempts_of (rateLimitStore st) (''resend_'' @ ce)) = R"
    and R: "\<forall>r \<in> set R. t1 \<le> r \<and> r \<le> T" and len: "length R < 3"
    and w: "readings_within t1 T env" and T: "T - t1 < resend_windowMs"
  shows "statusCode (fst (resend_handler env (resend_request e) st)) = 200 \<and>
     (\<exists>c'. account_with ce (companies (snd (resend_handler env (resend_request e) st))) = Some c'
        \<and> \<not> email_verified c') \<and>
     filter (\<lambda>a. \<not> resend_windowMs \<le> t1 - a)
       (attempts_of (rateLimitStore (snd (resend_handler env (resend_request e) st))) (''resend_'' @ ce))
       = R @ [nowRecord env]"
proof -
  have t: "t1 \<le> nowCheck env" "nowCheck env \<le> T" "t1 \<le> nowRecord env" "nowRecord env \<le> T"
    "t1 \<le> nowCleanup env" "nowCleanup env \<le> T"
    using w by (simp_all add: readings_within_def)
  have "filter (\<lambda>a. nowCheck env - a < resend_windowMs)
          (attempts_of (rateLimitStore st) (''resend_'' @ ce)) = R"
    by (rule recent_attempts_eq [OF inv R t(1,2) T])
  then have chk: "checkRateLimit_resend (nowCheck env) ce (rateLimitStore st) = (True, None)"
    using len by (rule checkRateLimit_resend_accept)
  have run: "resend_handler env (resend_request e) st =
      (\<lparr>statusCode = 200,
        body = JObj [(''success'', JBool True),
                     (''message'', JStr ''Verification email sent successfully! Please check your inbox and spam folder.''),
                     (''verificationUrl'', JStr (siteUrl env @ ''/company-verify-email.html?token='' @ generatedToken env))]\<rparr>,
       \<lparr>companies = updateVerificationToken (cid c) (generatedToken env) (companies st),
        rateLimitStore = recordRateLimitAttempt (nowRecord env) (doCleanup env)
                           (nowCleanup env) ce (rateLimitStore st)\<rparr>)"
    unfolding resend_handler_known [OF clean ok plain found q] by (simp add: chk u)
  have a: "\<exists>c'. account_with ce (updateVerificationToken (cid c) (generatedToken env) (companies st)) = Some c'
        \<and> \<not> email_verified c'"
    by (rule account_with_update [OF found])
  have b: "filter (\<lambda>a. \<not> resend_windowMs \<le> t1 - a)
       (attempts_of (recordRateLimitAttempt (nowRecord env) (doCleanup env) (nowCleanup env) ce
          (rateLimitStore st)) (''resend_'' @ ce)) = R @ [nowRecord env]"
    by (rule recordRateLimitAttempt_inv [OF inv R t(3,4,5,6) T])
  show ?thesis
    unfolding run using a b by simp
qed

lemma resend_step_rejected:
  assumes clean: "toLowerCase (trim e) = ce" and ok: "emailRegex_test ce" "length ce \<le> 254"
    and plain: "list_all url_plain ce"
    and found: "account_with ce (companies st) = Some c" "\<not> email_verified c"
    and q: "queryError env = None"
    and inv: "filter (\<lambda>a. \<not> resend_windowMs \<le> t1 - a)
                (attempts_of (rateLimitStore st) (''resend_'' @ ce)) = R"
    and R: "\<forall>r \<in> set R. t1 \<le> r \<and> r \<le> T" and len: "3 \<le> length R"
    and t: "t1 \<le> T" "nowCheck env = T" and T: "T - t1 < resend_windowMs"
  shows "0 < \<lceil>(of_int (resend_windowMs - (T - Min (set R))) :: rat) / 1000\<rceil> \<and>
     resend_handler env (resend_request e) st =
      (\<lparr>statusCode = 429,
        body = JObj [(''error'', JStr ''Too many verification emails sent. Please wait before requesting another.''),
                     (''retryAfter'',
                      JNum (of_int \<lceil>(of_int (resend_windowMs - (T - Min (set R))) :: rat) / 1000\<rceil>))]\<rparr>,
       st)"
proof -
  have "filter (\<lambda>a. nowCheck env - a < resend_windowMs)
          (attempts_of (rateLimitStore st) (''resend_'' @ ce)) = R"
    using recent_attempts_eq [OF inv R t(1) order_refl T] t(2) by simp
  from checkRateLimit_resend_reject [OF this len]
  have n: "checkRateLimit_resend (nowCheck env) ce (rateLimitStore st) =
             (False, Some \<lceil>(of_int (resend_windowMs - (T - Min (set R))) :: rat) / 1000\<rceil>)"
    "0 < \<lceil>(of_int (resend_windowMs - (T - Min (set R))) :: rat) / 1000\<rceil>"
    using t(2) by simp_all
  show ?thesis
    unfolding resend_handler_known [OF clean ok plain found q] using n by simp
qed

lemma resend_run_Cons:
  "resend_run (env # envs) ev st =
     (fst (resend_handler env ev st) # fst (resend_run envs ev (snd (resend_handler env ev st))),
      snd (resend_run envs ev (snd (resend_handler env ev st))))"
  by (simp split: prod.splits)

text \<open>
  Scenario F for an account whose email is plain text in a URL.  Take an unverified
  account with such an email, a store in which every earlier attempt for that email has
  already left the window, and four consecutive requests for the email whose clock
  readings all lie within less than 15 minutes, the datastore working.  Then the first
  three requests are answered 200 and the fourth is answered 429 and leaves the state
  unchanged; its \<open>retryAfter\<close> is the number of seconds, rounded up, until the oldest of
  the three recorded attempts leaves the window, and is strictly positive.
\<close>

lemma resend_fourth_request_plain_email:
  assumes "toLowerCase (trim e) = ce" and "emailRegex_test ce" and "length ce \<le> 254"
    and "list_all url_plain ce"
    and "account_with ce (companies s0) = Some c" and "\<not> email_verified c"
    and "\<forall>a \<in> set (attempts_of (rateLimitStore s0) (''resend_'' @ ce)).
           resend_windowMs \<le> nowCheck e1 - a"
    and "queryError e1 = None" and "updateError e1 = None"
    and "queryError e2 = None" and "updateError e2 = None"
    and "queryError e3 = None" and "updateError e3 = None"
    and "queryError e4 = None"
    and "readings_within (nowCheck e1) (nowCheck e4) e1"
    and "readings_within (nowCheck e1) (nowCheck e4) e2"
    and "readings_within (nowCheck e1) (nowCheck e4) e3"
    and "nowCheck e4 - nowCheck e1 < 15 * 60 * 1000"
  shows "\<exists>r1 r2 r3 r4 s3.
     resend_run [e1, e2, e3, e4] (resend_request e) s0 = ([r1, r2, r3, r4], s3) \<and>
     statusCode r1 = 200 \<and> statusCode r2 = 200 \<and> statusCode r3 = 200 \<and>
     statusCode r4 = 429 \<and>
     field (body r4) ''retryAfter'' =
       JNum (of_int \<lceil>(of_int (15 * 60 * 1000 - (nowCheck e4 -
               Min {nowRecord e1, nowRecord e2, nowRecord e3})) :: rat) / 1000\<rceil>) \<and>
     0 < \<lceil>(of_int (15 * 60 * 1000 - (nowCheck e4 -
               Min {nowRecord e1, nowRecord e2, nowRecord e3})) :: rat) / 1000\<rceil> \<and>
     snd (resend_run [e1, e2, e3] (resend_request e) s0) = s3"
proof -
  let ?t1 = "nowCheck e1" and ?T = "nowCheck e4"
  let ?key = "''resend_'' @ ce"
  let ?ev = "resend_request e"
  let ?s1 = "snd (resend_handler e1 ?ev s0)"
  let ?s2 = "snd (resend_handler e2 ?ev ?s1)"
  let ?s3 = "snd (resend_handler e3 ?ev ?s2)"
  let ?inv = "\<lambda>st R. filter (\<lambda>a. \<not> resend_windowMs \<le> ?t1 - a) (attempts_of (rateLimitStore st) ?key) = R"
  let ?n = "\<lceil>(of_int (15 * 60 * 1000 - (?T - Min {nowRecord e1, nowRecord e2, nowRecord e3})) :: rat) / 1000\<rceil>"
  have T: "?T - ?t1 < resend_windowMs" using assms(18) by (simp add: resend_windowMs_def)
  have tT: "?t1 \<le> ?T" using assms(15) by (simp add: readings_within_def)
  have r1: "?t1 \<le> nowRecord e1 \<and> nowRecord e1 \<le> ?T" using assms(15) by (simp add: readings_within_def)
  have r2: "?t1 \<le> nowRecord e2 \<and> nowRecord e2 \<le> ?T" using assms(16) by (simp add: readings_within_def)
  have r3: "?t1 \<le> nowRecord e3 \<and> nowRecord e3 \<le> ?T" using assms(17) by (simp add: readings_within_def)
  have inv0: "?inv s0 []" using assms(7) by (simp add: filter_empty_conv)
  have step1: "statusCode (fst (resend_handler e1 ?ev s0)) = 200 \<and>
      (\<exists>c'. account_with ce (companies ?s1) = Some c' \<and> \<not> email_verified c') \<and>
      ?inv ?s1 ([] @ [nowRecord e1])"
    by (rule resend_step_accepted [OF assms(1-6) assms(8,9) inv0 _ _ assms(15) T]) simp_all
  then obtain c1 where c1: "account_with ce (companies ?s1) = Some c1" "\<not> email_verified c1"
    by blast
  have inv1: "?inv ?s1 [nowRecord e1]" using step1 by simp
  have step2: "statusCode (fst (resend_handler e2 ?ev ?s1)) = 200 \<and>
      (\<exists>c'. account_with ce (companies ?s2) = Some c' \<and> \<not> email_verified c') \<and>
      ?inv ?s2 ([nowRecord e1] @ [nowRecord e2])"
    by (rule resend_step_accepted [OF assms(1-4) c1 assms(10,11) inv1 _ _ assms(16) T])
      (use r1 in simp_all)
  then obtain c2 where c2: "account_with ce (companies ?s2) = Some c2" "\<not> email_verified c2"
    by blast
  have inv2: "?inv ?s2 [nowRecord e1, nowRecord e2]" using step2 by simp
  have step3: "statusCode (fst (resend_handler e3 ?ev ?s2)) = 200 \<and>
      (\<exists>c'. account_with ce (companies ?s3) = Some c' \<and> \<not> email_verified c') \<and>
      ?inv ?s3 ([nowRecord e1, nowRecord e2] @ [nowRecord e3])"
    by (rule resend_step_accepted [OF assms(1-4) c2 assms(12,13) inv2 _ _ assms(17) T])
      (use r1 r2 in simp_all)
  then obtain c3 where c3: "account_with ce (companies ?s3) = Some c3" "\<not> email_verified c3"
    by blast
  have inv3: "?inv ?s3 [nowRecord e1, nowRecord e2, nowRecord e3]" using step3 by simp
  have R3: "\<forall>r \<in> set [nowRecord e1, nowRecord e2, nowRecord e3]. ?t1 \<le> r \<and> r \<le> ?T"
    using r1 r2 r3 by simp
  have len3: "3 \<le> length [nowRecord e1, nowRecord e2, nowRecord e3]" by simp
  have rej: "0 < \<lceil>(of_int (resend_windowMs - (?T - Min (set [nowRecord e1, nowRecord e2, nowRecord e3]))) :: rat) / 1000\<rceil> \<and>
     resend_handler e4 ?ev ?s3 =
      (\<lparr>statusCode = 429,
        body = JObj [(''error'', JStr ''Too many verification emails sent. Please wait before requesting another.''),
                     (''retryAfter'',
                      JNum (of_int \<lceil>(of_int (resend_windowMs - (?T - Min (set [nowRecord e1, nowRecord e2, nowRecord e3]))) :: rat) / 1000\<rceil>))]\<rparr>,
       ?s3)"
    by (rule resend_step_rejected [OF assms(1-4) c3 assms(14) inv3 R3 len3 tT refl T])
  have set3: "set [nowRecord e1, nowRecord e2, nowRecord e3] = {nowRecord e1, nowRecord e2, nowRecord e3}"
    by simp
  have n: "0 < ?n" "resend_handler e4 ?ev ?s3 =
      (\<lparr>statusCode = 429,
        body = JObj [(''error'', JStr ''Too many verification emails sent. Please wait before requesting another.''),
                     (''retryAfter'', JNum (of_int ?n))]\<rparr>, ?s3)"
    using rej unfolding set3 resend_windowMs_def by simp_all
  have run4: "resend_run [e1, e2, e3, e4] ?ev s0 =
      ([fst (resend_handler e1 ?ev s0), fst (resend_handler e2 ?ev ?s1),
        fst (resend_handler e3 ?ev ?s2), fst (resend_handler e4 ?ev ?s3)],
       snd (resend_handler e4 ?ev ?s3))"
    by (simp only: resend_run_Cons resend_run.simps fst_conv snd_conv)
  have run3: "snd (resend_run [e1, e2, e3] ?ev s0) = ?s3"
    by (simp only: resend_run_Cons resend_run.simps fst_conv snd_conv)
  have fld: "field (JObj [(''error'', JStr ''Too many verification emails sent. Please wait before requesting another.''),
                     (''retryAfter'', JNum (of_int ?n))]) ''retryAfter'' = JNum (of_int ?n)"
    by simp
  show ?thesis
    unfolding run4 run3 n(2) using step1 step2 step3 n(1) fld by simp
qed

text \<open>At a concrete account: four requests one minute apart on an empty store are
  answered 200, 200, 200 and 429, the last with \<open>retryAfter = 720\<close>.\<close>

lemma resend_fourth_request_plain_email_example:
  "map statusCode
     (fst (resend_run [resend_env_at 0, resend_env_at 60000, resend_env_at 120000, resend_env_at 180000]
        (resend_request ''Owner@ACME-Estates.com '')
        \<lparr>companies = [pending_company], rateLimitStore = Map.empty\<rparr>))
   = [200, 200, 200, 429]
   \<and> field (body (last (fst (resend_run [resend_env_at 0, resend_env_at 60000, resend_env_at 120000, resend_env_at 180000]
        (resend_request ''Owner@ACME-Estates.com '')
        \<lparr>companies = [pending_company], rateLimitStore = Map.empty\<rparr>)))) ''retryAfter'' = JNum 720"
proof -
  let ?s0 = "\<lparr>companies = [pending_company], rateLimitStore = Map.empty\<rparr>"
  let ?envs = "[resend_env_at 0, resend_env_at 60000, resend_env_at 120000, resend_env_at 180000]"
  have clean: "toLowerCase (trim ''Owner@ACME-Estates.com '') = ''owner@acme-estates.com''"
    by code_simp
  have ok: "emailRegex_test ''owner@acme-estates.com''"
    by code_simp
  have plain: "list_all url_plain ''owner@acme-estates.com''"
    by code_simp
  have found: "account_with ''owner@acme-estates.com'' (companies ?s0) = Some pending_company"
    by (simp add: account_with_def pending_company_def)
  have unverified: "\<not> email_verified pending_company"
    by (simp add: pending_company_def)
  have "\<exists>r1 r2 r3 r4 s3.
     resend_run ?envs (resend_request ''Owner@ACME-Estates.com '') ?s0 = ([r1, r2, r3, r4], s3) \<and>
     statusCode r1 = 200 \<and> statusCode r2 = 200 \<and> statusCode r3 = 200 \<and>
     statusCode r4 = 429 \<and>
     field (body r4) ''retryAfter'' =
       JNum (of_int \<lceil>(of_int (15 * 60 * 1000 - (nowCheck (resend_env_at 180000) -
               Min {nowRecord (resend_env_at 0), nowRecord (resend_env_at 60000),
                    nowRecord (resend_env_at 120000)})) :: rat) / 1000\<rceil>) \<and>
     0 < \<lceil>(of_int (15 * 60 * 1000 - (nowCheck (resend_env_at 180000) -
               Min {nowRecord (resend_env_at 0), nowRecord (resend_env_at 60000),
                    nowRecord (resend_env_at 120000)})) :: rat) / 1000\<rceil> \<and>
     snd (resend_run [resend_env_at 0, resend_env_at 60000, resend_env_at 120000]
       (resend_request ''Owner@ACME-Estates.com '') ?s0) = s3"
    by (rule resend_fourth_request_plain_email [OF clean ok _ plain found unverified])
      (simp_all add: resend_env_at_def readings_within_def attempts_of_def)
  then obtain r1 r2 r3 r4 s3 where
    run: "resend_run ?envs (resend_request ''Owner@ACME-Estates.com '') ?s0 = ([r1, r2, r3, r4], s3)"
    and st: "statusCode r1 = 200" "statusCode r2 = 200" "statusCode r3 = 200" "statusCode r4 = 429"
    and ra: "field (body r4) ''retryAfter'' =
       JNum (of_int \<lceil>(of_int (15 * 60 * 1000 - (nowCheck (resend_env_at 180000) -
               Min {nowRecord (resend_env_at 0), nowRecord (resend_env_at 60000),
                    nowRecord (resend_env_at 120000)})) :: rat) / 1000\<rceil>)"
    by blast
  have "\<lceil>(of_int (15 * 60 * 1000 - (nowCheck (resend_env_at 180000) -
               Min {nowRecord (resend_env_at 0), nowRecord (resend_env_at 60000),
                    nowRecord (resend_env_at 120000)})) :: rat) / 1000\<rceil> = 720"
    by (simp add: resend_env_at_def)
  then have ra': "field (body r4) ''retryAfter'' = JNum 720" using ra by simp
  show ?thesis
    unfolding run using st ra' by simp
qed

text \<open>
  Claim C7 fails on the code for an account whose email has a \<open>#\<close>.  Take an unverified
  account with email \<open>ce\<close>, such that the text of \<open>ce\<close> before its first \<open>#\<close> is plain and is
  not the email of any account (when the \<open>#\<close> stands before the \<open>@\<close>, that text is no email
  address, so no account has it).  The lookup asks the datastore for that shorter text,
  finds no row, and the handler returns the generic 200 before it reaches the attempt
  window.  So every request of a run for that email, however many and however close
  together, is answered with the generic 200, without \<open>retryAfter\<close>, and the state (the
  attempt store included) stays as it was: the fourth request is not answered 429.
\<close>

theorem resend_hash_email_never_limited:
  assumes "toLowerCase (trim e) = ce" and "emailRegex_test ce" and "length ce \<le> 254"
    and "account_with ce (companies s0) = Some c" and "\<not> email_verified c"
    and "list_all url_plain (takeWhile (\<lambda>c. c \<noteq> CHR ''#'') ce)"
    and "account_with (takeWhile (\<lambda>c. c \<noteq> CHR ''#'') ce) (companies s0) = None"
    and "\<forall>env \<in> set envs. queryError env = None"
  shows "resend_run envs (resend_request e) s0 =
     (replicate (length envs)
        \<lparr>statusCode = 200,
         body = JObj [(''success'', JBool True),
                      (''message'', JStr ''If an account with this email exists, a verification email has been sent.'')]\<rparr>,
      s0)"
  using assms(8)
proof (induction envs)
  case Nil
  show ?case by simp
next
  case (Cons env envs)
  have look: "findCompanyByEmail (otherFilter env) ce (companies s0) = Inr None"
    using findCompanyByEmail_cut [OF assms(6)] assms(7) by simp
  have q: "queryError env = None" using Cons.prems by simp
  have step: "resend_handler env (resend_request e) s0 =
     (\<lparr>statusCode = 200,
       body = JObj [(''success'', JBool True),
                    (''message'', JStr ''If an account with this email exists, a verification email has been sent.'')]\<rparr>,
      s0)"
    by (rule resend_handler_no_account [OF assms(1-3) look q])
  have rest: "resend_run envs (resend_request e) s0 =
     (replicate (length envs)
        \<lparr>statusCode = 200,
         body = JObj [(''success'', JBool True),
                      (''message'', JStr ''If an account with this email exists, a verification email has been sent.'')]\<rparr>,
      s0)"
    using Cons.IH Cons.prems by simp
  show ?case
    by (simp only: resend_run_Cons step rest fst_conv snd_conv length_Cons replicate_Suc)
qed

text \<open>
  Scenario F for the unverified account \<open>owner#1@acme-estates.com\<close>: four requests one
  minute apart on an empty attempt store.  All four are answered 200, none carries
  \<open>retryAfter\<close>, and no attempt is recorded.
\<close>

theorem resend_hash_email_never_limited_witness:
  "map statusCode
     (fst (resend_run [resend_env_at 0, resend_env_at 60000, resend_env_at 120000, resend_env_at 180000]
        (resend_request ''owner#1@acme-estates.com'')
        \<lparr>companies = [hash_company], rateLimitStore = Map.empty\<rparr>))
   = [200, 200, 200, 200]
   \<and> map (\<lambda>r. field (body r) ''retryAfter'')
     (fst (resend_run [resend_env_at 0, resend_env_at 60000, resend_env_at 120000, resend_env_at 180000]
        (resend_request ''owner#1@acme-estates.com'')
        \<lparr>companies = [hash_company], rateLimitStore = Map.empty\<rparr>))
   = [JUndefined, JUndefined, JUndefined, JUndefined]
   \<and> snd (resend_run [resend_env_at 0, resend_env_at 60000, resend_env_at 120000, resend_env_at 180000]
        (resend_request ''owner#1@acme-estates.com'')
        \<lparr>companies = [hash_company], rateLimitStore = Map.empty\<rparr>)
   = \<lparr>companies = [hash_company], rateLimitStore = Map.empty\<rparr>"
proof -
  let ?s0 = "\<lparr>companies = [hash_company], rateLimitStore = Map.empty\<rparr>"
  have clean: "toLowerCase (trim ''owner#1@acme-estates.com'') = ''owner#1@acme-estates.com''"
    by code_simp
  have ok: "emailRegex_test ''owner#1@acme-estates.com''"
    by code_simp
  have cut: "takeWhile (\<lambda>c. c \<noteq> CHR ''#'') ''owner#1@acme-estates.com'' = ''owner''"
    by simp
  have plain: "list_all url_plain (takeWhile (\<lambda>c. c \<noteq> CHR ''#'') ''owner#1@acme-estates.com'')"
    unfolding cut by code_simp
  have found: "account_with ''owner#1@acme-estates.com'' (companies ?s0) = Some hash_company"
    by (simp add: account_with_def hash_company_def)
  have unverified: "\<not> email_verified hash_company"
    by (simp add: hash_company_def)
  have none: "account_with (takeWhile (\<lambda>c. c \<noteq> CHR ''#'') ''owner#1@acme-estates.com'') (companies ?s0) = None"
    unfolding cut by (simp add: account_with_def hash_company_def)
  have q: "\<forall>env \<in> set [resend_env_at 0, resend_env_at 60000, resend_env_at 120000, resend_env_at 180000].
             queryError env = None"
    by (simp add: resend_env_at_def)
  have len: "length ''owner#1@acme-estates.com'' \<le> 254" by simp
  note run = resend_hash_email_never_limited [OF clean ok len found unverified plain none q]
  show ?thesis
    unfolding run by (simp add: numeral_eq_Suc)
qed

subsection \<open>Resend verification: what the response reveals\<close>

text \<open>When no account has the cleaned email, the email is plain text in a URL and the
  lookup succeeds, the answer is the generic 200 and nothing changes.\<close>

lemma resend_unknown_account:
  assumes "toLowerCase (trim e) = ce" and "emailRegex_test ce" and "length ce \<le> 254"
    and "list_all url_plain ce"
    and "account_with ce (companies st) = None" and "queryError env = None"
  shows "resend_handler env (resend_request e) st =
     (\<lparr>statusCode = 200,
       body = JObj [(''success'', JBool True),
                    (''message'', JStr ''If an account with this email exists, a verification email has been sent.'')]\<rparr>,
      st)"
proof -
  have "findCompanyByEmail (otherFilter env) ce (companies st) = Inr None"
    using assms(5) by (simp add: findCompanyByEmail_plain [OF assms(4)])
  then show ?thesis
    by (rule resend_handler_no_account [OF assms(1-3) _ assms(6)])
qed

text \<open>
  Claim C4 fails on the code.  The same request in the same environment is answered
  with the generic message when the \<open>Companies\<close> table is empty, and with a different
  message and the verification link when the table holds an unverified account with that
  email: the response tells a caller whether the account exists.
\<close>

theorem resend_reveals_account_existence:
  "fst (resend_handler (resend_env_at 0) (resend_request ''owner@acme-estates.com'')
          \<lparr>companies = [], rateLimitStore = Map.empty\<rparr>)
     = \<lparr>statusCode = 200,
        body = JObj [(''success'', JBool True),
                     (''message'', JStr ''If an account with this email exists, a verification email has been sent.'')]\<rparr>
   \<and> fst (resend_handler (resend_env_at 0) (resend_request ''owner@acme-estates.com'')
          \<lparr>companies = [pending_company], rateLimitStore = Map.empty\<rparr>)
     = \<lparr>statusCode = 200,
        body = JObj [(''success'', JBool True),
                     (''message'', JStr ''Verification email sent successfully! Please check your inbox and spam folder.''),
                     (''verificationUrl'', JStr ''https://estatesaleconnect.com/company-verify-email.html?token=Zz00Yy11Xx22Ww33Vv44Uu55Tt66Ss77'')]\<rparr>
   \<and> fst (resend_handler (resend_env_at 0) (resend_request ''owner@acme-estates.com'')
          \<lparr>companies = [], rateLimitStore = Map.empty\<rparr>)
     \<noteq> fst (resend_handler (resend_env_at 0) (resend_request ''owner@acme-estates.com'')
          \<lparr>companies = [pending_company], rateLimitStore = Map.empty\<rparr>)"
proof -
  have clean: "toLowerCase (trim ''owner@acme-estates.com'') = ''owner@acme-estates.com''"
    by code_simp
  have ok: "emailRegex_test ''owner@acme-estates.com''"
    by code_simp
  have plain: "list_all url_plain ''owner@acme-estates.com''"
    by code_simp
  have q: "queryError (resend_env_at 0) = None"
    by (simp add: resend_env_at_def)
  have absent: "resend_handler (resend_env_at 0) (resend_request ''owner@acme-estates.com'')
          \<lparr>companies = [], rateLimitStore = Map.empty\<rparr>
     = (\<lparr>statusCode = 200,
        body = JObj [(''success'', JBool True),
                     (''message'', JStr ''If an account with this email exists, a verification email has been sent.'')]\<rparr>,
        \<lparr>companies = [], rateLimitStore = Map.empty\<rparr>)"
    by (rule resend_unknown_account [OF clean ok _ plain _ q]) (simp_all add: account_with_def)
  have chk: "checkRateLimit_resend (nowCheck (resend_env_at 0)) ''owner@acme-estates.com'' Map.empty = (True, None)"
    by (simp add: checkRateLimit_resend_def attempts_of_def Let_def)
  have present: "fst (resend_handler (resend_env_at 0) (resend_request ''owner@acme-estates.com'')
          \<lparr>companies = [pending_company], rateLimitStore = Map.empty\<rparr>)
     = \<lparr>statusCode = 200,
        body = JObj [(''success'', JBool True),
                     (''message'', JStr ''Verification email sent successfully! Please check your inbox and spam folder.''),
                     (''verificationUrl'', JStr ''https://estatesaleconnect.com/company-verify-email.html?token=Zz00Yy11Xx22Ww33Vv44Uu55Tt66Ss77'')]\<rparr>"
    by (subst resend_handler_known [OF clean ok _ plain _ _ q, where c = pending_company])
      (simp_all add: chk account_with_def pending_company_def, simp add: resend_env_at_def)
  show ?thesis
    unfolding present absent by simp
qed

text \<open>Both answers carry status 200; they differ in the body.\<close>

theorem resend_reveals_account_existence_witness:
  "statusCode (fst (resend_handler (resend_env_at 0) (resend_request ''owner@acme-estates.com'')
          \<lparr>companies = [], rateLimitStore = Map.empty\<rparr>))
     = statusCode (fst (resend_handler (resend_env_at 0) (resend_request ''owner@acme-estates.com'')
          \<lparr>companies = [pending_company], rateLimitStore = Map.empty\<rparr>))
   \<and> body (fst (resend_handler (resend_env_at 0) (resend_request ''owner@acme-estates.com'')
          \<lparr>companies = [], rateLimitStore = Map.empty\<rparr>))
     \<noteq> body (fst (resend_handler (resend_env_at 0) (resend_request ''owner@acme-estates.com'')
          \<lparr>companies = [pending_company], rateLimitStore = Map.empty\<rparr>))"
proof -
  note th = resend_reveals_account_existence
  show ?thesis
    unfolding th [THEN conjunct1] th [THEN conjunct2, THEN conjunct1] by simp
qed

subsection \<open>Email verification: replaying a token\<close>

lemma filter_length_same: "length (filter P xs) = length xs \<Longrightarrow> filter P xs = xs"
proof (induction xs)
  case Nil
  then show ?case by simp
next
  case (Cons x xs)
  have "length (filter P xs) \<le> length xs" by (rule length_filter_le)
  with Cons show ?case by (cases "P x") auto
qed

lemma find_in_filter: "find P xs = Some x \<Longrightarrow> x \<in> set (filter P xs)"
  by (induction xs) (auto split: if_splits)

lemma find_unique:
  assumes "find P xs = Some x" and "length (filter P xs) \<le> 1" and "y \<in> set xs" and "P y"
  shows "y = x"
proof -
  have x: "x \<in> set (filter P xs)" using assms(1) by (rule find_in_filter)
  have y: "y \<in> set (filter P xs)" using assms(3,4) by simp
  show ?thesis
  proof (cases "filter P xs")
    case Nil
    with x show ?thesis by simp
  next
    case (Cons z zs)
    with assms(2) have "zs = []" by simp
    with Cons x y show ?thesis by simp
  qed
qed

text \<open>After the update no row stores the token, when at most one row stored it.\<close>

lemma updateCompanyVerification_clears:
  assumes found: "findCompanyByToken t table = Some c0"
    and one: "length (filter (\<lambda>c. verification_token c = Some t) table) \<le> 1"
  shows "findCompanyByToken t (updateCompanyVerification (cid c0) table) = None"
proof -
  define f :: "company \<Rightarrow> company" where "f = (\<lambda>c. if cid c = cid c0
               then c\<lparr>email_verified := True, account_status := ''email_verified'',
                      verification_token := None\<rparr>
               else c)"
  have step: "verification_token (f c) \<noteq> Some t" if c: "c \<in> set table" for c
  proof (cases "cid c = cid c0")
    case True
    then show ?thesis by (simp add: f_def)
  next
    case False
    have "verification_token c \<noteq> Some t"
    proof
      assume "verification_token c = Some t"
      then have "c = c0"
        by (rule find_unique [OF found [unfolded findCompanyByToken_def] one c])
      with False show False by simp
    qed
    with False show ?thesis by (simp add: f_def)
  qed
  have "\<not> (\<exists>x. x \<in> set (map f table) \<and> verification_token x = Some t)"
  proof
    assume "\<exists>x. x \<in> set (map f table) \<and> verification_token x = Some t"
    then obtain x where x: "x \<in> set (map f table)" "verification_token x = Some t" by blast
    from x(1) obtain c where "c \<in> set table" "x = f c" by (auto simp: image_iff)
    with step x(2) show False by blast
  qed
  then have "find (\<lambda>c. verification_token c = Some t) (map f table) = None"
    unfolding find_None_iff .
  then show ?thesis
    by (simp only: findCompanyByToken_def updateCompanyVerification_def f_def)
qed

lemma updateCompanyVerification_row:
  assumes "c \<in> set (updateCompanyVerification i table)" and "cid c = i"
  shows "email_verified c \<and> account_status c = ''email_verified'' \<and> verification_token c = None"
proof -
  from assms(1) obtain c' where c': "c' \<in> set table"
    and c: "c = (if cid c' = i
               then c'\<lparr>email_verified := True, account_status := ''email_verified'',
                      verification_token := None\<rparr>
               else c')"
    unfolding updateCompanyVerification_def by (auto simp: image_iff)
  show ?thesis
  proof (cases "cid c' = i")
    case True
    then show ?thesis using c by simp
  next
    case False
    then show ?thesis using c assms(2) by simp
  qed
qed

text \<open>The handler on a request that carries a well-formed token, the lookup succeeding.\<close>

lemma verify_handler_wellformed:
  assumes "t \<noteq> []" and "sanitizeToken t = t" and "16 \<le> length t" and "v_queryError env = None"
  shows "verify_handler env (verify_request t) table =
     (case findCompanyByToken t table of
        None \<Rightarrow>
          (\<lparr>statusCode = 404,
            body = JObj [(''error'', JStr ''Invalid or expired verification token. The link may have already been used or expired.'')]\<rparr>,
           table)
      | Some company \<Rightarrow>
          if email_verified company then
            (\<lparr>statusCode = 200,
              body = JObj [(''success'', JBool True),
                           (''message'', JStr ''Email is already verified''),
                           (''company'', JObj [(''company_name'', JStr (company_name company)),
                                               (''email'', JStr (cemail company)),
                                               (''account_status'', JStr (account_status company))]),
                           (''alreadyVerified'', JBool True)]\<rparr>,
             table)
          else if v_now env - created_at company > 24 * 60 * 60 * 1000 then
            (\<lparr>statusCode = 400,
              body = JObj [(''error'', JStr ''Verification token has expired. Please request a new verification email.'')]\<rparr>,
             table)
          else
            (case v_updateError env of
               Some message \<Rightarrow>
                 (\<lparr>statusCode = 500,
                   body = JObj [(''error'', JStr ''Internal server error during verification. Please try again later.''),
                                (''details'', details_of (v_development env)
                                     (''Failed to update verification status: '' @ message))]\<rparr>,
                  table)
             | None \<Rightarrow>
                 (\<lparr>statusCode = 200,
                   body = JObj [(''success'', JBool True),
                                (''message'', JStr ''Email verified successfully! Your account is now active.''),
                                (''company'', JObj [(''company_name'', JStr (company_name company)),
                                                    (''email'', JStr (cemail company)),
                                                    (''account_status'', JStr ''email_verified''),
                                                    (''first_name'', JStr (first_name company))])]\<rparr>,
                  updateCompanyVerification (cid company) table)))"
  using assms
  by (simp add: verify_handler_def verify_request_def Let_def cong: option.case_cong if_cong)

text \<open>On any other request the answer is an error with status 400 or 500.\<close>

lemma verify_handler_malformed:
  assumes "\<not> (t \<noteq> [] \<and> sanitizeToken t = t \<and> 16 \<le> length t \<and> v_queryError env = None)"
  shows "statusCode (fst (verify_handler env (verify_request t) table)) \<in> {400, 500} \<and>
     field (body (fst (verify_handler env (verify_request t) table))) ''alreadyVerified'' = JUndefined"
proof (cases "t = []")
  case True
  then show ?thesis by (simp add: verify_handler_def verify_request_def)
next
  case t: False
  show ?thesis
  proof (cases "length (sanitizeToken t) \<noteq> length t \<or> length (sanitizeToken t) < 16")
    case True
    then show ?thesis using t by (simp add: verify_handler_def verify_request_def Let_def)
  next
    case False
    then have san: "sanitizeToken t = t"
      unfolding sanitizeToken_def using filter_length_same by blast
    with False assms t obtain m where "v_queryError env = Some m" by auto
    then show ?thesis
      using t False by (simp add: verify_handler_def verify_request_def Let_def)
  qed
qed

text \<open>The only way to the success answer of the verification handler.\<close>

lemma verify_handler_success:
  assumes run: "verify_handler env (verify_request t) table = (r, table')"
    and ok: "statusCode r = 200" and na: "field (body r) ''alreadyVerified'' = JUndefined"
  shows "t \<noteq> [] \<and> sanitizeToken t = t \<and> 16 \<le> length t \<and>
     (\<exists>c0. findCompanyByToken t table = Some c0 \<and> \<not> email_verified c0 \<and>
        table' = updateCompanyVerification (cid c0) table)"
proof -
  have wf: "t \<noteq> [] \<and> sanitizeToken t = t \<and> 16 \<le> length t \<and> v_queryError env = None"
  proof (rule ccontr)
    assume "\<not> ?thesis"
    from verify_handler_malformed [OF this, of table] run ok show False by simp
  qed
  note h = verify_handler_wellformed [of t env table]
  show ?thesis
  proof (cases "findCompanyByToken t table")
    case None
    then show ?thesis using h wf run ok by auto
  next
    case (Some c0)
    show ?thesis
    proof (cases "email_verified c0")
      case True
      then show ?thesis using h wf run na Some by auto
    next
      case nv: False
      show ?thesis
      proof (cases "v_now env - created_at c0 > 24 * 60 * 60 * 1000")
        case True
        then show ?thesis using h wf run ok Some nv by auto
      next
        case False
        then show ?thesis using h wf run ok Some nv
          by (cases "v_updateError env") auto
      qed
    qed
  qed
qed

lemma verify_handler_already:
  assumes a: "field (body (fst (verify_handler env (verify_request t) table))) ''alreadyVerified'' = JBool True"
  shows "\<exists>c. findCompanyByToken t table = Some c \<and> email_verified c \<and> verification_token c = Some t"
proof -
  have wf: "t \<noteq> [] \<and> sanitizeToken t = t \<and> 16 \<le> length t \<and> v_queryError env = None"
  proof (rule ccontr)
    assume "\<not> ?thesis"
    from verify_handler_malformed [OF this, of table] a show False by simp
  qed
  note h = verify_handler_wellformed [of t env table]
  have "\<exists>c. findCompanyByToken t table = Some c \<and> email_verified c"
  proof (cases "findCompanyByToken t table")
    case None
    then show ?thesis using h wf a by auto
  next
    case (Some c0)
    show ?thesis
    proof (cases "email_verified c0")
      case True
      then show ?thesis using Some by simp
    next
      case nv: False
      show ?thesis
      proof (cases "v_now env - created_at c0 > 24 * 60 * 60 * 1000")
        case True
        then show ?thesis using h wf a Some nv by auto
      next
        case False
        then show ?thesis using h wf a Some nv
          by (cases "v_updateError env") auto
      qed
    qed
  qed
  then show ?thesis
    by (auto simp: findCompanyByToken_def find_Some_iff)
qed

text \<open>
  Claim C3 (as amended).  After a first successful presentation of a token the account
  found by it has \<open>email_verified = true\<close>, \<open>account_status = 'email_verified'\<close> and an empty
  \<open>verification_token\<close>; when no other account stored the same token, no row stores it any
  more, so presenting it a second time (the lookup succeeding) finds no account and is
  answered 404, \<open>Invalid or expired verification token\<close>, leaving the table unchanged.  The
  already-verified answer is given only when the lookup by token finds an account that is
  verified and still stores the token.
\<close>

theorem verify_email_replay:
  assumes "verify_handler env (verify_request t) table = (r, table')"
    and "statusCode r = 200" and "field (body r) ''alreadyVerified'' = JUndefined"
    and "length (filter (\<lambda>c. verification_token c = Some t) table) \<le> 1"
    and "v_queryError env' = None"
  shows "(\<exists>c0. findCompanyByToken t table = Some c0 \<and>
            c0\<lparr>email_verified := True, account_status := ''email_verified'',
               verification_token := None\<rparr> \<in> set table' \<and>
            (\<forall>c \<in> set table'. cid c = cid c0 \<longrightarrow>
               email_verified c \<and> account_status c = ''email_verified'' \<and> verification_token c = None))
     \<and> (\<forall>c \<in> set table'. verification_token c \<noteq> Some t)
     \<and> verify_handler env' (verify_request t) table' =
          (\<lparr>statusCode = 404,
            body = JObj [(''error'', JStr ''Invalid or expired verification token. The link may have already been used or expired.'')]\<rparr>,
           table')
     \<and> (field (body (fst (verify_handler env2 (verify_request t2) table2))) ''alreadyVerified'' = JBool True
          \<longrightarrow> (\<exists>c. findCompanyByToken t2 table2 = Some c \<and> email_verified c \<and>
                   verification_token c = Some t2))"
proof -
  from verify_handler_success [OF assms(1-3)]
  obtain c0 where wf: "t \<noteq> []" "sanitizeToken t = t" "16 \<le> length t"
    and c0: "findCompanyByToken t table = Some c0" "\<not> email_verified c0"
    and t': "table' = updateCompanyVerification (cid c0) table"
    by blast
  have none: "findCompanyByToken t table' = None"
    unfolding t' by (rule updateCompanyVerification_clears [OF c0(1) assms(4)])
  have in0: "c0 \<in> set table"
    using c0(1) find_in_filter [of "\<lambda>c. verification_token c = Some t" table c0]
    by (simp add: findCompanyByToken_def)
  have "(\<lambda>c. if cid c = cid c0
               then c\<lparr>email_verified := True, account_status := ''email_verified'',
                      verification_token := None\<rparr>
               else c) c0 \<in> set table'"
    unfolding t' updateCompanyVerification_def set_map using in0 by (rule imageI)
  then have upd: "c0\<lparr>email_verified := True, account_status := ''email_verified'',
               verification_token := None\<rparr> \<in> set table'"
    by simp
  have rows: "\<forall>c \<in> set table'. cid c = cid c0 \<longrightarrow>
               email_verified c \<and> account_status c = ''email_verified'' \<and> verification_token c = None"
    unfolding t' using updateCompanyVerification_row by blast
  have notok: "\<forall>c \<in> set table'. verification_token c \<noteq> Some t"
    using none unfolding findCompanyByToken_def find_None_iff by blast
  have second: "verify_handler env' (verify_request t) table' =
          (\<lparr>statusCode = 404,
            body = JObj [(''error'', JStr ''Invalid or expired verification token. The link may have already been used or expired.'')]\<rparr>,
           table')"
    unfolding verify_handler_wellformed [OF wf assms(5)] none by simp
  have already: "field (body (fst (verify_handler env2 (verify_request t2) table2))) ''alreadyVerified'' = JBool True
          \<longrightarrow> (\<exists>c. findCompanyByToken t2 table2 = Some c \<and> email_verified c \<and>
                   verification_token c = Some t2)"
    using verify_handler_already by blast
  from c0(1) upd rows notok second already show ?thesis by blast
qed

lemma pending_token_wellformed:
  "sanitizeToken ''AbCdEfGhIjKlMnOpQrStUvWxYz012345'' = ''AbCdEfGhIjKlMnOpQrStUvWxYz012345''"
  by code_simp

lemma verify_pending_first:
  "verify_handler (verify_env_at 1705312900000) (verify_request ''AbCdEfGhIjKlMnOpQrStUvWxYz012345'')
     [pending_company]
   = (\<lparr>statusCode = 200,
        body = JObj [(''success'', JBool True),
                     (''message'', JStr ''Email verified successfully! Your account is now active.''),
                     (''company'', JObj [(''company_name'', JStr ''Acme Estates''),
                                         (''email'', JStr ''owner@acme-estates.com''),
                                         (''account_status'', JStr ''email_verified''),
                                         (''first_name'', JStr ''Ann'')])]\<rparr>,
      [pending_company\<lparr>email_verified := True, account_status := ''email_verified'',
                       verification_token := None\<rparr>])"
  by (subst verify_handler_wellformed [OF _ pending_token_wellformed])
    (simp_all add: verify_env_at_def findCompanyByToken_def updateCompanyVerification_def
       pending_company_def)

text \<open>
  The theorem at the pending account, 100 seconds after signup: the first presentation
  succeeds and the second one is answered 404.
\<close>

theorem verify_email_replay_witness:
  "statusCode (fst (verify_handler (verify_env_at 1705312900000)
       (verify_request ''AbCdEfGhIjKlMnOpQrStUvWxYz012345'') [pending_company])) = 200
   \<and> verify_handler (verify_env_at 1705313000000) (verify_request ''AbCdEfGhIjKlMnOpQrStUvWxYz012345'')
       [pending_company\<lparr>email_verified := True, account_status := ''email_verified'',
                        verification_token := None\<rparr>]
     = (\<lparr>statusCode = 404,
          body = JObj [(''error'', JStr ''Invalid or expired verification token. The link may have already been used or expired.'')]\<rparr>,
        [pending_company\<lparr>email_verified := True, account_status := ''email_verified'',
                        verification_token := None\<rparr>])"
proof -
  have one: "length (filter (\<lambda>c. verification_token c = Some ''AbCdEfGhIjKlMnOpQrStUvWxYz012345'')
      [pending_company]) \<le> 1"
    by simp
  have q: "v_queryError (verify_env_at 1705313000000) = None"
    by (simp add: verify_env_at_def)
  from verify_email_replay [OF verify_pending_first _ _ one q]
  show ?thesis
    by (simp add: verify_pending_first)
qed

text \<open>
  Claim C3 as stated fails: the second presentation of the very token that has just
  verified the account is answered with the error 404, not with the already-verified 200.
\<close>

theorem verify_replay_counterexample:
  "fst (verify_handler (verify_env_at 1705313000000)
      (verify_request ''AbCdEfGhIjKlMnOpQrStUvWxYz012345'')
      (snd (verify_handler (verify_env_at 1705312900000)
         (verify_request ''AbCdEfGhIjKlMnOpQrStUvWxYz012345'') [pending_company])))
   = \<lparr>statusCode = 404,
      body = JObj [(''error'', JStr ''Invalid or expired verification token. The link may have already been used or expired.'')]\<rparr>"
  unfolding verify_pending_first snd_conv
  by (subst verify_handler_wellformed [OF _ pending_token_wellformed])
    (simp_all add: verify_env_at_def findCompanyByToken_def pending_company_def)

subsection \<open>Token verification\<close>

lemma authenticateRequest_bearer:
  assumes "headers ev ''authorization'' = Some (''Bearer '' @ tok)"
  shows "authenticateRequest verify conv JWT_SECRET now ev =
     (case verify tok (jwtSecret_of JWT_SECRET) of
        None \<Rightarrow> Inl ''Invalid token''
      | Some decoded \<Rightarrow>
          if nullish decoded then Inl ''Invalid token''
          else if js_less_num conv (field decoded ''exp'') (of_int (now div 1000)) then
            Inl ''Token expired''
          else if field decoded ''subscriptionStatus'' \<noteq> JStr ''active'' then
            Inl ''Active subscription required''
          else
            Inr [(''userId'', field decoded ''userId''),
                 (''email'', field decoded ''email''),
                 (''companyName'', field decoded ''companyName''),
                 (''subscriptionStatus'', field decoded ''subscriptionStatus'')])"
  using assms by (simp add: authenticateRequest_def jwtSecret_of_def Let_def)

lemma js_less_num_JNum: "js_less_num conv (JNum x) n = (x < n)"
  by (simp add: js_less_num_def)

text \<open>The only way to \<open>Token expired\<close>: the verifier returned claims whose \<open>exp\<close> compares
  below the handler's clock.\<close>

lemma authenticateRequest_expired_only:
  assumes "authenticateRequest verify conv JWT_SECRET now ev = Inl ''Token expired''"
  shows "\<exists>tok decoded. verify tok (jwtSecret_of JWT_SECRET) = Some decoded \<and>
           js_less_num conv (field decoded ''exp'') (of_int (now div 1000))"
proof -
  define authHeader where "authHeader =
     (case headers ev ''authorization'' of
        None \<Rightarrow> headers ev ''Authorization''
      | Some h \<Rightarrow> if h \<noteq> [] then Some h else headers ev ''Authorization'')"
  have run: "authenticateRequest verify conv JWT_SECRET now ev =
     (case authHeader of
        None \<Rightarrow> Inl ''No valid authorization token provided''
      | Some h \<Rightarrow>
          if h = [] \<or> take 7 h \<noteq> ''Bearer '' then Inl ''No valid authorization token provided''
          else
            case verify (drop 7 h) (jwtSecret_of JWT_SECRET) of
              None \<Rightarrow> Inl ''Invalid token''
            | Some decoded \<Rightarrow>
                if nullish decoded then Inl ''Invalid token''
                else if js_less_num conv (field decoded ''exp'') (of_int (now div 1000)) then
                  Inl ''Token expired''
                else if field decoded ''subscriptionStatus'' \<noteq> JStr ''active'' then
                  Inl ''Active subscription required''
                else
                  Inr [(''userId'', field decoded ''userId''),
                       (''email'', field decoded ''email''),
                       (''companyName'', field decoded ''companyName''),
                       (''subscriptionStatus'', field decoded ''subscriptionStatus'')])"
    unfolding authenticateRequest_def jwtSecret_of_def authHeader_def Let_def by (rule refl)
  show ?thesis
  proof (cases authHeader)
    case None
    with assms run show ?thesis by simp
  next
    case (Some h)
    show ?thesis
    proof (cases "h = [] \<or> take 7 h \<noteq> ''Bearer ''")
      case True
      with assms run Some show ?thesis by simp
    next
      case bearer: False
      show ?thesis
      proof (cases "verify (drop 7 h) (jwtSecret_of JWT_SECRET)")
        case None
        with assms run Some bearer show ?thesis by simp
      next
        case (Some decoded)
        have "js_less_num conv (field decoded ''exp'') (of_int (now div 1000))"
        proof (rule ccontr)
          assume "\<not> ?thesis"
          with assms run \<open>authHeader = Some h\<close> bearer Some show False
            by (simp split: if_splits)
        qed
        with Some show ?thesis by blast
      qed
    qed
  qed
qed

text \<open>What \<open>jwt.verify\<close> hands back was not expired at its clock.\<close>

lemma jwt_verify_unexpired:
  assumes "jwt_verify decode clock tok secret = Some decoded"
  shows "\<not> js_less_num conv (field decoded ''exp'') (of_int (clock div 1000))"
proof -
  from assms have ok: "(case field decoded ''exp'' of
                          JUndefined \<Rightarrow> True
                        | JNum e \<Rightarrow> \<not> (of_int (clock div 1000) :: rat) \<ge> e
                        | JNaN \<Rightarrow> True
                        | _ \<Rightarrow> False)"
    by (auto simp: jwt_verify_def Let_def split: option.splits if_splits)
  then show ?thesis
    by (cases "field decoded ''exp''") (simp_all add: js_less_num_def)
qed

lemma jwt_verify_expired:
  assumes "decode tok secret = Some (JObj d)" and "get d ''exp'' = JNum e"
    and "e \<le> of_int (clock div 1000)"
  shows "jwt_verify decode clock tok secret = None"
  using assms by (simp add: jwt_verify_def Let_def)

text \<open>The handler with the library's verifier on a token that is not expired and has no
  \<open>nbf\<close> claim.\<close>

lemma authenticateRequest_unexpired:
  assumes "headers ev ''authorization'' = Some (''Bearer '' @ tok)"
    and "decode tok (jwtSecret_of JWT_SECRET) = Some (JObj d)"
    and "get d ''exp'' = JNum e" and "of_int (now div 1000) < e" and "get d ''nbf'' = JUndefined"
  shows "authenticateRequest (jwt_verify decode now) conv JWT_SECRET now ev =
     (if get d ''subscriptionStatus'' \<noteq> JStr ''active'' then Inl ''Active subscription required''
      else Inr [(''userId'', get d ''userId''), (''email'', get d ''email''),
                (''companyName'', get d ''companyName''),
                (''subscriptionStatus'', get d ''subscriptionStatus'')])"
proof -
  have v: "jwt_verify decode now tok (jwtSecret_of JWT_SECRET) = Some (JObj d)"
    using assms(2-5) by (simp add: jwt_verify_def Let_def)
  show ?thesis
    unfolding authenticateRequest_bearer [OF assms(1)] v
    using assms(3,4) by (simp add: js_less_num_JNum)
qed

text \<open>
  Claim C5 fails on the code for expired tokens.  With the verifier of \<open>jsonwebtoken\<close>,
  whose clock reading falls in the same second as the handler's, \<open>authenticateRequest\<close>
  never answers \<open>Token expired\<close>: a token with a valid signature whose \<open>exp\<close> has passed
  makes \<open>jwt.verify\<close> throw, and the \<open>catch\<close> answers \<open>Invalid token\<close>.
\<close>

theorem authenticateRequest_expired_token:
  assumes "clock div 1000 = now div 1000"
  shows "authenticateRequest (jwt_verify decode clock) conv JWT_SECRET now ev \<noteq> Inl ''Token expired''
     \<and> (headers ev ''authorization'' = Some (''Bearer '' @ tok) \<and>
         decode tok (jwtSecret_of JWT_SECRET) = Some (JObj d) \<and>
         get d ''exp'' = JNum e \<and> e < of_int (now div 1000) \<longrightarrow>
          authenticateRequest (jwt_verify decode clock) conv JWT_SECRET now ev = Inl ''Invalid token'')"
proof (intro conjI impI)
  show "authenticateRequest (jwt_verify decode clock) conv JWT_SECRET now ev \<noteq> Inl ''Token expired''"
  proof
    assume "authenticateRequest (jwt_verify decode clock) conv JWT_SECRET now ev = Inl ''Token expired''"
    from authenticateRequest_expired_only [OF this]
    obtain t decoded where "jwt_verify decode clock t (jwtSecret_of JWT_SECRET) = Some decoded"
      and "js_less_num conv (field decoded ''exp'') (of_int (now div 1000))"
      by blast
    with jwt_verify_unexpired [of decode clock t "jwtSecret_of JWT_SECRET" decoded conv] assms
    show False by simp
  qed
next
  assume a: "headers ev ''authorization'' = Some (''Bearer '' @ tok) \<and>
         decode tok (jwtSecret_of JWT_SECRET) = Some (JObj d) \<and>
         get d ''exp'' = JNum e \<and> e < of_int (now div 1000)"
  then have "jwt_verify decode clock tok (jwtSecret_of JWT_SECRET) = None"
    using jwt_verify_expired [of decode tok "jwtSecret_of JWT_SECRET" d e clock] assms by simp
  then show "authenticateRequest (jwt_verify decode clock) conv JWT_SECRET now ev = Inl ''Invalid token''"
    using a authenticateRequest_bearer [of ev tok] by simp
qed

text \<open>
  The theorem at the demo token that expired at 1705000000 s, presented at the clock
  1705312800000 ms: the answer is \<open>Invalid token\<close>, whatever the number conversion.
\<close>

theorem authenticateRequest_expired_token_witness:
  "\<forall>conv. authenticateRequest (jwt_verify demo_decode 1705312800000) conv None 1705312800000
       (bearer_request ''old.demo.token'' Map.empty) = Inl ''Invalid token''"
proof
  fix conv
  have c: "(1705312800000 :: int) div 1000 = 1705312800000 div 1000" by simp
  have h: "headers (bearer_request ''old.demo.token'' Map.empty) ''authorization''
      = Some (''Bearer '' @ ''old.demo.token'')"
    by (simp add: bearer_request_def)
  have d: "demo_decode ''old.demo.token'' (jwtSecret_of None) = Some (JObj (demo_claims 1705000000 ''active''))"
    by (simp add: demo_decode_def jwtSecret_of_def)
  have e: "get (demo_claims 1705000000 ''active'') ''exp'' = JNum 1705000000"
    by (simp add: demo_claims_def)
  from authenticateRequest_expired_token [OF c, THEN conjunct2, rule_format,
      where ev = "bearer_request ''old.demo.token'' Map.empty" and tok = "''old.demo.token''"
        and decode = demo_decode and JWT_SECRET = None
        and d = "demo_claims 1705000000 ''active''" and e = 1705000000 and conv = conv] h d e
  show "authenticateRequest (jwt_verify demo_decode 1705312800000) conv None 1705312800000
       (bearer_request ''old.demo.token'' Map.empty) = Inl ''Invalid token''"
    by simp
qed

subsection \<open>The leads listing: pagination\<close>

lemma js_slice_length:
  "0 \<le> l \<Longrightarrow> int (length (js_slice xs s (s + l))) \<le> l"
  by (auto simp: js_slice_def Let_def min_def max_def)

lemma js_slice_subset: "set (js_slice xs s e) \<subseteq> set xs"
proof -
  have "set (js_slice xs s e) \<subseteq> set (drop (nat (if s < 0 then max (int (length xs) + s) 0 else min s (int (length xs)))) xs)"
    unfolding js_slice_def Let_def by (rule set_take_subset)
  also have "\<dots> \<subseteq> set xs" by (rule set_drop_subset)
  finally show ?thesis .
qed

lemma filter_by_subset: "set (filter_by key param leads) \<subseteq> set leads"
  by (auto simp: filter_by_def split: option.splits)

lemma filteredLeads_demo: "set (filteredLeads q) \<subseteq> set DEMO_LEADS"
proof
  fix lead assume "lead \<in> set (filteredLeads q)"
  then have "lead \<in> set (filter_by ''propertyType'' (q ''propertyType'')
                          (filter_by ''timeline'' (q ''timeline'') DEMO_LEADS))"
    unfolding filteredLeads_def by (rule subsetD [OF filter_by_subset])
  then have "lead \<in> set (filter_by ''timeline'' (q ''timeline'') DEMO_LEADS)"
    by (rule subsetD [OF filter_by_subset])
  then show "lead \<in> set DEMO_LEADS"
    by (rule subsetD [OF filter_by_subset])
qed

text \<open>The \<open>created_at\<close> of each demo lead is a string, which \<open>new Date\<close> converts.\<close>

lemma DEMO_LEADS_convert:
  "lead \<in> set DEMO_LEADS \<Longrightarrow> \<exists>l. lead = JObj l \<and> \<not> toPrimitive_throws (get l ''created_at'')"
  by (auto simp: DEMO_LEADS_def demo_lead1_def demo_lead2_def demo_lead3_def)

lemma map_throwing_total:
  assumes "\<forall>x \<in> set xs. \<exists>y. f x = Inr y"
  shows "\<exists>ys. map_throwing f xs = Inr ys \<and> map f xs = map Inr ys"
  using assms
proof (induction xs)
  case Nil
  then show ?case by simp
next
  case (Cons x xs)
  then obtain y where y: "f x = Inr y" by auto
  from Cons obtain ys where ys: "map_throwing f xs = Inr ys" "map f xs = map Inr ys" by auto
  show ?case using y ys by simp
qed

lemma parseInt_or_fallback:
  "parseInt s = None \<or> parseInt s = Some 0 \<Longrightarrow> parseInt_or s d = d"
  by (auto simp: parseInt_or_def)

lemma parseInt_20: "parseInt ''20'' = Some 20"
  by code_simp

lemma parseInt_0: "parseInt ''0'' = Some 0"
  by code_simp


text \<open>The handler after a successful authentication of a \<open>GET\<close> request.\<close>

lemma leads_handler_listing:
  assumes get: "api_method ev = ''GET''"
    and auth: "authenticateRequest verify conv JWT_SECRET now ev = Inr user"
    and q: "q = (case queryStringParameters ev of None \<Rightarrow> Map.empty | Some p \<Rightarrow> p)"
  shows "\<exists>outs.
     map (\<lambda>lead. sanitizeLead dateOf now lead (JObj user))
         (js_slice (filteredLeads q) (offsetNum q) (offsetNum q + limitNum q)) = map Inr outs \<and>
     leads_handler verify conv dateOf JWT_SECRET now ev =
       \<lparr>statusCode = 200,
        body = JObj
          [(''success'', JBool True),
           (''data'', JArr (map JObj outs)),
           (''meta'', JObj
              [(''count'', JNum (of_nat (length outs))),
               (''offset'', JNum (of_int (offsetNum q))),
               (''limit'', JNum (of_int (limitNum q))),
               (''hasMore'', JBool (offsetNum q + limitNum q < int (length (filteredLeads q)))),
               (''total'', JNum (of_nat (length (filteredLeads q))))])]\<rparr>"
proof -
  let ?page = "js_slice (filteredLeads q) (offsetNum q) (offsetNum q + limitNum q)"
  have "\<forall>lead \<in> set ?page. \<exists>out. sanitizeLead dateOf now lead (JObj user) = Inr out"
  proof
    fix lead assume "lead \<in> set ?page"
    then have "lead \<in> set (filteredLeads q)" by (rule subsetD [OF js_slice_subset])
    then have "lead \<in> set DEMO_LEADS" by (rule subsetD [OF filteredLeads_demo])
    then obtain l where l: "lead = JObj l" "\<not> toPrimitive_throws (get l ''created_at'')"
      using DEMO_LEADS_convert by blast
    show "\<exists>out. sanitizeLead dateOf now lead (JObj user) = Inr out"
      unfolding l(1) by (rule sanitizeLead_total [OF l(2)])
  qed
  then obtain outs where outs:
    "map_throwing (\<lambda>lead. sanitizeLead dateOf now lead (JObj user)) ?page = Inr outs"
    "map (\<lambda>lead. sanitizeLead dateOf now lead (JObj user)) ?page = map Inr outs"
    using map_throwing_total [of ?page "\<lambda>lead. sanitizeLead dateOf now lead (JObj user)"] by auto
  have "leads_handler verify conv dateOf JWT_SECRET now ev =
       \<lparr>statusCode = 200,
        body = JObj
          [(''success'', JBool True),
           (''data'', JArr (map JObj outs)),
           (''meta'', JObj
              [(''count'', JNum (of_nat (length outs))),
               (''offset'', JNum (of_int (offsetNum q))),
               (''limit'', JNum (of_int (limitNum q))),
               (''hasMore'', JBool (offsetNum q + limitNum q < int (length (filteredLeads q)))),
               (''total'', JNum (of_nat (length (filteredLeads q))))])]\<rparr>"
    unfolding leads_handler_def q [symmetric] Let_def
    by (simp only: get auth outs(1) sum.case if_False) simp
  with outs(2) show ?thesis by blast
qed

text \<open>
  For an authenticated \<open>GET\<close> request with query parameters \<open>q\<close>,
  the handler answers 200 with \<open>data\<close> the projections of
  \<open>filteredLeads.slice(offset, offset + limit)\<close>, where \<open>limit\<close> is 20 whenever the supplied
  string does not parse or parses to 0, and \<open>offset\<close> is 0 whenever the supplied string
  does not parse or parses to 0; the number of returned leads does not exceed the
  effective limit whenever that limit is not negative; and \<open>meta.hasMore\<close> is true exactly
  when \<open>offset + limit\<close> is less than the number of filtered leads.
\<close>

lemma leads_handler_pagination:
  assumes "api_method ev = ''GET''"
    and "authenticateRequest verify conv JWT_SECRET now ev = Inr user"
    and "q = (case queryStringParameters ev of None \<Rightarrow> Map.empty | Some p \<Rightarrow> p)"
  shows "\<exists>outs.
     leads_handler verify conv dateOf JWT_SECRET now ev =
       \<lparr>statusCode = 200,
        body = JObj
          [(''success'', JBool True),
           (''data'', JArr (map JObj outs)),
           (''meta'', JObj
              [(''count'', JNum (of_nat (length outs))),
               (''offset'', JNum (of_int (offsetNum q))),
               (''limit'', JNum (of_int (limitNum q))),
               (''hasMore'', JBool (offsetNum q + limitNum q < int (length (filteredLeads q)))),
               (''total'', JNum (of_nat (length (filteredLeads q))))])]\<rparr> \<and>
     map (\<lambda>lead. sanitizeLead dateOf now lead (JObj user))
         (js_slice (filteredLeads q) (offsetNum q) (offsetNum q + limitNum q)) = map Inr outs \<and>
     (0 \<le> limitNum q \<longrightarrow> int (length outs) \<le> limitNum q) \<and>
     (q ''limit'' = None \<longrightarrow> limitNum q = 20) \<and>
     (\<forall>s. q ''limit'' = Some s \<and> (parseInt s = None \<or> parseInt s = Some 0) \<longrightarrow> limitNum q = 20) \<and>
     (q ''offset'' = None \<longrightarrow> offsetNum q = 0) \<and>
     (\<forall>s. q ''offset'' = Some s \<and> (parseInt s = None \<or> parseInt s = Some 0) \<longrightarrow> offsetNum q = 0)"
proof -
  from leads_handler_listing [OF assms, where dateOf = dateOf]
  obtain outs where outs:
    "map (\<lambda>lead. sanitizeLead dateOf now lead (JObj user))
         (js_slice (filteredLeads q) (offsetNum q) (offsetNum q + limitNum q)) = map Inr outs"
    "leads_handler verify conv dateOf JWT_SECRET now ev =
       \<lparr>statusCode = 200,
        body = JObj
          [(''success'', JBool True),
           (''data'', JArr (map JObj outs)),
           (''meta'', JObj
              [(''count'', JNum (of_nat (length outs))),
               (''offset'', JNum (of_int (offsetNum q))),
               (''limit'', JNum (of_int (limitNum q))),
               (''hasMore'', JBool (offsetNum q + limitNum q < int (length (filteredLeads q)))),
               (''total'', JNum (of_nat (length (filteredLeads q))))])]\<rparr>"
    by blast
  have len: "length outs = length (js_slice (filteredLeads q) (offsetNum q) (offsetNum q + limitNum q))"
    using arg_cong [OF outs(1), of length] by simp
  have bound: "0 \<le> limitNum q \<longrightarrow> int (length outs) \<le> limitNum q"
    unfolding len using js_slice_length by blast
  have l0: "q ''limit'' = None \<longrightarrow> limitNum q = 20"
    by (simp add: limitNum_def parseInt_or_def parseInt_20)
  have l1: "\<forall>s. q ''limit'' = Some s \<and> (parseInt s = None \<or> parseInt s = Some 0) \<longrightarrow> limitNum q = 20"
    by (auto simp: limitNum_def parseInt_or_def)
  have o0: "q ''offset'' = None \<longrightarrow> offsetNum q = 0"
    by (simp add: offsetNum_def parseInt_or_def parseInt_0)
  have o1: "\<forall>s. q ''offset'' = Some s \<and> (parseInt s = None \<or> parseInt s = Some 0) \<longrightarrow> offsetNum q = 0"
    by (auto simp: offsetNum_def parseInt_or_def)
  show ?thesis
    by (rule exI [of _ outs]) (intro conjI outs(2) outs(1) bound l0 l1 o0 o1)
qed

lemma demo_valid_auth:
  "authenticateRequest (jwt_verify demo_decode 1705312800000) conv None 1705312800000
     (bearer_request ''valid.demo.token'' q) = Inr active_user"
proof -
  have h: "headers (bearer_request ''valid.demo.token'' q) ''authorization''
      = Some (''Bearer '' @ ''valid.demo.token'')"
    by (simp add: bearer_request_def)
  have d: "demo_decode ''valid.demo.token'' (jwtSecret_of None)
      = Some (JObj (demo_claims 1705399200 ''active''))"
    by (simp add: demo_decode_def jwtSecret_of_def)
  have "authenticateRequest (jwt_verify demo_decode 1705312800000) conv None 1705312800000
          (bearer_request ''valid.demo.token'' q) =
     (if get (demo_claims 1705399200 ''active'') ''subscriptionStatus'' \<noteq> JStr ''active''
      then Inl ''Active subscription required''
      else Inr [(''userId'', get (demo_claims 1705399200 ''active'') ''userId''),
                (''email'', get (demo_claims 1705399200 ''active'') ''email''),
                (''companyName'', get (demo_claims 1705399200 ''active'') ''companyName''),
                (''subscriptionStatus'', get (demo_claims 1705399200 ''active'') ''subscriptionStatus'')])"
    by (rule authenticateRequest_unexpired [where tok = "''valid.demo.token''" and e = 1705399200])
      (simp_all add: h d demo_claims_def)
  then show ?thesis
    by (simp add: demo_claims_def active_user_def)
qed

lemma filteredLeads_no_filter:
  "q ''timeline'' = None \<Longrightarrow> q ''propertyType'' = None \<Longrightarrow> q ''zipCode'' = None \<Longrightarrow>
   filteredLeads q = DEMO_LEADS"
  by (simp add: filteredLeads_def filter_by_def)

lemma demo_meta:
  assumes nf: "q ''timeline'' = None" "q ''propertyType'' = None" "q ''zipCode'' = None"
  shows "field (body (leads_handler (jwt_verify demo_decode 1705312800000) conv demo_dateOf None 1705312800000
            (bearer_request ''valid.demo.token'' q))) ''meta'' =
     JObj [(''count'', JNum (of_nat (length (js_slice DEMO_LEADS (offsetNum q) (offsetNum q + limitNum q))))),
           (''offset'', JNum (of_int (offsetNum q))),
           (''limit'', JNum (of_int (limitNum q))),
           (''hasMore'', JBool (offsetNum q + limitNum q < 3)),
           (''total'', JNum 3)]"
proof -
  have m: "api_method (bearer_request ''valid.demo.token'' q) = ''GET''"
    and p: "q = (case queryStringParameters (bearer_request ''valid.demo.token'' q) of
                   None \<Rightarrow> Map.empty | Some p \<Rightarrow> p)"
    by (simp_all add: bearer_request_def)
  from leads_handler_listing [OF m demo_valid_auth p, where dateOf = demo_dateOf]
  obtain outs where outs:
    "map (\<lambda>lead. sanitizeLead demo_dateOf 1705312800000 lead (JObj active_user))
         (js_slice (filteredLeads q) (offsetNum q) (offsetNum q + limitNum q)) = map Inr outs"
    "leads_handler (jwt_verify demo_decode 1705312800000) conv demo_dateOf None 1705312800000
        (bearer_request ''valid.demo.token'' q) =
       \<lparr>statusCode = 200,
        body = JObj
          [(''success'', JBool True),
           (''data'', JArr (map JObj outs)),
           (''meta'', JObj
              [(''count'', JNum (of_nat (length outs))),
               (''offset'', JNum (of_int (offsetNum q))),
               (''limit'', JNum (of_int (limitNum q))),
               (''hasMore'', JBool (offsetNum q + limitNum q < int (length (filteredLeads q)))),
               (''total'', JNum (of_nat (length (filteredLeads q))))])]\<rparr>"
    by blast
  have len: "length outs = length (js_slice DEMO_LEADS (offsetNum q) (offsetNum q + limitNum q))"
    using arg_cong [OF outs(1), of length] by (simp add: filteredLeads_no_filter [OF nf])
  show ?thesis
    unfolding outs(2) by (simp add: len filteredLeads_no_filter [OF nf] DEMO_LEADS_def)
qed

lemma parseInt_minus_1: "parseInt ''-1'' = Some (- 1)"
  by code_simp

lemma parseInt_abc: "parseInt ''abc'' = None"
  by code_simp

text \<open>At the demo data with \<open>limit=abc\<close>: the limit falls back to 20, the three demo
  leads are returned and \<open>hasMore\<close> is false.\<close>

lemma leads_handler_pagination_example:
  "limitNum [''limit'' \<mapsto> ''abc''] = 20
   \<and> field (body (leads_handler (jwt_verify demo_decode 1705312800000) conv demo_dateOf None 1705312800000
          (bearer_request ''valid.demo.token'' [''limit'' \<mapsto> ''abc'']))) ''meta'' =
       JObj [(''count'', JNum 3), (''offset'', JNum 0), (''limit'', JNum 20),
             (''hasMore'', JBool False), (''total'', JNum 3)]"
proof -
  let ?q = "[''limit'' \<mapsto> ''abc'']"
  have l: "limitNum ?q = 20" by (simp add: limitNum_def parseInt_or_def parseInt_abc)
  have o: "offsetNum ?q = 0" by (simp add: offsetNum_def parseInt_or_def parseInt_0)
  have "field (body (leads_handler (jwt_verify demo_decode 1705312800000) conv demo_dateOf None 1705312800000
          (bearer_request ''valid.demo.token'' ?q))) ''meta'' =
       JObj [(''count'', JNum 3), (''offset'', JNum 0), (''limit'', JNum 20),
             (''hasMore'', JBool False), (''total'', JNum 3)]"
    by (subst demo_meta) (simp_all add: l o js_slice_def DEMO_LEADS_def)
  with l show ?thesis by simp
qed

text \<open>
  Claim C10 fails on the code for a negative limit.  An authenticated \<open>GET\<close> with
  \<open>limit=-1\<close> at the demo data: \<open>parseInt('-1') || 20\<close> is \<open>-1\<close>, the page is
  \<open>filteredLeads.slice(0, -1)\<close>, that is the leads 1 and 2, and the answer is 200 with
  \<open>count\<close> 2 beside \<open>limit\<close> -1: two leads are returned, more than the effective limit.
\<close>

theorem leads_handler_negative_limit:
  "\<forall>conv.
     statusCode (leads_handler (jwt_verify demo_decode 1705312800000) conv demo_dateOf None 1705312800000
          (bearer_request ''valid.demo.token'' [''limit'' \<mapsto> ''-1''])) = 200
   \<and> (\<exists>rows. field (body (leads_handler (jwt_verify demo_decode 1705312800000) conv demo_dateOf None
                  1705312800000 (bearer_request ''valid.demo.token'' [''limit'' \<mapsto> ''-1'']))) ''data''
              = JArr rows
         \<and> map (\<lambda>row. field row ''id'') rows = [JNum 1, JNum 2])
   \<and> field (body (leads_handler (jwt_verify demo_decode 1705312800000) conv demo_dateOf None 1705312800000
          (bearer_request ''valid.demo.token'' [''limit'' \<mapsto> ''-1'']))) ''meta'' =
       JObj [(''count'', JNum 2), (''offset'', JNum 0), (''limit'', JNum (- 1)),
             (''hasMore'', JBool True), (''total'', JNum 3)]"
proof
  fix conv
  let ?q = "[''limit'' \<mapsto> ''-1'']"
  let ?ev = "bearer_request ''valid.demo.token'' ?q"
  let ?r = "leads_handler (jwt_verify demo_decode 1705312800000) conv demo_dateOf None 1705312800000 ?ev"
  have l: "limitNum ?q = - 1" by (simp add: limitNum_def parseInt_or_def parseInt_minus_1)
  have o: "offsetNum ?q = 0" by (simp add: offsetNum_def parseInt_or_def parseInt_0)
  have f: "filteredLeads ?q = DEMO_LEADS" by (simp add: filteredLeads_no_filter)
  have page: "js_slice (filteredLeads ?q) (offsetNum ?q) (offsetNum ?q + limitNum ?q)
                = [JObj demo_lead1, JObj demo_lead2]"
    unfolding f l o by (simp add: js_slice_def DEMO_LEADS_def)
  have m: "api_method ?ev = ''GET''"
    and p: "?q = (case queryStringParameters ?ev of None \<Rightarrow> Map.empty | Some p \<Rightarrow> p)"
    by (simp_all add: bearer_request_def)
  from leads_handler_listing [OF m demo_valid_auth p, where dateOf = demo_dateOf and conv = conv]
  obtain outs where outs:
    "map (\<lambda>lead. sanitizeLead demo_dateOf 1705312800000 lead (JObj active_user))
         (js_slice (filteredLeads ?q) (offsetNum ?q) (offsetNum ?q + limitNum ?q)) = map Inr outs"
    "?r =
       \<lparr>statusCode = 200,
        body = JObj
          [(''success'', JBool True),
           (''data'', JArr (map JObj outs)),
           (''meta'', JObj
              [(''count'', JNum (of_nat (length outs))),
               (''offset'', JNum (of_int (offsetNum ?q))),
               (''limit'', JNum (of_int (limitNum ?q))),
               (''hasMore'', JBool (offsetNum ?q + limitNum ?q < int (length (filteredLeads ?q)))),
               (''total'', JNum (of_nat (length (filteredLeads ?q))))])]\<rparr>"
    by blast
  have s1: "\<exists>o1. sanitizeLead demo_dateOf 1705312800000 (JObj demo_lead1) (JObj active_user) = Inr o1
              \<and> get o1 ''id'' = JNum 1"
    by (simp add: sanitizeLead_def Let_def demo_lead1_def)
  have s2: "\<exists>o2. sanitizeLead demo_dateOf 1705312800000 (JObj demo_lead2) (JObj active_user) = Inr o2
              \<and> get o2 ''id'' = JNum 2"
    by (simp add: sanitizeLead_def Let_def demo_lead2_def)
  from s1 s2 obtain o1 o2 where
    o1: "sanitizeLead demo_dateOf 1705312800000 (JObj demo_lead1) (JObj active_user) = Inr o1"
      "get o1 ''id'' = JNum 1"
    and o2: "sanitizeLead demo_dateOf 1705312800000 (JObj demo_lead2) (JObj active_user) = Inr o2"
      "get o2 ''id'' = JNum 2"
    by blast
  have "[Inr o1, Inr o2] = (map Inr outs :: (js_error + jsobj) list)"
    using outs(1) unfolding page by (simp add: o1(1) o2(1))
  then have "map Inr [o1, o2] = (map Inr outs :: (js_error + jsobj) list)" by simp
  then have eq: "outs = [o1, o2]"
    by (simp only: inj_map_eq_map [OF inj_Inr])
  have st: "statusCode ?r = 200" unfolding outs(2) by simp
  have data: "field (body ?r) ''data'' = JArr [JObj o1, JObj o2]"
    unfolding outs(2) eq by simp
  have ids: "map (\<lambda>row. field row ''id'') [JObj o1, JObj o2] = [JNum 1, JNum 2]"
    using o1(2) o2(2) by simp
  have meta: "field (body ?r) ''meta'' =
       JObj [(''count'', JNum 2), (''offset'', JNum 0), (''limit'', JNum (- 1)),
             (''hasMore'', JBool True), (''total'', JNum 3)]"
    unfolding outs(2) eq by (simp add: l o f DEMO_LEADS_def)
  have rows: "\<exists>rows. field (body ?r) ''data'' = JArr rows
         \<and> map (\<lambda>row. field row ''id'') rows = [JNum 1, JNum 2]"
    by (rule exI [of _ "[JObj o1, JObj o2]"]) (intro conjI data ids)
  show "statusCode ?r = 200
   \<and> (\<exists>rows. field (body ?r) ''data'' = JArr rows
         \<and> map (\<lambda>row. field row ''id'') rows = [JNum 1, JNum 2])
   \<and> field (body ?r) ''meta'' =
       JObj [(''count'', JNum 2), (''offset'', JNum 0), (''limit'', JNum (- 1)),
             (''hasMore'', JBool True), (''total'', JNum 3)]"
    by (intro conjI st rows meta)
qed

text \<open>The reported \<open>count\<close> exceeds the reported \<open>limit\<close> in that answer.\<close>

theorem leads_handler_negative_limit_witness:
  "\<exists>count limit.
     field (field (body (leads_handler (jwt_verify demo_decode 1705312800000) (\<lambda>v. None) demo_dateOf None
               1705312800000 (bearer_request ''valid.demo.token'' [''limit'' \<mapsto> ''-1'']))) ''meta'') ''count''
       = JNum count
   \<and> field (field (body (leads_handler (jwt_verify demo_decode 1705312800000) (\<lambda>v. None) demo_dateOf None
               1705312800000 (bearer_request ''valid.demo.token'' [''limit'' \<mapsto> ''-1'']))) ''meta'') ''limit''
       = JNum limit
   \<and> limit < count"
proof -
  note th = leads_handler_negative_limit [THEN spec, of "\<lambda>v. None"]
  show ?thesis
    unfolding th [THEN conjunct2, THEN conjunct2] by simp
qed

subsection \<open>Lead submission: the collected errors\<close>

text \<open>Each block appends to \<open>errors\<close> the message of its field, or nothing.\<close>

lemma errors_validate_firstName:
  "errors (validate_firstName replace (JObj l) st) = errors st @
     (if \<not> truthy (get l ''firstName'') \<or> \<not> isString (get l ''firstName'') then [''First name is required'']
      else if sanitizeText replace (get l ''firstName'') 50 = [] then [''First name cannot be empty'']
      else [])"
  by (simp add: validate_firstName_def Let_def)

lemma errors_validate_lastName:
  "errors (validate_lastName replace (JObj l) st) = errors st @
     (if \<not> truthy (get l ''lastName'') \<or> \<not> isString (get l ''lastName'') then [''Last name is required'']
      else if sanitizeText replace (get l ''lastName'') 50 = [] then [''Last name cannot be empty'']
      else [])"
  by (simp add: validate_lastName_def Let_def)

lemma errors_validate_email:
  "errors (validate_email (JObj l) st) = errors st @
     (case get l ''email'' of
        JStr email \<Rightarrow>
          if email = [] then [''Email is required'']
          else if \<not> isValidEmail (toLowerCase (trim email)) then [''Invalid email format'']
          else []
      | _ \<Rightarrow> [''Email is required''])"
  by (simp add: validate_email_def Let_def split: jsval.splits)

lemma errors_validate_phone:
  "errors (validate_phone (JObj l) st) = errors st @
     (if \<not> truthy (get l ''phone'') \<or> \<not> isString (get l ''phone'') then [''Phone number is required'']
      else if sanitizePhone (get l ''phone'') = [] then [''Invalid phone number format'']
      else [])"
  by (simp add: validate_phone_def Let_def)

lemma errors_validate_address:
  "errors (validate_address replace (JObj l) st) = errors st @
     (if \<not> truthy (get l ''address'') \<or> \<not> isString (get l ''address'') then [''Address is required'']
      else if length (sanitizeText replace (get l ''address'') 200) < 10
        then [''Address must be at least 10 characters'']
      else [])"
  by (simp add: validate_address_def Let_def)

lemma errors_validate_propertyType:
  "errors (validate_propertyType (JObj l) st) = errors st @
     (if \<not> truthy (get l ''propertyType'') \<or> \<not> js_includes validPropertyTypes (get l ''propertyType'')
      then [''Invalid property type''] else [])"
  by (simp add: validate_propertyType_def)

lemma errors_validate_timeline:
  "errors (validate_timeline (JObj l) st) = errors st @
     (if \<not> truthy (get l ''timeline'') \<or> \<not> js_includes validTimelines (get l ''timeline'')
      then [''Invalid timeline''] else [])"
  by (simp add: validate_timeline_def)

lemma errors_validate_details:
  "errors (validate_details replace (JObj l) st) = errors st @
     (if \<not> truthy (get l ''details'') \<or> \<not> isString (get l ''details'') then [''Details are required'']
      else if length (sanitizeText replace (get l ''details'') 2000) < 10
        then [''Details must be at least 10 characters'']
      else [])"
  by (simp add: validate_details_def Let_def)

lemma errors_validate_photoUrls:
  "errors (validate_photoUrls data st) = errors st"
  by (simp add: validate_photoUrls_def Let_def split: jsval.splits)

text \<open>The errors of a submission: the messages of the eight blocks, in the order of the
  blocks.\<close>

lemma validateLeadData_errors:
  "\<exists>v. validateLeadData replace (JObj l) = Inr v \<and>
     errors v =
       (if \<not> truthy (get l ''firstName'') \<or> \<not> isString (get l ''firstName'') then [''First name is required'']
        else if sanitizeText replace (get l ''firstName'') 50 = [] then [''First name cannot be empty'']
        else []) @
       (if \<not> truthy (get l ''lastName'') \<or> \<not> isString (get l ''lastName'') then [''Last name is required'']
        else if sanitizeText replace (get l ''lastName'') 50 = [] then [''Last name cannot be empty'']
        else []) @
       (case get l ''email'' of
          JStr email \<Rightarrow>
            if email = [] then [''Email is required'']
            else if \<not> isValidEmail (toLowerCase (trim email)) then [''Invalid email format'']
            else []
        | _ \<Rightarrow> [''Email is required'']) @
       (if \<not> truthy (get l ''phone'') \<or> \<not> isString (get l ''phone'') then [''Phone number is required'']
        else if sanitizePhone (get l ''phone'') = [] then [''Invalid phone number format'']
        else []) @
       (if \<not> truthy (get l ''address'') \<or> \<not> isString (get l ''address'') then [''Address is required'']
        else if length (sanitizeText replace (get l ''address'') 200) < 10
          then [''Address must be at least 10 characters'']
        else []) @
       (if \<not> truthy (get l ''propertyType'') \<or> \<not> js_includes validPropertyTypes (get l ''propertyType'')
        then [''Invalid property type''] else []) @
       (if \<not> truthy (get l ''timeline'') \<or> \<not> js_includes validTimelines (get l ''timeline'')
        then [''Invalid timeline''] else []) @
       (if \<not> truthy (get l ''details'') \<or> \<not> isString (get l ''details'') then [''Details are required'']
        else if length (sanitizeText replace (get l ''details'') 2000) < 10
          then [''Details must be at least 10 characters'']
        else [])"
  unfolding validateLeadData_def
  by (simp only: nullish.simps if_False sum.inject simp_thms ex_simps
        errors_validate_photoUrls errors_validate_details errors_validate_timeline
        errors_validate_propertyType errors_validate_address errors_validate_phone
        errors_validate_email errors_validate_lastName errors_validate_firstName
        validation.simps append_Nil append_assoc)

lemma isValidEmail_empty: "\<not> isValidEmail (toLowerCase [])"
  by (simp add: isValidEmail_def toLowerCase_def emailRegex_test_def)

lemma js_includes_truthy:
  "js_includes validPropertyTypes v \<Longrightarrow> truthy v \<and> isString v"
  "js_includes validTimelines v \<Longrightarrow> truthy v \<and> isString v"
  by (cases v; auto simp: validPropertyTypes_def validTimelines_def)+

lemma js_includes_blank:
  "trim s = [] \<Longrightarrow> \<not> js_includes validPropertyTypes (JStr s)"
  "trim s = [] \<Longrightarrow> \<not> js_includes validTimelines (JStr s)"
proof -
  have "\<forall>x \<in> set validPropertyTypes \<union> set validTimelines. trim x \<noteq> []"
    by code_simp
  then show "trim s = [] \<Longrightarrow> \<not> js_includes validPropertyTypes (JStr s)"
    and "trim s = [] \<Longrightarrow> \<not> js_includes validTimelines (JStr s)"
    by auto
qed

text \<open>
  Claim C8.  For every submitted object, \<open>validateLeadData\<close> returns, and its \<open>errors\<close>
  are the messages of all eight fields of the schema together, in the order of the
  schema: for each field one message when the field is missing, is not a string or fails
  its rule, and none otherwise.  So the errors are not empty whenever one of the eight
  fields is absent or falsy or not a string, and whenever one is blank after
  sanitization: an empty \<open>sanitizeText\<close> result for a text field, an empty
  \<open>sanitizePhone\<close> result, or a string that \<open>trim\<close> empties for the email, the property
  type and the timeline.
\<close>

theorem validateLeadData_collects_errors:
  "\<exists>v. validateLeadData replace (JObj l) = Inr v \<and>
     errors v =
       (if \<not> truthy (get l ''firstName'') \<or> \<not> isString (get l ''firstName'') then [''First name is required'']
        else if sanitizeText replace (get l ''firstName'') 50 = [] then [''First name cannot be empty'']
        else []) @
       (if \<not> truthy (get l ''lastName'') \<or> \<not> isString (get l ''lastName'') then [''Last name is required'']
        else if sanitizeText replace (get l ''lastName'') 50 = [] then [''Last name cannot be empty'']
        else []) @
       (case get l ''email'' of
          JStr email \<Rightarrow>
            if email = [] then [''Email is required'']
            else if \<not> isValidEmail (toLowerCase (trim email)) then [''Invalid email format'']
            else []
        | _ \<Rightarrow> [''Email is required'']) @
       (if \<not> truthy (get l ''phone'') \<or> \<not> isString (get l ''phone'') then [''Phone number is required'']
        else if sanitizePhone (get l ''phone'') = [] then [''Invalid phone number format'']
        else []) @
       (if \<not> truthy (get l ''address'') \<or> \<not> isString (get l ''address'') then [''Address is required'']
        else if length (sanitizeText replace (get l ''address'') 200) < 10
          then [''Address must be at least 10 characters'']
        else []) @
       (if \<not> truthy (get l ''propertyType'') \<or> \<not> js_includes validPropertyTypes (get l ''propertyType'')
        then [''Invalid property type''] else []) @
       (if \<not> truthy (get l ''timeline'') \<or> \<not> js_includes validTimelines (get l ''timeline'')
        then [''Invalid timeline''] else []) @
       (if \<not> truthy (get l ''details'') \<or> \<not> isString (get l ''details'') then [''Details are required'']
        else if length (sanitizeText replace (get l ''details'') 2000) < 10
          then [''Details must be at least 10 characters'']
        else []) \<and>
     ((\<exists>k \<in> set lead_fields. \<not> truthy (get l k) \<or> \<not> isString (get l k)) \<longrightarrow> errors v \<noteq> []) \<and>
     (sanitizeText replace (get l ''firstName'') 50 = [] \<or>
      sanitizeText replace (get l ''lastName'') 50 = [] \<or>
      (\<exists>s. get l ''email'' = JStr s \<and> trim s = []) \<or>
      sanitizePhone (get l ''phone'') = [] \<or>
      sanitizeText replace (get l ''address'') 200 = [] \<or>
      (\<exists>s. get l ''propertyType'' = JStr s \<and> trim s = []) \<or>
      (\<exists>s. get l ''timeline'' = JStr s \<and> trim s = []) \<or>
      sanitizeText replace (get l ''details'') 2000 = []
      \<longrightarrow> errors v \<noteq> [])"
proof -
  define e1 where "e1 =
       (if \<not> truthy (get l ''firstName'') \<or> \<not> isString (get l ''firstName'') then [''First name is required'']
        else if sanitizeText replace (get l ''firstName'') 50 = [] then [''First name cannot be empty'']
        else [])"
  define e2 where "e2 =
       (if \<not> truthy (get l ''lastName'') \<or> \<not> isString (get l ''lastName'') then [''Last name is required'']
        else if sanitizeText replace (get l ''lastName'') 50 = [] then [''Last name cannot be empty'']
        else [])"
  define e3 where "e3 =
       (case get l ''email'' of
          JStr email \<Rightarrow>
            if email = [] then [''Email is required'']
            else if \<not> isValidEmail (toLowerCase (trim email)) then [''Invalid email format'']
            else []
        | _ \<Rightarrow> [''Email is required''])"
  define e4 where "e4 =
       (if \<not> truthy (get l ''phone'') \<or> \<not> isString (get l ''phone'') then [''Phone number is required'']
        else if sanitizePhone (get l ''phone'') = [] then [''Invalid phone number format'']
        else [])"
  define e5 where "e5 =
       (if \<not> truthy (get l ''address'') \<or> \<not> isString (get l ''address'') then [''Address is required'']
        else if length (sanitizeText replace (get l ''address'') 200) < 10
          then [''Address must be at least 10 characters'']
        else [])"
  define e6 where "e6 =
       (if \<not> truthy (get l ''propertyType'') \<or> \<not> js_includes validPropertyTypes (get l ''propertyType'')
        then [''Invalid property type''] else [])"
  define e7 where "e7 =
       (if \<not> truthy (get l ''timeline'') \<or> \<not> js_includes validTimelines (get l ''timeline'')
        then [''Invalid timeline''] else [])"
  define e8 where "e8 =
       (if \<not> truthy (get l ''details'') \<or> \<not> isString (get l ''details'') then [''Details are required'']
        else if length (sanitizeText replace (get l ''details'') 2000) < 10
          then [''Details must be at least 10 characters'']
        else [])"
  from validateLeadData_errors [of replace l]
  obtain v where v: "validateLeadData replace (JObj l) = Inr v"
    and eq: "errors v = e1 @ e2 @ e3 @ e4 @ e5 @ e6 @ e7 @ e8"
    unfolding e1_def e2_def e3_def e4_def e5_def e6_def e7_def e8_def by blast
  have ne: "e1 \<noteq> [] \<or> e2 \<noteq> [] \<or> e3 \<noteq> [] \<or> e4 \<noteq> [] \<or> e5 \<noteq> [] \<or> e6 \<noteq> [] \<or> e7 \<noteq> [] \<or> e8 \<noteq> []
            \<Longrightarrow> errors v \<noteq> []"
    unfolding eq by (simp only: append_is_Nil_conv de_Morgan_conj)
  have m1: "\<not> truthy (get l ''firstName'') \<or> \<not> isString (get l ''firstName'') \<Longrightarrow> e1 \<noteq> []"
    unfolding e1_def by simp
  have m2: "\<not> truthy (get l ''lastName'') \<or> \<not> isString (get l ''lastName'') \<Longrightarrow> e2 \<noteq> []"
    unfolding e2_def by simp
  have m3: "\<not> truthy (get l ''email'') \<or> \<not> isString (get l ''email'') \<Longrightarrow> e3 \<noteq> []"
    unfolding e3_def by (cases "get l ''email''") auto
  have m4: "\<not> truthy (get l ''phone'') \<or> \<not> isString (get l ''phone'') \<Longrightarrow> e4 \<noteq> []"
    unfolding e4_def by simp
  have m5: "\<not> truthy (get l ''address'') \<or> \<not> isString (get l ''address'') \<Longrightarrow> e5 \<noteq> []"
    unfolding e5_def by simp
  have m6: "\<not> truthy (get l ''propertyType'') \<or> \<not> isString (get l ''propertyType'') \<Longrightarrow> e6 \<noteq> []"
    unfolding e6_def using js_includes_truthy(1) [of "get l ''propertyType''"] by auto
  have m7: "\<not> truthy (get l ''timeline'') \<or> \<not> isString (get l ''timeline'') \<Longrightarrow> e7 \<noteq> []"
    unfolding e7_def using js_includes_truthy(2) [of "get l ''timeline''"] by auto
  have m8: "\<not> truthy (get l ''details'') \<or> \<not> isString (get l ''details'') \<Longrightarrow> e8 \<noteq> []"
    unfolding e8_def by simp
  have missing: "(\<exists>k \<in> set lead_fields. \<not> truthy (get l k) \<or> \<not> isString (get l k)) \<longrightarrow> errors v \<noteq> []"
  proof
    assume "\<exists>k \<in> set lead_fields. \<not> truthy (get l k) \<or> \<not> isString (get l k)"
    then have "(\<not> truthy (get l ''firstName'') \<or> \<not> isString (get l ''firstName'')) \<or>
               (\<not> truthy (get l ''lastName'') \<or> \<not> isString (get l ''lastName'')) \<or>
               (\<not> truthy (get l ''email'') \<or> \<not> isString (get l ''email'')) \<or>
               (\<not> truthy (get l ''phone'') \<or> \<not> isString (get l ''phone'')) \<or>
               (\<not> truthy (get l ''address'') \<or> \<not> isString (get l ''address'')) \<or>
               (\<not> truthy (get l ''propertyType'') \<or> \<not> isString (get l ''propertyType'')) \<or>
               (\<not> truthy (get l ''timeline'') \<or> \<not> isString (get l ''timeline'')) \<or>
               (\<not> truthy (get l ''details'') \<or> \<not> isString (get l ''details''))"
      unfolding lead_fields_def by (simp only: list.set bex_simps Bex_def insert_iff empty_iff simp_thms ex_disj_distrib conj_disj_distribR simp_thms ex_simps) 
    then have "e1 \<noteq> [] \<or> e2 \<noteq> [] \<or> e3 \<noteq> [] \<or> e4 \<noteq> [] \<or> e5 \<noteq> [] \<or> e6 \<noteq> [] \<or> e7 \<noteq> [] \<or> e8 \<noteq> []"
      using m1 m2 m3 m4 m5 m6 m7 m8 by blast
    then show "errors v \<noteq> []" by (rule ne)
  qed
  have b1: "sanitizeText replace (get l ''firstName'') 50 = [] \<Longrightarrow> e1 \<noteq> []"
    unfolding e1_def by simp
  have b2: "sanitizeText replace (get l ''lastName'') 50 = [] \<Longrightarrow> e2 \<noteq> []"
    unfolding e2_def by simp
  have b3: "\<exists>s. get l ''email'' = JStr s \<and> trim s = [] \<Longrightarrow> e3 \<noteq> []"
  proof -
    assume "\<exists>s. get l ''email'' = JStr s \<and> trim s = []"
    then obtain s where s: "get l ''email'' = JStr s" "trim s = []" by blast
    show "e3 \<noteq> []"
      unfolding e3_def s(1) using isValidEmail_empty by (simp add: s(2))
  qed
  have b4: "sanitizePhone (get l ''phone'') = [] \<Longrightarrow> e4 \<noteq> []"
    unfolding e4_def by simp
  have b5: "sanitizeText replace (get l ''address'') 200 = [] \<Longrightarrow> e5 \<noteq> []"
    unfolding e5_def by simp
  have b6: "\<exists>s. get l ''propertyType'' = JStr s \<and> trim s = [] \<Longrightarrow> e6 \<noteq> []"
    unfolding e6_def using js_includes_blank(1) by auto
  have b7: "\<exists>s. get l ''timeline'' = JStr s \<and> trim s = [] \<Longrightarrow> e7 \<noteq> []"
    unfolding e7_def using js_includes_blank(2) by auto
  have b8: "sanitizeText replace (get l ''details'') 2000 = [] \<Longrightarrow> e8 \<noteq> []"
    unfolding e8_def by simp
  have blank: "sanitizeText replace (get l ''firstName'') 50 = [] \<or>
      sanitizeText replace (get l ''lastName'') 50 = [] \<or>
      (\<exists>s. get l ''email'' = JStr s \<and> trim s = []) \<or>
      sanitizePhone (get l ''phone'') = [] \<or>
      sanitizeText replace (get l ''address'') 200 = [] \<or>
      (\<exists>s. get l ''propertyType'' = JStr s \<and> trim s = []) \<or>
      (\<exists>s. get l ''timeline'' = JStr s \<and> trim s = []) \<or>
      sanitizeText replace (get l ''details'') 2000 = []
      \<longrightarrow> errors v \<noteq> []"
  proof
    assume "sanitizeText replace (get l ''firstName'') 50 = [] \<or>
      sanitizeText replace (get l ''lastName'') 50 = [] \<or>
      (\<exists>s. get l ''email'' = JStr s \<and> trim s = []) \<or>
      sanitizePhone (get l ''phone'') = [] \<or>
      sanitizeText replace (get l ''address'') 200 = [] \<or>
      (\<exists>s. get l ''propertyType'' = JStr s \<and> trim s = []) \<or>
      (\<exists>s. get l ''timeline'' = JStr s \<and> trim s = []) \<or>
      sanitizeText replace (get l ''details'') 2000 = []"
    then have "e1 \<noteq> [] \<or> e2 \<noteq> [] \<or> e3 \<noteq> [] \<or> e4 \<noteq> [] \<or> e5 \<noteq> [] \<or> e6 \<noteq> [] \<or> e7 \<noteq> [] \<or> e8 \<noteq> []"
      using b1 b2 b3 b4 b5 b6 b7 b8 by blast
    then show "errors v \<noteq> []" by (rule ne)
  qed
  have eq': "errors v =
       (if \<not> truthy (get l ''firstName'') \<or> \<not> isString (get l ''firstName'') then [''First name is required'']
        else if sanitizeText replace (get l ''firstName'') 50 = [] then [''First name cannot be empty'']
        else []) @
       (if \<not> truthy (get l ''lastName'') \<or> \<not> isString (get l ''lastName'') then [''Last name is required'']
        else if sanitizeText replace (get l ''lastName'') 50 = [] then [''Last name cannot be empty'']
        else []) @
       (case get l ''email'' of
          JStr email \<Rightarrow>
            if email = [] then [''Email is required'']
            else if \<not> isValidEmail (toLowerCase (trim email)) then [''Invalid email format'']
            else []
        | _ \<Rightarrow> [''Email is required'']) @
       (if \<not> truthy (get l ''phone'') \<or> \<not> isString (get l ''phone'') then [''Phone number is required'']
        else if sanitizePhone (get l ''phone'') = [] then [''Invalid phone number format'']
        else []) @
       (if \<not> truthy (get l ''address'') \<or> \<not> isString (get l ''address'') then [''Address is required'']
        else if length (sanitizeText replace (get l ''address'') 200) < 10
          then [''Address must be at least 10 characters'']
        else []) @
       (if \<not> truthy (get l ''propertyType'') \<or> \<not> js_includes validPropertyTypes (get l ''propertyType'')
        then [''Invalid property type''] else []) @
       (if \<not> truthy (get l ''timeline'') \<or> \<not> js_includes validTimelines (get l ''timeline'')
        then [''Invalid timeline''] else []) @
       (if \<not> truthy (get l ''details'') \<or> \<not> isString (get l ''details'') then [''Details are required'']
        else if length (sanitizeText replace (get l ''details'') 2000) < 10
          then [''Details must be at least 10 characters'']
        else [])"
    using eq unfolding e1_def e2_def e3_def e4_def e5_def e6_def e7_def e8_def .
  show ?thesis
    by (rule exI [of _ v]) (intro conjI v eq' missing blank)
qed

text \<open>
  The theorem at the empty submission, which gets the eight messages, and at a submission
  with seven wrong fields and a valid timeline, which gets seven.
\<close>

theorem validateLeadData_collects_errors_witness:
  "\<forall>replace.
     (\<exists>v. validateLeadData replace (JObj []) = Inr v \<and>
        errors v = [''First name is required'', ''Last name is required'', ''Email is required'',
                    ''Phone number is required'', ''Address is required'', ''Invalid property type'',
                    ''Invalid timeline'', ''Details are required'']) \<and>
     (\<exists>v. validateLeadData replace (JObj bad_submission) = Inr v \<and>
        errors v = [''First name is required'', ''Last name is required'', ''Invalid email format'',
                    ''Invalid phone number format'', ''Address is required'', ''Invalid property type'',
                    ''Details are required''])"
proof
  fix replace :: "pattern \<Rightarrow> string \<Rightarrow> string"
  have email: "\<not> isValidEmail (toLowerCase (trim ''not-an-email''))"
    by code_simp
  have phone: "sanitizePhone (JStr ''12345'') = []"
    by code_simp
  have one: "\<exists>v. validateLeadData replace (JObj []) = Inr v \<and>
        errors v = [''First name is required'', ''Last name is required'', ''Email is required'',
                    ''Phone number is required'', ''Address is required'', ''Invalid property type'',
                    ''Invalid timeline'', ''Details are required'']"
  proof -
    from validateLeadData_collects_errors [of replace "[]"]
    obtain v where "validateLeadData replace (JObj []) = Inr v" and
      "errors v =
       (if \<not> truthy (get [] ''firstName'') \<or> \<not> isString (get [] ''firstName'') then [''First name is required'']
        else if sanitizeText replace (get [] ''firstName'') 50 = [] then [''First name cannot be empty'']
        else []) @
       (if \<not> truthy (get [] ''lastName'') \<or> \<not> isString (get [] ''lastName'') then [''Last name is required'']
        else if sanitizeText replace (get [] ''lastName'') 50 = [] then [''Last name cannot be empty'']
        else []) @
       (case get [] ''email'' of
          JStr email \<Rightarrow>
            if email = [] then [''Email is required'']
            else if \<not> isValidEmail (toLowerCase (trim email)) then [''Invalid email format'']
            else []
        | _ \<Rightarrow> [''Email is required'']) @
       (if \<not> truthy (get [] ''phone'') \<or> \<not> isString (get [] ''phone'') then [''Phone number is required'']
        else if sanitizePhone (get [] ''phone'') = [] then [''Invalid phone number format'']
        else []) @
       (if \<not> truthy (get [] ''address'') \<or> \<not> isString (get [] ''address'') then [''Address is required'']
        else if length (sanitizeText replace (get [] ''address'') 200) < 10
          then [''Address must be at least 10 characters'']
        else []) @
       (if \<not> truthy (get [] ''propertyType'') \<or> \<not> js_includes validPropertyTypes (get [] ''propertyType'')
        then [''Invalid property type''] else []) @
       (if \<not> truthy (get [] ''timeline'') \<or> \<not> js_includes validTimelines (get [] ''timeline'')
        then [''Invalid timeline''] else []) @
       (if \<not> truthy (get [] ''details'') \<or> \<not> isString (get [] ''details'') then [''Details are required'']
        else if length (sanitizeText replace (get [] ''details'') 2000) < 10
          then [''Details must be at least 10 characters'']
        else [])"
      by blast
    then show ?thesis by simp
  qed
  have two: "\<exists>v. validateLeadData replace (JObj bad_submission) = Inr v \<and>
        errors v = [''First name is required'', ''Last name is required'', ''Invalid email format'',
                    ''Invalid phone number format'', ''Address is required'', ''Invalid property type'',
                    ''Details are required'']"
  proof -
    from validateLeadData_collects_errors [of replace bad_submission]
    obtain v where "validateLeadData replace (JObj bad_submission) = Inr v" and
      "errors v =
       (if \<not> truthy (get bad_submission ''firstName'') \<or> \<not> isString (get bad_submission ''firstName'') then [''First name is required'']
        else if sanitizeText replace (get bad_submission ''firstName'') 50 = [] then [''First name cannot be empty'']
        else []) @
       (if \<not> truthy (get bad_submission ''lastName'') \<or> \<not> isString (get bad_submission ''lastName'') then [''Last name is required'']
        else if sanitizeText replace (get bad_submission ''lastName'') 50 = [] then [''Last name cannot be empty'']
        else []) @
       (case get bad_submission ''email'' of
          JStr email \<Rightarrow>
            if email = [] then [''Email is required'']
            else if \<not> isValidEmail (toLowerCase (trim email)) then [''Invalid email format'']
            else []
        | _ \<Rightarrow> [''Email is required'']) @
       (if \<not> truthy (get bad_submission ''phone'') \<or> \<not> isString (get bad_submission ''phone'') then [''Phone number is required'']
        else if sanitizePhone (get bad_submission ''phone'') = [] then [''Invalid phone number format'']
        else []) @
       (if \<not> truthy (get bad_submission ''address'') \<or> \<not> isString (get bad_submission ''address'') then [''Address is required'']
        else if length (sanitizeText replace (get bad_submission ''address'') 200) < 10
          then [''Address must be at least 10 characters'']
        else []) @
       (if \<not> truthy (get bad_submission ''propertyType'') \<or> \<not> js_includes validPropertyTypes (get bad_submission ''propertyType'')
        then [''Invalid property type''] else []) @
       (if \<not> truthy (get bad_submission ''timeline'') \<or> \<not> js_includes validTimelines (get bad_submission ''timeline'')
        then [''Invalid timeline''] else []) @
       (if \<not> truthy (get bad_submission ''details'') \<or> \<not> isString (get bad_submission ''details'') then [''Details are required'']
        else if length (sanitizeText replace (get bad_submission ''details'') 2000) < 10
          then [''Details must be at least 10 characters'']
        else [])"
      by blast
    then show ?thesis
      using email phone
      by (simp add: bad_submission_def validPropertyTypes_def validTimelines_def)
  qed
  from one two show "(\<exists>v. validateLeadData replace (JObj []) = Inr v \<and>
        errors v = [''First name is required'', ''Last name is required'', ''Email is required'',
                    ''Phone number is required'', ''Address is required'', ''Invalid property type'',
                    ''Invalid timeline'', ''Details are required'']) \<and>
     (\<exists>v. validateLeadData replace (JObj bad_submission) = Inr v \<and>
        errors v = [''First name is required'', ''Last name is required'', ''Invalid email format'',
                    ''Invalid phone number format'', ''Address is required'', ''Invalid property type'',
                    ''Details are required''])"
    by (rule conjI)
qed

end
